(* ===== verification/Prelude.thy ===== *)
theory Prelude
  imports Complex_Main "HOL-Library.Multiset"
begin

text \<open>
  Shared vocabulary of the development: the Python and C++ helpers the two scripts of
  \<^verbatim>\<open>src/FCCSW_ecal\<close> lean on (string slicing, \<^verbatim>\<open>str\<close> of an
  integer, checked indexing), the error-propagating traversal of a list of results, and
  the lemmas about them that the component theories share.  Everything here is generic:
  no definition of this theory mentions the detector or the training.
\<close>

named_theorems py_simps "evaluation rules of the Python and C++ helpers"

type_synonym name = string

section \<open>Checked indexing\<close>

text \<open>
  Python raises \<^verbatim>\<open>IndexError\<close>, and \<^verbatim>\<open>ROOT::RVec::operator[]\<close> and
  \<^verbatim>\<open>std::vector::operator[]\<close> have no defined result, when an index is out of
  range.  HOL's \<open>xs ! i\<close> is some unspecified value there, so every index of the
  sources goes through \<open>nth_opt\<close>, which makes the out-of-range case visible.
\<close>

definition nth_opt :: "'a list \<Rightarrow> nat \<Rightarrow> 'a option" where
  "nth_opt xs i = (if i < length xs then Some (xs ! i) else None)"

lemma nth_opt_Some_iff [py_simps]:
  "nth_opt xs i = Some x \<longleftrightarrow> i < length xs \<and> xs ! i = x"
  by (auto simp: nth_opt_def)

lemma nth_opt_None_iff [py_simps]: "nth_opt xs i = None \<longleftrightarrow> length xs \<le> i"
  by (auto simp: nth_opt_def)

lemma nth_opt_Cons [py_simps]:
  "nth_opt (x # xs) 0 = Some x" "nth_opt (x # xs) (Suc i) = nth_opt xs i"
  by (simp_all add: nth_opt_def)

lemma nth_opt_Nil [py_simps]: "nth_opt [] i = None"
  by (simp add: nth_opt_def)

section \<open>Traversing a list of results\<close>

text \<open>
  A computation that may fail, run on every element of a list, fails with the first
  error, as a Python loop or a C++ loop that throws does.
\<close>

fun those_sum :: "('e + 'a) list \<Rightarrow> 'e + 'a list" where
  "those_sum [] = Inr []"
| "those_sum (x # xs) =
     (case x of Inl e \<Rightarrow> Inl e
      | Inr a \<Rightarrow> (case those_sum xs of Inl e \<Rightarrow> Inl e | Inr as \<Rightarrow> Inr (a # as)))"

lemma those_sum_map_Inr [simp]: "those_sum (map Inr ys) = Inr ys"
  by (induction ys) auto

lemma those_sum_Inr_iff [py_simps]: "those_sum xs = Inr ys \<longleftrightarrow> xs = map Inr ys"
proof (induction xs arbitrary: ys)
  case Nil
  then show ?case by auto
next
  case (Cons x xs)
  then show ?case
    by (cases x) (auto split: sum.splits)
qed

lemma those_sum_Inl_ex: "those_sum xs = Inl e \<Longrightarrow> Inl e \<in> set xs"
  by (induction xs) (auto split: sum.splits)

lemma those_sum_map_ok [py_simps]:
  assumes "\<forall>x \<in> set xs. f x = Inr (g x)"
  shows "those_sum (map f xs) = Inr (map g xs)"
  using assms by (induction xs) auto

lemma those_sum_length: "those_sum xs = Inr ys \<Longrightarrow> length ys = length xs"
  by (simp add: those_sum_Inr_iff)

text \<open>Sequencing of computations that may raise: the error of the first one wins.\<close>

definition sbind :: "'e + 'a \<Rightarrow> ('a \<Rightarrow> 'e + 'b) \<Rightarrow> 'e + 'b" where
  "sbind x f = (case x of Inl e \<Rightarrow> Inl e | Inr a \<Rightarrow> f a)"

lemma sbind_simps [simp]: "sbind (Inl e) f = Inl e" "sbind (Inr a) f = f a"
  by (simp_all add: sbind_def)

lemma sbind_eq_Inr_iff [py_simps]: "sbind x f = Inr b \<longleftrightarrow> (\<exists>a. x = Inr a \<and> f a = Inr b)"
  by (cases x) auto

section \<open>Python strings\<close>

text \<open>
  An equation between a string with an unknown prefix and a known string decides by the
  suffix; with literal \<open>s\<close> and \<open>t\<close> the simplifier computes the right side.
\<close>

lemma append_eq_conv_suffix:
  "(a @ s = t) \<longleftrightarrow>
     length s \<le> length t \<and> drop (length t - length s) t = s \<and> a = take (length t - length s) t"
proof
  assume "a @ s = t"
  then show "length s \<le> length t \<and> drop (length t - length s) t = s \<and> a = take (length t - length s) t"
    by auto
next
  assume "length s \<le> length t \<and> drop (length t - length s) t = s \<and> a = take (length t - length s) t"
  then have "a @ s = take (length t - length s) t @ drop (length t - length s) t" by simp
  then show "a @ s = t" by simp
qed

text \<open>
  \<^verbatim>\<open>s[:-1]\<close>: the slice stops one before the end; on the empty string the stop
  index \<open>-1\<close> is clamped to 0 and the slice is empty.
\<close>

definition py_drop_last :: "string \<Rightarrow> string" where
  "py_drop_last s = take (length s - 1) s"

lemma py_drop_last_butlast [py_simps]: "py_drop_last s = butlast s"
  by (simp add: py_drop_last_def butlast_conv_take)

text \<open>
  \<^verbatim>\<open>sep.join(xs)\<close>: the strings of \<open>xs\<close> with \<open>sep\<close> between
  each two (argparse lists the unrecognised arguments so, and Geant4's command parser
  rebuilds the rest of a line so).
\<close>

fun py_join :: "string \<Rightarrow> string list \<Rightarrow> string" where
  "py_join sep [] = []"
| "py_join sep [x] = x"
| "py_join sep (x # y # xs) = x @ sep @ py_join sep (y # xs)"

text \<open>
  \<^verbatim>\<open>str(i)\<close> (and \<^verbatim>\<open>f"{i}"\<close>) of a non-negative integer: its decimal digits,
  most significant first.  \<open>py_int_of_str\<close> is \<^verbatim>\<open>int(s)\<close> on a string of
  decimal digits (\<open>None\<close> where Python raises \<^verbatim>\<open>ValueError\<close>).
\<close>

definition digit_char :: "nat \<Rightarrow> char" where
  "digit_char d = ''0123456789'' ! d"

fun py_str_nat :: "nat \<Rightarrow> string" where
  "py_str_nat n =
     (if n < 10 then [digit_char n] else py_str_nat (n div 10) @ [digit_char (n mod 10)])"

declare py_str_nat.simps [simp del]

fun digits_val :: "nat \<Rightarrow> string \<Rightarrow> nat option" where
  "digits_val acc [] = Some acc"
| "digits_val acc (c # cs) =
     (let d = of_char c :: nat in
      if 48 \<le> d \<and> d < 58 then digits_val (10 * acc + (d - 48)) cs else None)"

definition py_int_of_str :: "string \<Rightarrow> nat option" where
  "py_int_of_str s = (if s = [] then None else digits_val 0 s)"

lemma digits_val_append:
  "digits_val acc (s @ t) = (case digits_val acc s of None \<Rightarrow> None | Some a \<Rightarrow> digits_val a t)"
  by (induction acc s rule: digits_val.induct) (auto simp: Let_def)

lemma of_char_digit_char: "d < 10 \<Longrightarrow> (of_char (digit_char d) :: nat) = 48 + d"
  by (simp add: digit_char_def less_Suc_eq numeral_eq_Suc, elim disjE, simp_all)

lemma digits_val_py_str_nat:
  "digits_val acc (py_str_nat n) = Some (10 ^ length (py_str_nat n) * acc + n)"
proof (induction n arbitrary: acc rule: py_str_nat.induct)
  case (1 n)
  show ?case
  proof (cases "n < 10")
    case True
    then show ?thesis
      by (simp add: py_str_nat.simps [of n] of_char_digit_char)
  next
    case False
    have "10 * (10 ^ length (py_str_nat (n div 10)) * acc + n div 10) + n mod 10
        = 10 ^ Suc (length (py_str_nat (n div 10))) * acc + n"
      by (simp add: algebra_simps)
    with False "1.IH" show ?thesis
      by (simp add: py_str_nat.simps [of n] digits_val_append of_char_digit_char)
  qed
qed

lemma py_str_nat_not_Nil [py_simps]: "py_str_nat n \<noteq> []"
  by (simp add: py_str_nat.simps [of n])

lemma py_int_of_str_py_str_nat [py_simps]: "py_int_of_str (py_str_nat n) = Some n"
  by (simp add: py_int_of_str_def digits_val_py_str_nat py_str_nat_not_Nil)

lemma py_str_nat_inj [py_simps]: "py_str_nat m = py_str_nat n \<longleftrightarrow> m = n"
  by (metis option.inject py_int_of_str_py_str_nat)

lemma inj_py_str_nat: "inj py_str_nat"
  by (simp add: inj_def py_str_nat_inj)

lemma py_str_nat_digits:
  "list_all (\<lambda>c. 48 \<le> (of_char c :: nat) \<and> (of_char c :: nat) < 58) (py_str_nat n)"
proof (induction n rule: py_str_nat.induct)
  case (1 n)
  then show ?case
    by (cases "n < 10") (simp_all add: py_str_nat.simps [of n] of_char_digit_char)
qed

lemma digits_val_acc:
  "digits_val acc s = map_option (\<lambda>n. 10 ^ length s * acc + n) (digits_val 0 s)"
proof (induction s arbitrary: acc)
  case (Cons c cs)
  show ?case
  proof (cases "48 \<le> (of_char c :: nat) \<and> (of_char c :: nat) < 58")
    case True
    define d where "d = (of_char c :: nat) - 48"
    have "digits_val acc (c # cs) = digits_val (10 * acc + d) cs" "digits_val 0 (c # cs) = digits_val d cs"
      using True by (simp_all add: d_def Let_def)
    then show ?thesis
      using Cons.IH [of "10 * acc + d"] Cons.IH [of d] by (simp add: option.map_comp comp_def algebra_simps)
  next
    case False
    then show ?thesis by (auto simp: Let_def)
  qed
qed simp

text \<open>
  The decimal rendering of \<^verbatim>\<open>f"{i}"\<close> (lines 43, 44 and 47 of
  \<^verbatim>\<open>training.py\<close>) is a non-empty string of ASCII digits (codes 48 to 57) that
  \<^verbatim>\<open>int()\<close> reads back as \<open>i\<close>; so distinct layer indices give distinct
  column names.
\<close>

theorem py_str_nat_roundtrip:
  "py_int_of_str (py_str_nat n) = Some n \<and> py_str_nat n \<noteq> [] \<and>
   list_all (\<lambda>c. 48 \<le> (of_char c :: nat) \<and> (of_char c :: nat) < 58) (py_str_nat n)"
  by (simp add: py_int_of_str_py_str_nat py_str_nat_not_Nil py_str_nat_digits)

end
