(* ===== verification/DataFrame.thy ===== *)
theory DataFrame
  imports Prelude
begin

text \<open>
  The part of ROOT's \<^verbatim>\<open>RDataFrame\<close> that \<^verbatim>\<open>run\<close> in
  \<^verbatim>\<open>src/FCCSW_ecal/training.py\<close> drives: a computation graph built by
  \<^verbatim>\<open>Define\<close>, \<^verbatim>\<open>Alias\<close> and \<^verbatim>\<open>Filter\<close> on top of the branches of the input
  tree, evaluated lazily event by event, and read out by \<^verbatim>\<open>Count\<close> and
  \<^verbatim>\<open>AsNumpy\<close>.  The graph is a record of the branches and of the defined columns
  (latest first); a column is computed from the values of the columns it names, so its
  evaluation recurses into strictly earlier definitions.  Every way the library raises
  (a column defined twice, an unknown column, a value of the wrong type, vectors of
  different sizes) and every out-of-range \<^verbatim>\<open>operator[]\<close> (no defined result in
  C++) is a value of \<open>rdf_error\<close>.
\<close>

section \<open>Values, errors, the graph\<close>

record particle =
  mom_x :: real
  mom_y :: real
  mom_z :: real

text \<open>An EDM4hep cluster: its energy and the range of its cells in the cell collection.\<close>

record cluster =
  cl_energy :: real
  hits_begin :: nat
  hits_end :: nat

text \<open>A calorimeter cell, with the layer field of its cell identifier already decoded.\<close>

record cell =
  cell_layer :: nat
  cell_energy :: real

datatype rval =
    RScalar real
  | RIndex nat
  | RVec "real list"
  | RVecVec "real list list"
  | RClusters "cluster list"
  | RCells "cell list"

datatype rdf_error =
    Redefined name
  | UnknownColumn name
  | BadType name
  | SizeMismatch name
  | OutOfRange name

type_synonym row = "name \<Rightarrow> rval option"
type_synonym colfn = "rval list \<Rightarrow> rdf_error + rval"
type_synonym filterfn = "rval list \<Rightarrow> rdf_error + bool"

record coldef =
  col_name :: name
  col_deps :: "name list"
  col_fn :: colfn

record dframe =
  df_branches :: "name list"
  df_defs :: "coldef list"
  df_filters :: "(name list \<times> filterfn) list"

datatype df_op =
    DefineOp name "name list" colfn
  | AliasOp name name
  | FilterOp "name list" filterfn

definition df_root :: "name list \<Rightarrow> dframe" where
  "df_root bs = \<lparr>df_branches = bs, df_defs = [], df_filters = []\<rparr>"

definition df_known :: "dframe \<Rightarrow> name \<Rightarrow> bool" where
  "df_known d n \<longleftrightarrow> n \<in> set (df_branches d) \<or> n \<in> set (map col_name (df_defs d))"

definition alias_fn :: "name \<Rightarrow> colfn" where
  "alias_fn a vs = (case vs of [v] \<Rightarrow> Inr v | _ \<Rightarrow> Inl (BadType a))"

definition missing_col :: "dframe \<Rightarrow> name list \<Rightarrow> name option" where
  "missing_col d ns = find (\<lambda>c. \<not> df_known d c) ns"

fun df_apply :: "df_op \<Rightarrow> dframe \<Rightarrow> rdf_error + dframe" where
  "df_apply (DefineOp n deps f) d =
     (if df_known d n then Inl (Redefined n)
      else case missing_col d deps of
        Some c \<Rightarrow> Inl (UnknownColumn c)
      | None \<Rightarrow> Inr (d\<lparr>df_defs := \<lparr>col_name = n, col_deps = deps, col_fn = f\<rparr> # df_defs d\<rparr>))"
| "df_apply (AliasOp a c) d =
     (if df_known d a then Inl (Redefined a)
      else if \<not> df_known d c then Inl (UnknownColumn c)
      else Inr (d\<lparr>df_defs := \<lparr>col_name = a, col_deps = [c], col_fn = alias_fn a\<rparr> # df_defs d\<rparr>))"
| "df_apply (FilterOp deps p) d =
     (case missing_col d deps of
        Some c \<Rightarrow> Inl (UnknownColumn c)
      | None \<Rightarrow> Inr (d\<lparr>df_filters := df_filters d @ [(deps, p)]\<rparr>))"

text \<open>A chain \<^verbatim>\<open>df.Define(..).Alias(..)...\<close>: the first call that raises stops it.\<close>

fun df_chain :: "df_op list \<Rightarrow> dframe \<Rightarrow> rdf_error + dframe" where
  "df_chain [] d = Inr d"
| "df_chain (op # ops) d = sbind (df_apply op d) (df_chain ops)"

section \<open>Lazy evaluation of one event\<close>

text \<open>
  The value of column \<open>n\<close> in an event whose branches are \<open>r\<close>: the latest
  definition of \<open>n\<close>, applied to the values of its dependencies, which are computed from
  the definitions before it; a name that no definition carries is read from the tree.
\<close>

fun eval_col :: "coldef list \<Rightarrow> row \<Rightarrow> name \<Rightarrow> rdf_error + rval" where
  "eval_col [] r n = (case r n of None \<Rightarrow> Inl (UnknownColumn n) | Some v \<Rightarrow> Inr v)"
| "eval_col (c # cs) r n =
     (if col_name c = n then sbind (those_sum (map (eval_col cs r) (col_deps c))) (col_fn c)
      else eval_col cs r n)"

text \<open>Filters run in the order they were booked; a failing one stops the others.\<close>

fun eval_filters :: "coldef list \<Rightarrow> row \<Rightarrow> (name list \<times> filterfn) list \<Rightarrow> rdf_error + bool" where
  "eval_filters cs r [] = Inr True"
| "eval_filters cs r ((deps, p) # fs) =
     sbind (sbind (those_sum (map (eval_col cs r) deps)) p)
       (\<lambda>b. if b then eval_filters cs r fs else Inr False)"

definition as_scalar :: "name \<Rightarrow> rval \<Rightarrow> rdf_error + real" where
  "as_scalar n v = (case v of RScalar x \<Rightarrow> Inr x | _ \<Rightarrow> Inl (BadType n))"

text \<open>
  One event as \<^verbatim>\<open>AsNumpy\<close> sees it: \<open>None\<close> when a filter rejects it, otherwise
  the values of the requested scalar columns.  Columns are evaluated only for events that
  pass, as the lazy event loop does.
\<close>

definition row_values :: "dframe \<Rightarrow> name list \<Rightarrow> row \<Rightarrow> rdf_error + real list option" where
  "row_values d ns r =
     sbind (eval_filters (df_defs d) r (df_filters d))
       (\<lambda>pass. if pass
               then sbind (those_sum (map (\<lambda>n. sbind (eval_col (df_defs d) r n) (as_scalar n)) ns))
                      (\<lambda>vs. Inr (Some vs))
               else Inr None)"

definition columns_of :: "nat \<Rightarrow> real list list \<Rightarrow> real list list" where
  "columns_of k rows = map (\<lambda>j. map (\<lambda>vs. vs ! j) rows) [0..<k]"

definition as_numpy :: "dframe \<Rightarrow> name list \<Rightarrow> row list \<Rightarrow> rdf_error + (name \<rightharpoonup> real list)" where
  "as_numpy d ns rows =
     (case missing_col d ns of
        Some c \<Rightarrow> Inl (UnknownColumn c)
      | None \<Rightarrow> sbind (those_sum (map (row_values d ns) rows))
                 (\<lambda>vals. Inr (map_of (zip ns (columns_of (length ns) (List.map_filter id vals))))))"

definition df_count :: "row list \<Rightarrow> nat" where
  "df_count rows = length rows"

section \<open>Well-formed graphs\<close>

text \<open>
  The columns a graph knows, newest first, and the check that a chain of operations
  raises nothing: every new name is fresh and every name used is already known.
\<close>

definition df_columns :: "dframe \<Rightarrow> name list" where
  "df_columns d = map col_name (df_defs d) @ df_branches d"

fun op_def :: "df_op \<Rightarrow> coldef list" where
  "op_def (DefineOp n deps f) = [\<lparr>col_name = n, col_deps = deps, col_fn = f\<rparr>]"
| "op_def (AliasOp a c) = [\<lparr>col_name = a, col_deps = [c], col_fn = alias_fn a\<rparr>]"
| "op_def (FilterOp deps p) = []"

fun op_filter :: "df_op \<Rightarrow> (name list \<times> filterfn) list" where
  "op_filter (FilterOp deps p) = [(deps, p)]"
| "op_filter (DefineOp n deps f) = []"
| "op_filter (AliasOp a c) = []"

fun ops_wf :: "name list \<Rightarrow> df_op list \<Rightarrow> bool" where
  "ops_wf ks [] = True"
| "ops_wf ks (DefineOp n deps f # ops) = (n \<notin> set ks \<and> set deps \<subseteq> set ks \<and> ops_wf (n # ks) ops)"
| "ops_wf ks (AliasOp a c # ops) = (a \<notin> set ks \<and> c \<in> set ks \<and> ops_wf (a # ks) ops)"
| "ops_wf ks (FilterOp deps p # ops) = (set deps \<subseteq> set ks \<and> ops_wf ks ops)"

text \<open>
  The invariant of the defined columns: names are distinct and fresh against the branches,
  and each column uses only branches and columns defined before it.
\<close>

fun defs_wf :: "name list \<Rightarrow> coldef list \<Rightarrow> bool" where
  "defs_wf bs [] = True"
| "defs_wf bs (c # cs) =
     (col_name c \<notin> set bs \<and> col_name c \<notin> set (map col_name cs) \<and>
      set (col_deps c) \<subseteq> set bs \<union> set (map col_name cs) \<and> defs_wf bs cs)"

lemma df_known_columns [simp]: "df_known d n \<longleftrightarrow> n \<in> set (df_columns d)"
  by (auto simp: df_known_def df_columns_def)

lemma missing_col_None_iff [simp]: "missing_col d ns = None \<longleftrightarrow> set ns \<subseteq> set (df_columns d)"
  by (auto simp: missing_col_def find_None_iff)

lemma missing_col_SomeD: "missing_col d ns = Some c \<Longrightarrow> c \<in> set ns \<and> c \<notin> set (df_columns d)"
  by (auto simp: missing_col_def find_Some_iff in_set_conv_nth)

lemma df_apply_Inr_iff:
  "df_apply op d = Inr d' \<longleftrightarrow>
     ops_wf (df_columns d) [op] \<and>
     d' = d\<lparr>df_defs := op_def op @ df_defs d, df_filters := df_filters d @ op_filter op\<rparr>"
  by (cases op) (auto dest: missing_col_SomeD split: option.splits)

lemma df_columns_update [simp]:
  "df_columns (d\<lparr>df_defs := cs @ df_defs d, df_filters := fs\<rparr>) = map col_name cs @ df_columns d"
  by (simp add: df_columns_def)

lemma rev_op_def [simp]: "rev (op_def op) = op_def op"
  by (cases op) simp_all

lemma ops_wf_Cons:
  "ops_wf ks (op # ops) \<longleftrightarrow> ops_wf ks [op] \<and> ops_wf (map col_name (op_def op) @ ks) ops"
  by (cases op) auto

theorem df_chain_Inr_iff:
  "df_chain ops d = Inr d' \<longleftrightarrow>
     ops_wf (df_columns d) ops \<and>
     d' = d\<lparr>df_defs := rev (concat (map op_def ops)) @ df_defs d,
            df_filters := df_filters d @ concat (map op_filter ops)\<rparr>"
proof (induction ops arbitrary: d)
  case Nil
  then show ?case by auto
next
  case (Cons op ops)
  show ?case
  proof (cases "df_apply op d")
    case (Inl e)
    then have "\<not> ops_wf (df_columns d) [op]"
      by (cases op) (auto dest: missing_col_SomeD split: option.splits if_splits)
    with Inl show ?thesis by (simp only: ops_wf_Cons [of "df_columns d" op ops]) simp
  next
    case (Inr d1)
    then have d1: "ops_wf (df_columns d) [op]"
      "d1 = d\<lparr>df_defs := op_def op @ df_defs d, df_filters := df_filters d @ op_filter op\<rparr>"
      by (simp_all add: df_apply_Inr_iff)
    moreover have "df_columns d1 = map col_name (op_def op) @ df_columns d"
      using d1(2) by (simp add: df_columns_def)
    ultimately show ?thesis
      using Inr Cons.IH [of d1] ops_wf_Cons [of "df_columns d" op ops] by auto
  qed
qed

corollary df_chain_ok_iff: "(\<exists>d'. df_chain ops d = Inr d') \<longleftrightarrow> ops_wf (df_columns d) ops"
  by (simp add: df_chain_Inr_iff)

lemma df_apply_defs_wf:
  assumes "df_apply op d = Inr d1" and "defs_wf (df_branches d) (df_defs d)"
  shows "defs_wf (df_branches d1) (df_defs d1)"
proof -
  from assms(1) have ok: "ops_wf (df_columns d) [op]"
    and d1: "d1 = d\<lparr>df_defs := op_def op @ df_defs d, df_filters := df_filters d @ op_filter op\<rparr>"
    by (simp_all only: df_apply_Inr_iff)
  from ok assms(2) show ?thesis
    unfolding d1 by (cases op) (auto simp: df_columns_def)
qed

lemma df_chain_defs_wf:
  "df_chain ops d = Inr d' \<Longrightarrow> defs_wf (df_branches d) (df_defs d) \<Longrightarrow>
   defs_wf (df_branches d') (df_defs d')"
proof (induction ops arbitrary: d)
  case Nil
  then show ?case by simp
next
  case (Cons op ops)
  then obtain d1 where d1: "df_apply op d = Inr d1" and rest: "df_chain ops d1 = Inr d'"
    by (auto simp: sbind_eq_Inr_iff)
  from d1 Cons.prems(2) have "defs_wf (df_branches d1) (df_defs d1)"
    by (rule df_apply_defs_wf)
  with rest show ?case by (rule Cons.IH)
qed

lemma df_chain_branches: "df_chain ops d = Inr d' \<Longrightarrow> df_branches d' = df_branches d"
  by (simp add: df_chain_Inr_iff)

lemma defs_wf_root [simp]: "defs_wf bs (df_defs (df_root bs))" "df_branches (df_root bs) = bs"
  by (simp_all add: df_root_def)

lemma defs_wf_appendD: "defs_wf bs (pre @ cs) \<Longrightarrow> defs_wf bs cs"
  by (induction pre) auto

lemma defs_wf_name_notin_prefix:
  "defs_wf bs (pre @ c # cs) \<Longrightarrow> col_name c \<notin> set (map col_name pre)"
  by (induction pre) auto

lemma eval_col_known_tail:
  "defs_wf bs (pre @ cs) \<Longrightarrow> n \<in> set bs \<union> set (map col_name cs) \<Longrightarrow>
   eval_col (pre @ cs) r n = eval_col cs r n"
  by (induction pre) auto

text \<open>
  Laziness is harmless in a well-formed graph: a column evaluates from its dependencies
  read in the whole graph, and a branch is read from the tree.
\<close>

theorem eval_col_defined:
  assumes wf: "defs_wf bs defs" and c: "c \<in> set defs"
  shows "eval_col defs r (col_name c) =
           sbind (those_sum (map (eval_col defs r) (col_deps c))) (col_fn c)"
proof -
  from c obtain pre cs where defs: "defs = pre @ c # cs"
    by (meson split_list)
  with wf have notin: "col_name c \<notin> set (map col_name pre)"
    using defs_wf_name_notin_prefix [of bs pre c cs] by simp
  from wf defs have wf_c: "defs_wf bs (c # cs)"
    using defs_wf_appendD [of bs pre "c # cs"] by blast
  have deps: "eval_col cs r x = eval_col defs r x" if "x \<in> set (col_deps c)" for x
  proof -
    from wf_c that have "x \<in> set bs \<union> set (map col_name cs)" by auto
    moreover from wf defs have "defs_wf bs ((pre @ [c]) @ cs)" by simp
    ultimately show ?thesis
      using defs eval_col_known_tail [of bs "pre @ [c]" cs x r] by simp
  qed
  have "eval_col defs r (col_name c) = eval_col (c # cs) r (col_name c)"
  proof -
    have "eval_col (pre @ c # cs) r (col_name c) = eval_col (c # cs) r (col_name c)"
      using notin by (induction pre) auto
    then show ?thesis by (simp add: defs)
  qed
  also have "\<dots> = sbind (those_sum (map (eval_col cs r) (col_deps c))) (col_fn c)"
    by simp
  also have "map (eval_col cs r) (col_deps c) = map (eval_col defs r) (col_deps c)"
    using deps by simp
  finally show ?thesis .
qed

lemma eval_col_branch:
  "defs_wf bs defs \<Longrightarrow> n \<in> set bs \<Longrightarrow>
   eval_col defs r n = (case r n of None \<Rightarrow> Inl (UnknownColumn n) | Some v \<Rightarrow> Inr v)"
  using eval_col_known_tail [of bs defs "[]" n r] by simp

text \<open>The same, with the definition found by its name.\<close>

lemma eval_col_find:
  assumes "defs_wf bs defs" and "find (\<lambda>c. col_name c = n) defs = Some c"
  shows "eval_col defs r n = sbind (those_sum (map (eval_col defs r) (col_deps c))) (col_fn c)"
proof -
  from assms(2) have "c \<in> set defs" and "col_name c = n"
    by (auto simp: find_Some_iff)
  with eval_col_defined [OF assms(1)] show ?thesis by blast
qed

section \<open>The graph invariant\<close>

end
