(* ===== verification/ColumnOps.thy ===== *)
theory ColumnOps
  imports DataFrame
begin

text \<open>
  The meaning of each expression string that \<^verbatim>\<open>run\<close> in
  \<^verbatim>\<open>src/FCCSW_ecal/training.py\<close> passes to \<^verbatim>\<open>Define\<close> and \<^verbatim>\<open>Filter\<close>
  (lines 35--44 and 50), as a function from the values of the columns the expression
  names, in the order it names them, to the value of the new column.  The C++ helpers
  those strings call come from ROOT (\<^verbatim>\<open>ArgMax\<close>) and FCCAnalyses
  (\<^verbatim>\<open>getCaloCluster_energyInLayers\<close>, \<^verbatim>\<open>getFloatAt\<close>); they are modelled as
  those libraries implement them, with every unchecked \<^verbatim>\<open>operator[]\<close> made an
  \<open>OutOfRange\<close> error.  Floating-point values are modelled as reals.
\<close>

section \<open>ROOT::VecOps::ArgMax\<close>

text \<open>
  \<^verbatim>\<open>ArgMax(v)\<close> is \<^verbatim>\<open>std::distance(v.begin(), std::max_element(v.begin(), v.end()))\<close>.
  \<^verbatim>\<open>max_element\<close> keeps the first element seen and replaces it only by a strictly
  larger one; on an empty vector it returns \<^verbatim>\<open>end\<close>, so \<^verbatim>\<open>ArgMax\<close> is 0.
\<close>

fun argmax_loop :: "real list \<Rightarrow> nat \<Rightarrow> nat \<Rightarrow> real \<Rightarrow> nat" where
  "argmax_loop [] i b bv = b"
| "argmax_loop (x # xs) i b bv =
     (if bv < x then argmax_loop xs (Suc i) i x else argmax_loop xs (Suc i) b bv)"

definition rvec_argmax :: "real list \<Rightarrow> nat" where
  "rvec_argmax v = (case v of [] \<Rightarrow> 0 | x # xs \<Rightarrow> argmax_loop xs 1 0 x)"

text \<open>The reference: the length of the run before the first maximal element.\<close>

definition first_max_idx :: "real list \<Rightarrow> nat" where
  "first_max_idx v = length (takeWhile (\<lambda>x. x \<noteq> Max (set v)) v)"

definition is_first_max :: "real list \<Rightarrow> nat \<Rightarrow> bool" where
  "is_first_max v i \<longleftrightarrow>
     i < length v \<and> (\<forall>j < length v. v ! j \<le> v ! i) \<and> (\<forall>j < i. v ! j < v ! i)"

lemma is_first_max_unique:
  assumes "is_first_max v i" and "is_first_max v k"
  shows "i = k"
proof (rule ccontr)
  assume "i \<noteq> k"
  then consider "i < k" | "k < i" by linarith
  then show False
  proof cases
    case 1
    with assms have "v ! i < v ! k" and "v ! i \<le> v ! k" "v ! k \<le> v ! i"
      by (auto simp: is_first_max_def)
    then show False by simp
  next
    case 2
    with assms have "v ! k < v ! i" and "v ! i \<le> v ! k"
      by (auto simp: is_first_max_def)
    then show False by simp
  qed
qed

lemma argmax_loop_first_max:
  assumes "is_first_max p b" and "bv = p ! b" and "i = length p"
  shows "is_first_max (p @ xs) (argmax_loop xs i b bv)"
  using assms
proof (induction xs arbitrary: p i b bv)
  case Nil
  then show ?case by simp
next
  case (Cons x xs)
  show ?case
  proof (cases "bv < x")
    case True
    have "is_first_max (p @ [x]) i"
      using Cons.prems True
      by (auto simp: is_first_max_def nth_append less_Suc_eq)
    with True Cons.IH [where p = "p @ [x]" and b = i and i = "Suc i" and bv = x] Cons.prems show ?thesis
      by simp
  next
    case False
    have "is_first_max (p @ [x]) b"
      using Cons.prems False
      by (auto simp: is_first_max_def nth_append less_Suc_eq)
    with False Cons.IH [where p = "p @ [x]" and b = b and i = "Suc i" and bv = bv] Cons.prems show ?thesis
      by (simp add: nth_append is_first_max_def)
  qed
qed

lemma rvec_argmax_first_max: "v \<noteq> [] \<Longrightarrow> is_first_max v (rvec_argmax v)"
proof (cases v)
  case (Cons x xs)
  have "is_first_max [x] 0" by (simp add: is_first_max_def)
  from argmax_loop_first_max [OF this, of x 1 xs] Cons show ?thesis
    by (simp add: rvec_argmax_def)
qed simp

lemma first_max_idx_first_max: "v \<noteq> [] \<Longrightarrow> is_first_max v (first_max_idx v)"
proof -
  assume "v \<noteq> []"
  let ?m = "Max (set v)"
  let ?k = "first_max_idx v"
  have mem: "?m \<in> set v" using \<open>v \<noteq> []\<close> by simp
  have ub: "v ! j \<le> ?m" if "j < length v" for j
    using that by simp
  let ?P = "\<lambda>x. x \<noteq> ?m"
  have "length (takeWhile ?P v) \<noteq> length v"
  proof
    assume "length (takeWhile ?P v) = length v"
    then have "takeWhile ?P v = v"
      using takeWhile_eq_take [of ?P v] by simp
    then have "\<forall>x \<in> set v. ?P x"
      by (simp only: takeWhile_eq_all_conv)
    with mem show False by blast
  qed
  then have k_lt: "?k < length v"
    using length_takeWhile_le [of ?P v] by (simp add: first_max_idx_def)
  have vk: "v ! ?k = ?m"
    using k_lt nth_length_takeWhile [of ?P v] by (simp add: first_max_idx_def)
  have before: "v ! j \<noteq> ?m" if "j < ?k" for j
  proof -
    from that have "takeWhile ?P v ! j = v ! j"
      by (simp add: first_max_idx_def takeWhile_nth)
    moreover from that have "takeWhile ?P v ! j \<in> set (takeWhile ?P v)"
      by (simp add: first_max_idx_def)
    then have "?P (takeWhile ?P v ! j)"
      by (blast dest: set_takeWhileD)
    ultimately show ?thesis by simp
  qed
  show ?thesis
    unfolding is_first_max_def
  proof (intro conjI allI impI)
    show "?k < length v" by (rule k_lt)
  next
    fix j assume "j < length v"
    then show "v ! j \<le> v ! ?k" using ub vk by simp
  next
    fix j assume "j < ?k"
    then have "v ! j \<le> ?m" and "v ! j \<noteq> ?m" using k_lt ub before by auto
    then show "v ! j < v ! ?k" using vk by simp
  qed
qed

lemma rvec_argmax_first_idx: "v \<noteq> [] \<Longrightarrow> rvec_argmax v = first_max_idx v"
  by (rule is_first_max_unique [OF rvec_argmax_first_max first_max_idx_first_max])

lemma rvec_argmax_Nil [simp]: "rvec_argmax [] = 0"
  by (simp add: rvec_argmax_def)

lemma rvec_argmax_bounds:
  "v \<noteq> [] \<Longrightarrow> rvec_argmax v < length v \<and> v ! rvec_argmax v = Max (set v)"
proof -
  assume ne: "v \<noteq> []"
  then have fm: "is_first_max v (rvec_argmax v)" by (rule rvec_argmax_first_max)
  then have lt: "rvec_argmax v < length v" by (simp add: is_first_max_def)
  have "Max (set v) \<le> v ! rvec_argmax v"
    using fm ne by (auto simp: is_first_max_def in_set_conv_nth)
  moreover have "v ! rvec_argmax v \<le> Max (set v)"
    using lt by simp
  ultimately show ?thesis using lt by simp
qed

section \<open>The expressions of the column definitions\<close>

text \<open>
  \<^verbatim>\<open>sqrt(y*y+x*x+z*z)\<close> over the three momentum branches of
  \<^verbatim>\<open>genParticles\<close> (line 35): element-wise \<^verbatim>\<open>RVec\<close> arithmetic, which raises
  when the operands have different sizes.
\<close>

definition e_truth_fn :: "name \<Rightarrow> colfn" where
  "e_truth_fn n vs =
     (case vs of
        [RVec ys, RVec xs, RVec zs] \<Rightarrow>
          (if length ys = length xs \<and> length xs = length zs
           then Inr (RVec (map (\<lambda>((y, x), z). sqrt (y * y + x * x + z * z)) (zip (zip ys xs) zs)))
           else Inl (SizeMismatch n))
      | _ \<Rightarrow> Inl (BadType n))"

text \<open>\<^verbatim>\<open>v[k]\<close> for a constant \<open>k\<close> (line 36, \<^verbatim>\<open>E_truth_v[0]\<close>).\<close>

definition const_index_fn :: "name \<Rightarrow> nat \<Rightarrow> colfn" where
  "const_index_fn n k vs =
     (case vs of
        [RVec v] \<Rightarrow> (case nth_opt v k of None \<Rightarrow> Inl (OutOfRange n) | Some x \<Rightarrow> Inr (RScalar x))
      | _ \<Rightarrow> Inl (BadType n))"

text \<open>\<^verbatim>\<open>v[lc_idx]\<close> (lines 40 and 44).\<close>

definition index_fn :: "name \<Rightarrow> colfn" where
  "index_fn n vs =
     (case vs of
        [RVec v, RIndex i] \<Rightarrow>
          (case nth_opt v i of None \<Rightarrow> Inl (OutOfRange n) | Some x \<Rightarrow> Inr (RScalar x))
      | _ \<Rightarrow> Inl (BadType n))"

text \<open>\<^verbatim>\<open>ArgMax(clusters_energy)\<close> (line 39).\<close>

definition argmax_fn :: "name \<Rightarrow> colfn" where
  "argmax_fn n vs = (case vs of [RVec v] \<Rightarrow> Inr (RIndex (rvec_argmax v)) | _ \<Rightarrow> Inl (BadType n))"

text \<open>
  FCCAnalyses' \<^verbatim>\<open>getFloatAt(i)\<close> (line 43): the \<open>i\<close>-th entry of every inner
  vector, read with an unchecked \<^verbatim>\<open>operator[]\<close>.
\<close>

definition float_at_fn :: "name \<Rightarrow> nat \<Rightarrow> colfn" where
  "float_at_fn n i vs =
     (case vs of
        [RVecVec ws] \<Rightarrow>
          (case those (map (\<lambda>w. nth_opt w i) ws) of
             None \<Rightarrow> Inl (OutOfRange n)
           | Some xs \<Rightarrow> Inr (RVec xs))
      | _ \<Rightarrow> Inl (BadType n))"

text \<open>
  FCCAnalyses' \<^verbatim>\<open>getCaloCluster_energyInLayers(clusters, cells, nLayers)\<close>
  (line 37): for every cluster, a vector of \<open>nLayers\<close> zeros to which the energy of each
  of its cells \<^verbatim>\<open>hits_begin <= i < hits_end\<close> is added at the cell's layer.  Both
  the read of \<^verbatim>\<open>cells[i]\<close> and the write at the layer are unchecked.
\<close>

fun add_cells :: "name \<Rightarrow> cell list \<Rightarrow> nat list \<Rightarrow> real list \<Rightarrow> rdf_error + real list" where
  "add_cells n cells [] acc = Inr acc"
| "add_cells n cells (i # is) acc =
     (case nth_opt cells i of
        None \<Rightarrow> Inl (OutOfRange n)
      | Some c \<Rightarrow>
          (if cell_layer c < length acc
           then add_cells n cells is (acc[cell_layer c := acc ! cell_layer c + cell_energy c])
           else Inl (OutOfRange n)))"

definition cluster_layers :: "name \<Rightarrow> nat \<Rightarrow> cell list \<Rightarrow> cluster \<Rightarrow> rdf_error + real list" where
  "cluster_layers n nl cells cl = add_cells n cells [hits_begin cl..<hits_end cl] (replicate nl 0)"

definition energy_in_layers_fn :: "name \<Rightarrow> nat \<Rightarrow> colfn" where
  "energy_in_layers_fn n nl vs =
     (case vs of
        [RClusters cls, RCells cells] \<Rightarrow>
          sbind (those_sum (map (cluster_layers n nl cells) cls)) (\<lambda>ws. Inr (RVecVec ws))
      | _ \<Rightarrow> Inl (BadType n))"

text \<open>The cut \<^verbatim>\<open>Cluster_E5!=0 && Cluster_E!=0\<close> (line 50).\<close>

definition cut_fn :: "name \<Rightarrow> filterfn" where
  "cut_fn n vs =
     (case vs of [RScalar e5, RScalar e] \<Rightarrow> Inr (e5 \<noteq> 0 \<and> e \<noteq> 0) | _ \<Rightarrow> Inl (BadType n))"

section \<open>Energy per layer: the accumulation loop against the sum it computes\<close>

text \<open>
  The reference for one cluster: the energy of its cells in a layer is the sum over the
  cells of its range that sit in that layer.  The loop of
  \<^verbatim>\<open>getCaloCluster_energyInLayers\<close> computes exactly these sums when every cell
  index and every layer is in range.
\<close>

definition layer_energy :: "cell list \<Rightarrow> nat list \<Rightarrow> nat \<Rightarrow> real" where
  "layer_energy cells is l =
     sum_list (map cell_energy (filter (\<lambda>c. cell_layer c = l) (map (nth cells) is)))"

lemma add_cells_sum:
  assumes "\<forall>i \<in> set is. i < length cells \<and> cell_layer (cells ! i) < length acc"
  shows "add_cells n cells is acc = Inr (map (\<lambda>l. acc ! l + layer_energy cells is l) [0..<length acc])"
  using assms
proof (induction "is" arbitrary: acc)
  case Nil
  then show ?case by (simp add: layer_energy_def map_nth)
next
  case (Cons i "is")
  let ?c = "cells ! i"
  let ?acc' = "acc[cell_layer ?c := acc ! cell_layer ?c + cell_energy ?c]"
  from Cons.prems have i: "i < length cells" "cell_layer ?c < length acc" by auto
  from Cons.prems have "\<forall>j \<in> set is. j < length cells \<and> cell_layer (cells ! j) < length ?acc'"
    by simp
  then have IH: "add_cells n cells is ?acc' =
      Inr (map (\<lambda>l. ?acc' ! l + layer_energy cells is l) [0..<length acc])"
    using Cons.IH by simp
  have step: "?acc' ! l + layer_energy cells is l = acc ! l + layer_energy cells (i # is) l"
    if "l < length acc" for l
    using that by (auto simp: layer_energy_def nth_list_update)
  show ?case
    using i IH step by (simp add: nth_opt_def)
qed


definition cl_layer_energy :: "cell list \<Rightarrow> cluster \<Rightarrow> nat \<Rightarrow> real" where
  "cl_layer_energy cells cl l = layer_energy cells [hits_begin cl..<hits_end cl] l"

definition cells_in_range :: "nat \<Rightarrow> cell list \<Rightarrow> cluster \<Rightarrow> bool" where
  "cells_in_range nl cells cl \<longleftrightarrow>
     list_all (\<lambda>i. i < length cells \<and> cell_layer (cells ! i) < nl) [hits_begin cl..<hits_end cl]"

lemma cluster_layers_ok:
  "cells_in_range nl cells cl \<Longrightarrow>
   cluster_layers n nl cells cl = Inr (map (cl_layer_energy cells cl) [0..<nl])"
  using add_cells_sum [of "[hits_begin cl..<hits_end cl]" cells "replicate nl 0" n]
  by (simp add: cluster_layers_def cells_in_range_def cl_layer_energy_def list_all_iff)

lemma energy_in_layers_ok:
  "list_all (cells_in_range nl cells) cls \<Longrightarrow>
   energy_in_layers_fn n nl [RClusters cls, RCells cells] =
     Inr (RVecVec (map (\<lambda>cl. map (cl_layer_energy cells cl) [0..<nl]) cls))"
proof -
  assume "list_all (cells_in_range nl cells) cls"
  then have "those_sum (map (cluster_layers n nl cells) cls) =
      Inr (map (\<lambda>cl. map (cl_layer_energy cells cl) [0..<nl]) cls)"
    by (simp add: those_sum_map_ok cluster_layers_ok list_all_iff)
  then show ?thesis by (simp add: energy_in_layers_fn_def)
qed

lemma float_at_ok:
  assumes "i < nl"
  shows "float_at_fn n i [RVecVec (map (\<lambda>cl. map (g cl) [0..<nl]) cls)] = Inr (RVec (map (\<lambda>cl. g cl i) cls))"
proof -
  have "those (map (\<lambda>w. nth_opt w i) (map (\<lambda>cl. map (g cl) [0..<nl]) cls)) = Some (map (\<lambda>cl. g cl i) cls)"
    using assms by (induction cls) (simp_all add: nth_opt_def)
  then show ?thesis by (simp add: float_at_fn_def)
qed

end
