(* ===== verification/TrainingGraph.thy ===== *)
theory TrainingGraph
  imports ColumnOps
begin

text \<open>
  The computation graph that \<^verbatim>\<open>run\<close> (\<^verbatim>\<open>src/FCCSW_ecal/training.py\<close>,
  lines 25--57) builds on the tree \<^verbatim>\<open>events\<close>: the names it derives from the
  cluster collection's name, its chain of \<^verbatim>\<open>Define\<close>/\<^verbatim>\<open>Alias\<close> calls with the
  loop over the twelve layers unrolled in order, the \<^verbatim>\<open>Filter\<close>, and the columns
  handed to \<^verbatim>\<open>AsNumpy\<close>.  The theorems say when building the graph raises.
\<close>

section \<open>Names\<close>

text \<open>\<^verbatim>\<open>cells = clusters[:-1] + "Cells"\<close> (line 32).\<close>

definition cells_name :: "name \<Rightarrow> name" where
  "cells_name clusters = py_drop_last clusters @ ''Cells''"

text \<open>The f-strings of lines 37, 43 and 44.\<close>

definition eil_name :: "name \<Rightarrow> name" where
  "eil_name clusters = clusters @ ''_EnergyInLayers''"

definition layer_col :: "name \<Rightarrow> nat \<Rightarrow> name" where
  "layer_col clusters i = clusters @ ''_E'' @ py_str_nat i"

definition cluster_layer_col :: "nat \<Rightarrow> name" where
  "cluster_layer_col i = ''Cluster_E'' @ py_str_nat i"

text \<open>The three momentum branches the expression of line 35 reads, in its order.\<close>

definition mom_branches :: "name list" where
  "mom_branches = [''genParticles.momentum.y'', ''genParticles.momentum.x'', ''genParticles.momentum.z'']"

section \<open>The graph\<close>

text \<open>Lines 33--41: the chained calls.\<close>

definition head_ops :: "name \<Rightarrow> df_op list" where
  "head_ops clusters =
    [DefineOp ''E_truth_v'' mom_branches (e_truth_fn ''E_truth_v''),
     DefineOp ''Truth_E'' [''E_truth_v''] (const_index_fn ''Truth_E'' 0),
     DefineOp (eil_name clusters) [clusters, cells_name clusters]
       (energy_in_layers_fn (eil_name clusters) 12),
     AliasOp ''clusters_energy'' (clusters @ ''.energy''),
     DefineOp ''lc_idx'' [''clusters_energy''] (argmax_fn ''lc_idx''),
     DefineOp ''Cluster_E'' [''clusters_energy'', ''lc_idx''] (index_fn ''Cluster_E'')]"

text \<open>Lines 42--44: one pass of the loop over the layers.\<close>

definition layer_ops :: "name \<Rightarrow> nat \<Rightarrow> df_op list" where
  "layer_ops clusters i =
    [DefineOp (layer_col clusters i) [eil_name clusters] (float_at_fn (layer_col clusters i) i),
     DefineOp (cluster_layer_col i) [layer_col clusters i, ''lc_idx'']
       (index_fn (cluster_layer_col i))]"

text \<open>Line 50: the filter.\<close>

definition cut_op :: df_op where
  "cut_op = FilterOp [''Cluster_E5'', ''Cluster_E''] (cut_fn ''Cluster_E5!=0 && Cluster_E!=0'')"

definition run_ops :: "name \<Rightarrow> df_op list" where
  "run_ops clusters = head_ops clusters @ concat (map (layer_ops clusters) [0..<12]) @ [cut_op]"

text \<open>Lines 46--48: the columns read out.\<close>

definition cols_to_use :: "name list" where
  "cols_to_use = [''Truth_E'', ''Cluster_E''] @ map cluster_layer_col [0..<12]"

text \<open>The branches the graph reads from the tree, and the names it defines.\<close>

definition input_branches :: "name \<Rightarrow> name list" where
  "input_branches clusters = mom_branches @ [clusters, cells_name clusters, clusters @ ''.energy'']"

definition defined_names :: "name \<Rightarrow> name list" where
  "defined_names clusters = concat (map (map col_name \<circ> op_def) (run_ops clusters))"

lemmas run_ops_unfold = run_ops_def head_ops_def layer_ops_def cut_op_def eil_name_def
  layer_col_def cluster_layer_col_def py_str_nat.simps digit_char_def upt_rec
  input_branches_def mom_branches_def defined_names_def

section \<open>Building the graph\<close>

lemma run_ops_wf:
  assumes "clusters \<noteq> ''Cluster''" and "set (input_branches clusters) \<subseteq> set bs"
    and "set (defined_names clusters) \<inter> set bs = {}"
  shows "ops_wf bs (run_ops clusters)"
  using assms by (simp add: run_ops_unfold append_eq_conv_suffix)

lemma df_columns_root [simp]: "df_columns (df_root bs) = bs"
  by (simp add: df_columns_def df_root_def)



end
