(* ===== verification/TrainingEvents.thy ===== *)
theory TrainingEvents
  imports TrainingGraph
begin

text \<open>
  What \<^verbatim>\<open>run\<close> (\<^verbatim>\<open>src/FCCSW_ecal/training.py\<close>) computes for one event of
  the input tree: the branches an EDM4hep event offers to the graph, reference values
  stated without the graph (momentum of the first generated particle, first cluster of
  maximal energy, its energy per layer), and the theorem that the lazily evaluated columns
  read out by \<^verbatim>\<open>AsNumpy\<close> are these values, for events the filter keeps.
\<close>

section \<open>Events and the reference values\<close>

record edm_event =
  gen_particles :: "particle list"
  ev_clusters :: "cluster list"
  ev_cells :: "cell list"

definition tree_row :: "name \<Rightarrow> edm_event \<Rightarrow> row" where
  "tree_row clusters ev = map_of
     [(''genParticles.momentum.y'', RVec (map mom_y (gen_particles ev))),
      (''genParticles.momentum.x'', RVec (map mom_x (gen_particles ev))),
      (''genParticles.momentum.z'', RVec (map mom_z (gen_particles ev))),
      (clusters, RClusters (ev_clusters ev)),
      (cells_name clusters, RCells (ev_cells ev)),
      (clusters @ ''.energy'', RVec (map cl_energy (ev_clusters ev)))]"

definition p_norm :: "particle \<Rightarrow> real" where
  "p_norm p = sqrt (mom_y p * mom_y p + mom_x p * mom_x p + mom_z p * mom_z p)"

definition lead_idx :: "edm_event \<Rightarrow> nat" where
  "lead_idx ev = first_max_idx (map cl_energy (ev_clusters ev))"

definition lead_cluster :: "edm_event \<Rightarrow> cluster" where
  "lead_cluster ev = ev_clusters ev ! lead_idx ev"

definition ref_layers :: "edm_event \<Rightarrow> real list" where
  "ref_layers ev = map (cl_layer_energy (ev_cells ev) (lead_cluster ev)) [0..<12]"

definition ref_passes :: "edm_event \<Rightarrow> bool" where
  "ref_passes ev \<longleftrightarrow> ref_layers ev ! 5 \<noteq> 0 \<and> cl_energy (lead_cluster ev) \<noteq> 0"

definition ref_row :: "edm_event \<Rightarrow> real list" where
  "ref_row ev = [p_norm (hd (gen_particles ev)), cl_energy (lead_cluster ev)] @ ref_layers ev"

definition event_ok :: "edm_event \<Rightarrow> bool" where
  "event_ok ev \<longleftrightarrow> ev_clusters ev \<noteq> [] \<and> list_all (cells_in_range 12 (ev_cells ev)) (ev_clusters ev)"

definition name_ok :: "name \<Rightarrow> bool" where
  "name_ok clusters \<longleftrightarrow> clusters \<noteq> ''Cluster'' \<and> distinct (input_branches clusters) \<and>
     set (input_branches clusters) \<inter> set (defined_names clusters) = {}"

lemma layers_unrolled:
  "concat (map (layer_ops C) [0..<12]) =
   layer_ops C 0 @ layer_ops C 1 @ layer_ops C 2 @ layer_ops C 3 @ layer_ops C 4 @ layer_ops C 5 @
   layer_ops C 6 @ layer_ops C 7 @ layer_ops C 8 @ layer_ops C 9 @ layer_ops C 10 @ layer_ops C 11"
  by (simp add: upt_rec numeral_eq_Suc)

lemma nth_opt_map_lead:
  "cls \<noteq> [] \<Longrightarrow> nth_opt (map f cls) (rvec_argmax (map cl_energy cls)) =
     Some (f (cls ! first_max_idx (map cl_energy cls)))"
  using rvec_argmax_bounds [of "map cl_energy cls"] rvec_argmax_first_idx [of "map cl_energy cls"]
  by (simp add: nth_opt_def)

definition run_defs :: "name \<Rightarrow> coldef list" where
  "run_defs C = rev (concat (map op_def (run_ops C)))"

definition run_ctx :: "name list \<Rightarrow> name \<Rightarrow> bool" where
  "run_ctx bs C \<longleftrightarrow> defs_wf bs (run_defs C) \<and> set (input_branches C) \<subseteq> set bs \<and>
     C \<noteq> ''Cluster'' \<and> distinct (input_branches C)"

lemmas run_defs_unfold = run_defs_def run_ops_def head_ops_def layers_unrolled layer_ops_def
  cut_op_def eil_name_def layer_col_def cluster_layer_col_def py_str_nat.simps digit_char_def
  mom_branches_def append_eq_conv_suffix

lemma run_ctx_branch:
  "run_ctx bs C \<Longrightarrow> n \<in> set (input_branches C) \<Longrightarrow>
   eval_col (run_defs C) r n = (case r n of None \<Rightarrow> Inl (UnknownColumn n) | Some v \<Rightarrow> Inr v)"
  using eval_col_branch [of bs "run_defs C" n r] by (auto simp: run_ctx_def)

lemma tree_row_branches:
  assumes "distinct (input_branches C)"
  shows "tree_row C ev ''genParticles.momentum.y'' = Some (RVec (map mom_y (gen_particles ev)))"
    and "tree_row C ev ''genParticles.momentum.x'' = Some (RVec (map mom_x (gen_particles ev)))"
    and "tree_row C ev ''genParticles.momentum.z'' = Some (RVec (map mom_z (gen_particles ev)))"
    and "tree_row C ev C = Some (RClusters (ev_clusters ev))"
    and "tree_row C ev (cells_name C) = Some (RCells (ev_cells ev))"
    and "tree_row C ev (C @ ''.energy'') = Some (RVec (map cl_energy (ev_clusters ev)))"
  using assms by (auto simp: tree_row_def input_branches_def mom_branches_def)

lemma col_E_truth_v:
  assumes "run_ctx bs C"
  shows "eval_col (run_defs C) (tree_row C ev) ''E_truth_v'' = Inr (RVec (map p_norm (gen_particles ev)))"
proof -
  have f: "find (\<lambda>c. col_name c = ''E_truth_v'') (run_defs C) =
      Some \<lparr>col_name = ''E_truth_v'', col_deps = mom_branches, col_fn = e_truth_fn ''E_truth_v''\<rparr>"
    using assms by (simp add: run_ctx_def run_defs_unfold)
  have wf: "defs_wf bs (run_defs C)" using assms by (simp add: run_ctx_def)
  have "map (\<lambda>((y, x), z). sqrt (y * y + x * x + z * z))
          (zip (zip (map mom_y ps) (map mom_x ps)) (map mom_z ps)) = map p_norm ps" for ps
    by (induction ps) (simp_all add: p_norm_def)
  then show ?thesis
    using assms eval_col_find [OF wf f] run_ctx_branch [OF assms]
    by (simp add: mom_branches_def input_branches_def tree_row_branches run_ctx_def e_truth_fn_def)
qed


lemma run_ctx_wf: "run_ctx bs C \<Longrightarrow> defs_wf bs (run_defs C)"
  by (simp add: run_ctx_def)

lemma col_Truth_E:
  assumes "run_ctx bs C"
  shows "eval_col (run_defs C) (tree_row C ev) ''Truth_E'' =
     (case gen_particles ev of [] \<Rightarrow> Inl (OutOfRange ''Truth_E'') | p # _ \<Rightarrow> Inr (RScalar (p_norm p)))"
proof -
  have f: "find (\<lambda>c. col_name c = ''Truth_E'') (run_defs C) =
      Some \<lparr>col_name = ''Truth_E'', col_deps = [''E_truth_v''], col_fn = const_index_fn ''Truth_E'' 0\<rparr>"
    using assms by (simp add: run_ctx_def run_defs_unfold)
  show ?thesis
    using eval_col_find [OF run_ctx_wf [OF assms] f] col_E_truth_v [OF assms]
    by (simp add: const_index_fn_def nth_opt_def split: list.splits)
qed

lemma col_clusters_energy:
  assumes "run_ctx bs C"
  shows "eval_col (run_defs C) (tree_row C ev) ''clusters_energy'' = Inr (RVec (map cl_energy (ev_clusters ev)))"
proof -
  have f: "find (\<lambda>c. col_name c = ''clusters_energy'') (run_defs C) =
      Some \<lparr>col_name = ''clusters_energy'', col_deps = [C @ ''.energy''], col_fn = alias_fn ''clusters_energy''\<rparr>"
    using assms by (simp add: run_ctx_def run_defs_unfold)
  show ?thesis
    using assms eval_col_find [OF run_ctx_wf [OF assms] f] run_ctx_branch [OF assms]
    by (simp add: input_branches_def tree_row_branches run_ctx_def alias_fn_def)
qed

lemma col_lc_idx:
  assumes "run_ctx bs C"
  shows "eval_col (run_defs C) (tree_row C ev) ''lc_idx'' = Inr (RIndex (rvec_argmax (map cl_energy (ev_clusters ev))))"
proof -
  have f: "find (\<lambda>c. col_name c = ''lc_idx'') (run_defs C) =
      Some \<lparr>col_name = ''lc_idx'', col_deps = [''clusters_energy''], col_fn = argmax_fn ''lc_idx''\<rparr>"
    using assms by (simp add: run_ctx_def run_defs_unfold)
  show ?thesis
    using eval_col_find [OF run_ctx_wf [OF assms] f] col_clusters_energy [OF assms]
    by (simp add: argmax_fn_def)
qed

lemma col_Cluster_E:
  assumes "run_ctx bs C"
  shows "eval_col (run_defs C) (tree_row C ev) ''Cluster_E'' =
     (if ev_clusters ev = [] then Inl (OutOfRange ''Cluster_E'') else Inr (RScalar (cl_energy (lead_cluster ev))))"
proof -
  have f: "find (\<lambda>c. col_name c = ''Cluster_E'') (run_defs C) =
      Some \<lparr>col_name = ''Cluster_E'', col_deps = [''clusters_energy'', ''lc_idx''], col_fn = index_fn ''Cluster_E''\<rparr>"
    using assms by (simp add: run_ctx_def run_defs_unfold)
  show ?thesis
    using eval_col_find [OF run_ctx_wf [OF assms] f] col_clusters_energy [OF assms] col_lc_idx [OF assms]
    by (simp add: index_fn_def nth_opt_map_lead lead_cluster_def lead_idx_def nth_opt_Nil)
qed

lemma col_eil:
  assumes "run_ctx bs C" and "list_all (cells_in_range 12 (ev_cells ev)) (ev_clusters ev)"
  shows "eval_col (run_defs C) (tree_row C ev) (eil_name C) =
     Inr (RVecVec (map (\<lambda>cl. map (cl_layer_energy (ev_cells ev) cl) [0..<12]) (ev_clusters ev)))"
proof -
  have f: "find (\<lambda>c. col_name c = eil_name C) (run_defs C) =
      Some \<lparr>col_name = eil_name C, col_deps = [C, cells_name C], col_fn = energy_in_layers_fn (eil_name C) 12\<rparr>"
    using assms by (simp add: run_ctx_def run_defs_unfold)
  show ?thesis
    using assms eval_col_find [OF run_ctx_wf [OF assms(1)] f] run_ctx_branch [OF assms(1)]
    by (simp add: input_branches_def tree_row_branches run_ctx_def energy_in_layers_ok)
qed


lemma find_layer_cols:
  assumes "C \<noteq> ''Cluster''" and "i < 12"
  shows "find (\<lambda>c. col_name c = layer_col C i) (run_defs C) =
           Some \<lparr>col_name = layer_col C i, col_deps = [eil_name C], col_fn = float_at_fn (layer_col C i) i\<rparr> \<and>
         find (\<lambda>c. col_name c = cluster_layer_col i) (run_defs C) =
           Some \<lparr>col_name = cluster_layer_col i, col_deps = [layer_col C i, ''lc_idx''],
                  col_fn = index_fn (cluster_layer_col i)\<rparr>"
proof -
  let ?P = "\<lambda>i. find (\<lambda>c. col_name c = layer_col C i) (run_defs C) =
           Some \<lparr>col_name = layer_col C i, col_deps = [eil_name C], col_fn = float_at_fn (layer_col C i) i\<rparr> \<and>
         find (\<lambda>c. col_name c = cluster_layer_col i) (run_defs C) =
           Some \<lparr>col_name = cluster_layer_col i, col_deps = [layer_col C i, ''lc_idx''],
                  col_fn = index_fn (cluster_layer_col i)\<rparr>"
  have "list_all ?P [0..<12]"
    using assms(1) by (simp add: run_defs_unfold upt_rec)
  with assms(2) show ?thesis by (simp add: list_all_iff)
qed


lemma col_layer:
  assumes "run_ctx bs C" and "list_all (cells_in_range 12 (ev_cells ev)) (ev_clusters ev)" and "i < 12"
  shows "eval_col (run_defs C) (tree_row C ev) (layer_col C i) =
     Inr (RVec (map (\<lambda>cl. cl_layer_energy (ev_cells ev) cl i) (ev_clusters ev)))"
proof -
  have "C \<noteq> ''Cluster''" using assms(1) by (simp add: run_ctx_def)
  with assms(3) have f: "find (\<lambda>c. col_name c = layer_col C i) (run_defs C) =
      Some \<lparr>col_name = layer_col C i, col_deps = [eil_name C], col_fn = float_at_fn (layer_col C i) i\<rparr>"
    using find_layer_cols by blast
  show ?thesis
    using eval_col_find [OF run_ctx_wf [OF assms(1)] f] col_eil [OF assms(1,2)] float_at_ok [OF assms(3)]
    by simp
qed

lemma col_cluster_layer:
  assumes "run_ctx bs C" and "event_ok ev" and "i < 12"
  shows "eval_col (run_defs C) (tree_row C ev) (cluster_layer_col i) =
     Inr (RScalar (cl_layer_energy (ev_cells ev) (lead_cluster ev) i))"
proof -
  have "C \<noteq> ''Cluster''" using assms(1) by (simp add: run_ctx_def)
  with assms(3) have f: "find (\<lambda>c. col_name c = cluster_layer_col i) (run_defs C) =
      Some \<lparr>col_name = cluster_layer_col i, col_deps = [layer_col C i, ''lc_idx''],
             col_fn = index_fn (cluster_layer_col i)\<rparr>"
    using find_layer_cols by blast
  from assms(2) have ne: "ev_clusters ev \<noteq> []" and cr: "list_all (cells_in_range 12 (ev_cells ev)) (ev_clusters ev)"
    by (simp_all add: event_ok_def)
  show ?thesis
    using eval_col_find [OF run_ctx_wf [OF assms(1)] f] col_layer [OF assms(1) cr assms(3)]
      col_lc_idx [OF assms(1)] ne
    by (simp add: index_fn_def nth_opt_map_lead lead_cluster_def lead_idx_def)
qed


definition cluster_name_ok :: "name \<Rightarrow> bool" where
  "cluster_name_ok C \<longleftrightarrow> C \<noteq> ''Cluster'' \<and> distinct (input_branches C)"

lemma run_chain_result:
  assumes "df_chain (run_ops C) (df_root bs) = Inr d"
  shows "df_defs d = run_defs C"
    and "df_filters d = [([''Cluster_E5'', ''Cluster_E''], cut_fn ''Cluster_E5!=0 && Cluster_E!=0'')]"
    and "defs_wf bs (run_defs C)"
proof -
  from assms have d: "d = (df_root bs)\<lparr>df_defs := rev (concat (map op_def (run_ops C))),
      df_filters := concat (map op_filter (run_ops C))\<rparr>"
    by (simp add: df_chain_Inr_iff df_root_def)
  then show "df_defs d = run_defs C" by (simp add: run_defs_def)
  from d show "df_filters d = [([''Cluster_E5'', ''Cluster_E''], cut_fn ''Cluster_E5!=0 && Cluster_E!=0'')]"
    by (simp add: run_ops_def head_ops_def layer_ops_def cut_op_def)
  from df_chain_defs_wf [OF assms] d show "defs_wf bs (run_defs C)"
    by (simp add: run_defs_def df_root_def)
qed

lemma cluster_E5_name: "''Cluster_E5'' = cluster_layer_col 5"
  by (simp add: cluster_layer_col_def py_str_nat.simps digit_char_def)

lemma run_chain_ctx:
  "df_chain (run_ops C) (df_root bs) = Inr d \<Longrightarrow> set (input_branches C) \<subseteq> set bs \<Longrightarrow>
   cluster_name_ok C \<Longrightarrow> run_ctx bs C"
  using run_chain_result(3) by (simp add: run_ctx_def cluster_name_ok_def)

lemma row_values_run:
  assumes chain: "df_chain (run_ops C) (df_root bs) = Inr d"
    and br: "set (input_branches C) \<subseteq> set bs" and nm: "cluster_name_ok C" and ok: "event_ok ev"
  shows "row_values d cols_to_use (tree_row C ev) =
     (if ref_passes ev
      then (if gen_particles ev = [] then Inl (OutOfRange ''Truth_E'') else Inr (Some (ref_row ev)))
      else Inr None)"
proof -
  have ctx: "run_ctx bs C" by (rule run_chain_ctx [OF chain br nm])
  let ?r = "tree_row C ev"
  let ?lead = "lead_cluster ev"
  have ne: "ev_clusters ev \<noteq> []" using ok by (simp add: event_ok_def)
  have filt: "eval_filters (df_defs d) ?r (df_filters d) = Inr (ref_passes ev)"
    using col_cluster_layer [OF ctx ok, of 5] col_Cluster_E [OF ctx] ne
    by (simp add: run_chain_result [OF chain] cluster_E5_name cut_fn_def ref_passes_def ref_layers_def)
  have layers: "those_sum (map (\<lambda>n. sbind (eval_col (df_defs d) ?r n) (as_scalar n))
                   (map cluster_layer_col [0..<12])) = Inr (ref_layers ev)"
  proof -
    have "\<forall>i \<in> set [0..<12]. sbind (eval_col (df_defs d) ?r (cluster_layer_col i)) (as_scalar (cluster_layer_col i))
             = Inr (cl_layer_energy (ev_cells ev) ?lead i)"
      using col_cluster_layer [OF ctx ok] by (simp add: run_chain_result [OF chain] as_scalar_def)
    then have "those_sum (map (\<lambda>i. sbind (eval_col (df_defs d) ?r (cluster_layer_col i)) (as_scalar (cluster_layer_col i))) [0..<12])
        = Inr (map (cl_layer_energy (ev_cells ev) ?lead) [0..<12])"
      by (rule those_sum_map_ok)
    then show ?thesis by (simp add: ref_layers_def comp_def)
  qed
  show ?thesis
  proof (cases "ref_passes ev")
    case False
    then show ?thesis using filt by (simp add: row_values_def)
  next
    case True
    show ?thesis
      using True filt layers col_Truth_E [OF ctx] col_Cluster_E [OF ctx] ne
      by (simp add: row_values_def cols_to_use_def run_chain_result [OF chain] as_scalar_def ref_row_def
          split: list.splits)
  qed
qed

section \<open>What AsNumpy receives from one event\<close>

text \<open>
  Claim C3.  For an event with at least one generated particle, at least one cluster, and
  cells whose indices and layers are in range, the row that \<^verbatim>\<open>AsNumpy\<close> reads
  from the filtered graph (lines 50 and 57) is, when the cut keeps the event, the momentum
  of the first particle, the energy of the first cluster of maximal energy and that
  cluster's energy in each of the twelve layers; otherwise the event is dropped.
\<close>

theorem run_row_values:
  assumes "df_chain (run_ops C) (df_root bs) = Inr d" and "set (input_branches C) \<subseteq> set bs"
    and "cluster_name_ok C" and "event_ok ev" and "gen_particles ev \<noteq> []"
  shows "row_values d cols_to_use (tree_row C ev) = (if ref_passes ev then Inr (Some (ref_row ev)) else Inr None)"
  using row_values_run [OF assms(1-4)] assms(5) by simp


section \<open>Column types\<close>

text \<open>
  ROOT gives each column the C++ type its expression returns.  The model's values carry
  their type as a constructor (\<open>rtype\<close>), and \<open>col_types\<close> is the type of each column
  \<^verbatim>\<open>run\<close> defines, in the order of the calls: \<^verbatim>\<open>RVec<float>\<close> for
  \<^verbatim>\<open>E_truth_v\<close>, \<^verbatim>\<open>clusters_energy\<close> and \<open>{clusters}_E{i}\<close>,
  \<^verbatim>\<open>RVec<RVec<float>>\<close> for the layer energies, an index for \<^verbatim>\<open>lc_idx\<close>,
  and a scalar for the others.
\<close>

datatype rty = TScalar | TIndex | TVec | TVecVec | TClusters | TCells

fun rtype :: "rval \<Rightarrow> rty" where
  "rtype (RScalar _) = TScalar"
| "rtype (RIndex _) = TIndex"
| "rtype (RVec _) = TVec"
| "rtype (RVecVec _) = TVecVec"
| "rtype (RClusters _) = TClusters"
| "rtype (RCells _) = TCells"

definition col_types :: "name \<Rightarrow> (name \<times> rty) list" where
  "col_types C =
     [(''E_truth_v'', TVec), (''Truth_E'', TScalar), (eil_name C, TVecVec), (''clusters_energy'', TVec),
      (''lc_idx'', TIndex), (''Cluster_E'', TScalar)] @
     concat (map (\<lambda>i. [(layer_col C i, TVec), (cluster_layer_col i, TScalar)]) [0..<12])"

definition has_type :: "coldef list \<Rightarrow> row \<Rightarrow> name \<times> rty \<Rightarrow> bool" where
  "has_type defs r nt \<longleftrightarrow> (case eval_col defs r (fst nt) of Inr v \<Rightarrow> rtype v = snd nt | Inl _ \<Rightarrow> False)"

lemma concat_map_pairs:
  "concat (concat (map (\<lambda>x. [[f x], [g x]]) xs)) = concat (map (\<lambda>x. [f x, g x]) xs)"
  by (induction xs) simp_all

lemma col_types_names: "map fst (col_types C) = map col_name (rev (run_defs C))"
  by (simp add: col_types_def run_defs_def run_ops_def head_ops_def layer_ops_def cut_op_def map_concat comp_def
      concat_map_pairs)

section \<open>Witnesses\<close>

text \<open>
  An event with one particle and two clusters; the second cluster leads with energy 7,
  three units of it in layer 5 and four in layer 1.  The same event without its particle,
  and that event with the leading cluster's layer-5 cell moved to layer 6.
\<close>

definition ev_two_clusters :: edm_event where
  "ev_two_clusters =
     \<lparr>gen_particles = [\<lparr>mom_x = 0, mom_y = 1, mom_z = 0\<rparr>],
      ev_clusters = [\<lparr>cl_energy = 2, hits_begin = 0, hits_end = 1\<rparr>,
                     \<lparr>cl_energy = 7, hits_begin = 1, hits_end = 3\<rparr>],
      ev_cells = [\<lparr>cell_layer = 0, cell_energy = 2\<rparr>, \<lparr>cell_layer = 5, cell_energy = 3\<rparr>,
                  \<lparr>cell_layer = 1, cell_energy = 4\<rparr>]\<rparr>"

definition ev_no_particle :: edm_event where
  "ev_no_particle = ev_two_clusters\<lparr>gen_particles := []\<rparr>"

definition ev_no_particle_cut :: edm_event where
  "ev_no_particle_cut = ev_no_particle\<lparr>ev_cells := [\<lparr>cell_layer = 0, cell_energy = 2\<rparr>,
     \<lparr>cell_layer = 6, cell_energy = 3\<rparr>, \<lparr>cell_layer = 1, cell_energy = 4\<rparr>]\<rparr>"

lemmas ref_values_unfold = event_ok_def cells_in_range_def ref_passes_def ref_layers_def
  lead_cluster_def lead_idx_def first_max_idx_def cl_layer_energy_def layer_energy_def
  ref_row_def p_norm_def upt_rec

lemma witness_events:
  "event_ok ev_two_clusters" "ref_passes ev_two_clusters"
  "ref_row ev_two_clusters = [1, 7, 0, 4, 0, 0, 0, 3, 0, 0, 0, 0, 0, 0]"
  "event_ok ev_no_particle" "ref_passes ev_no_particle"
  "event_ok ev_no_particle_cut" "\<not> ref_passes ev_no_particle_cut"
  by (simp_all add: ev_no_particle_cut_def ev_no_particle_def ev_two_clusters_def ref_values_unfold)

lemma calo_clusters_ok:
  "cluster_name_ok ''CaloClusters''"
  "\<exists>d. df_chain (run_ops ''CaloClusters'') (df_root (input_branches ''CaloClusters'')) = Inr d"
proof -
  show "cluster_name_ok ''CaloClusters''"
    by (simp add: cluster_name_ok_def input_branches_def mom_branches_def cells_name_def py_drop_last_butlast)
  have "ops_wf (input_branches ''CaloClusters'') (run_ops ''CaloClusters'')"
    by (rule run_ops_wf) (simp_all add: run_ops_unfold cells_name_def py_drop_last_butlast)
  then show "\<exists>d. df_chain (run_ops ''CaloClusters'') (df_root (input_branches ''CaloClusters'')) = Inr d"
    by (simp add: df_chain_ok_iff)
qed

theorem run_row_values_witness:
  "\<exists>d. df_chain (run_ops ''CaloClusters'') (df_root (input_branches ''CaloClusters'')) = Inr d \<and>
       cluster_name_ok ''CaloClusters'' \<and> event_ok ev_two_clusters \<and>
       gen_particles ev_two_clusters \<noteq> [] \<and>
       row_values d cols_to_use (tree_row ''CaloClusters'' ev_two_clusters) =
         Inr (Some [1, 7, 0, 4, 0, 0, 0, 3, 0, 0, 0, 0, 0, 0])"
proof -
  obtain d where chain: "df_chain (run_ops ''CaloClusters'') (df_root (input_branches ''CaloClusters'')) = Inr d"
    using calo_clusters_ok(2) by blast
  have "row_values d cols_to_use (tree_row ''CaloClusters'' ev_two_clusters) =
      Inr (Some [1, 7, 0, 4, 0, 0, 0, 3, 0, 0, 0, 0, 0, 0])"
    using run_row_values [OF chain _ calo_clusters_ok(1) witness_events(1)] witness_events(2,3)
    by (simp add: ev_two_clusters_def)
  with chain calo_clusters_ok(1) witness_events(1) show ?thesis
    by (auto simp: ev_two_clusters_def)
qed


end
