(* ===== verification/Features.thy ===== *)
theory Features
  imports TrainingGraph
begin

text \<open>
  The NumPy part of \<^verbatim>\<open>run\<close> (\<^verbatim>\<open>src/FCCSW_ecal/training.py\<close>, lines
  59--82): the twelve layer columns stacked into a matrix, their sum per event, the
  layers normalised by it, the label \<^verbatim>\<open>Truth_E / cluster_E\<close>, the weight
  \<^verbatim>\<open>-log10(Truth_E) + 3\<close>, and the feature matrix \<^verbatim>\<open>vstack(...).T\<close>.
  Float64 values are reals extended by the IEEE results of division by zero and of the
  logarithm of zero or of a negative number (\<open>pyfloat\<close>); a divisor zero is taken as
  \<open>+0\<close>.  Dictionary reads raise \<^verbatim>\<open>KeyError\<close>, ragged stacks and
  mismatched shapes \<^verbatim>\<open>ValueError\<close>.  The main theorem is a refinement: the
  column-wise program equals the per-event computation \<open>sample\<close> mapped over the
  rows that \<^verbatim>\<open>AsNumpy\<close> delivered.
\<close>

section \<open>Float64 values and the operations the code applies\<close>

datatype pyfloat = Fin real | PosInf | NegInf | NaN

definition is_finite :: "pyfloat \<Rightarrow> bool" where
  "is_finite x \<longleftrightarrow> (case x of Fin _ \<Rightarrow> True | _ \<Rightarrow> False)"

definition np_div :: "real \<Rightarrow> real \<Rightarrow> pyfloat" where
  "np_div a b =
     (if b \<noteq> 0 then Fin (a / b) else if 0 < a then PosInf else if a < 0 then NegInf else NaN)"

definition np_log10 :: "real \<Rightarrow> pyfloat" where
  "np_log10 x = (if 0 < x then Fin (log 10 x) else if x = 0 then NegInf else NaN)"

fun f_neg :: "pyfloat \<Rightarrow> pyfloat" where
  "f_neg (Fin r) = Fin (- r)"
| "f_neg PosInf = NegInf"
| "f_neg NegInf = PosInf"
| "f_neg NaN = NaN"

fun f_add :: "pyfloat \<Rightarrow> real \<Rightarrow> pyfloat" where
  "f_add (Fin r) c = Fin (r + c)"
| "f_add PosInf c = PosInf"
| "f_add NegInf c = NegInf"
| "f_add NaN c = NaN"

section \<open>The program\<close>

datatype np_error = KeyError name | ValueError string

definition dict_get :: "(name \<rightharpoonup> 'a) \<Rightarrow> name \<Rightarrow> np_error + 'a" where
  "dict_get d k = (case d k of None \<Rightarrow> Inl (KeyError k) | Some v \<Rightarrow> Inr v)"

text \<open>Lines 61--72: the keys are literals in the source.\<close>

definition layer_keys :: "name list" where
  "layer_keys = [''Cluster_E0'', ''Cluster_E1'', ''Cluster_E2'', ''Cluster_E3'', ''Cluster_E4'',
     ''Cluster_E5'', ''Cluster_E6'', ''Cluster_E7'', ''Cluster_E8'', ''Cluster_E9'',
     ''Cluster_E10'', ''Cluster_E11'']"

definition np_array2 :: "real list list \<Rightarrow> np_error + real list list" where
  "np_array2 rows =
     (if list_all (\<lambda>r. length r = length (hd rows)) rows then Inr rows
      else Inl (ValueError ''inhomogeneous shape''))"

definition sum_axis0 :: "real list list \<Rightarrow> real list" where
  "sum_axis0 m = map (\<lambda>j. sum_list (map (\<lambda>r. r ! j) m)) [0..<length (hd m)]"

definition weight_of :: "real \<Rightarrow> pyfloat" where
  "weight_of t = f_add (f_neg (np_log10 t)) 3"

record training_data =
  td_X :: "pyfloat list list"
  td_y :: "pyfloat list"
  td_w :: "pyfloat list"

definition numpy_stage :: "(name \<rightharpoonup> real list) \<Rightarrow> np_error + training_data" where
  "numpy_stage cols =
     sbind (those_sum (map (dict_get cols) layer_keys)) (\<lambda>ls.
     sbind (np_array2 ls) (\<lambda>layers.
     let cluster_E = sum_axis0 layers;
         normalized_layers = map (\<lambda>r. map2 np_div r cluster_E) layers
     in sbind (dict_get cols ''Truth_E'') (\<lambda>truth.
        if length truth \<noteq> length cluster_E
        then Inl (ValueError ''operands could not be broadcast together'')
        else
          let label = map2 np_div truth cluster_E;
              weights = map weight_of truth;
              data = normalized_layers @ [map Fin cluster_E]
          in Inr \<lparr>td_X = transpose data, td_y = label, td_w = weights\<rparr>)))"

section \<open>The per-event reference\<close>

text \<open>
  One event's sample from its truth energy \<open>t\<close> and its twelve layer energies
  \<open>ls\<close>: normalised layers and their sum, label, weight.
\<close>

definition sample :: "real \<Rightarrow> real list \<Rightarrow> pyfloat list \<times> pyfloat \<times> pyfloat" where
  "sample t ls = (let s = sum_list ls in (map (\<lambda>e. np_div e s) ls @ [Fin s], np_div t s, weight_of t))"

definition row_sample :: "real list \<Rightarrow> pyfloat list \<times> pyfloat \<times> pyfloat" where
  "row_sample vs = sample (vs ! 0) (drop 2 vs)"

definition samples_data :: "(pyfloat list \<times> pyfloat \<times> pyfloat) list \<Rightarrow> training_data" where
  "samples_data ss = \<lparr>td_X = map fst ss, td_y = map (fst \<circ> snd) ss, td_w = map (snd \<circ> snd) ss\<rparr>"

section \<open>The vectorised code computes the per-event samples\<close>

lemma transpose_map_funs:
  assumes "gs \<noteq> []"
  shows "transpose (map (\<lambda>g. map g xs) gs) = map (\<lambda>x. map (\<lambda>g. g x) gs) xs"
proof (rule nth_equalityI)
  have fold: "foldr (\<lambda>g. max (length xs)) hs 0 = (if hs = [] then 0 else length xs)" for hs
    by (induction hs) auto
  have len: "length (transpose (map (\<lambda>g. map g xs) gs)) = length xs"
    using assms fold [of gs] by (simp add: length_transpose foldr_map comp_def)
  then show "length (transpose (map (\<lambda>g. map g xs) gs)) = length (map (\<lambda>x. map (\<lambda>g. g x) gs) xs)"
    by simp
  fix j assume "j < length (transpose (map (\<lambda>g. map g xs) gs))"
  with len have j: "j < length xs" by simp
  then show "transpose (map (\<lambda>g. map g xs) gs) ! j = map (\<lambda>x. map (\<lambda>g. g x) gs) xs ! j"
    using len by (simp add: nth_transpose comp_def)
qed

lemma layer_keys_cols: "layer_keys = drop 2 cols_to_use"
  by (simp add: layer_keys_def cols_to_use_def cluster_layer_col_def py_str_nat.simps digit_char_def upt_rec)

lemma distinct_cols_to_use: "distinct cols_to_use"
  by (simp add: cols_to_use_def cluster_layer_col_def py_str_nat.simps digit_char_def upt_rec)

lemma length_cols_to_use [simp]: "length cols_to_use = 14"
  by (simp add: cols_to_use_def)

lemma dict_get_as_numpy:
  assumes "k < 14"
  shows "dict_get (map_of (zip cols_to_use (columns_of 14 rows))) (cols_to_use ! k) =
           Inr (map (\<lambda>vs. vs ! k) rows)"
proof -
  have "map_of (zip cols_to_use (columns_of 14 rows)) (cols_to_use ! k) = Some (columns_of 14 rows ! k)"
    using assms distinct_cols_to_use by (intro map_of_zip_nth) (simp_all add: columns_of_def)
  then show ?thesis using assms by (simp add: dict_get_def columns_of_def)
qed

lemma drop_as_map_nth: "drop n vs = map (\<lambda>k. vs ! k) [n..<length vs]"
  by (rule nth_equalityI) auto

lemma numpy_stage_rows:
  assumes len: "\<forall>vs \<in> set rows. length vs = 14"
  shows "numpy_stage (map_of (zip cols_to_use (columns_of 14 rows))) = Inr (samples_data (map row_sample rows))"
proof -
  let ?cols = "map_of (zip cols_to_use (columns_of 14 rows))"
  let ?col = "\<lambda>k. map (\<lambda>vs. vs ! k) rows"
  let ?s = "\<lambda>vs. sum_list (drop 2 vs)"
  let ?L = "map ?col [2..<14]"
  have keys: "layer_keys = map (\<lambda>k. cols_to_use ! k) [2..<14]"
    using drop_as_map_nth [of 2 cols_to_use] by (simp add: layer_keys_cols del: upt_rec_numeral)
  have get_layers: "those_sum (map (dict_get ?cols) layer_keys) = Inr ?L"
    by (simp add: keys those_sum_map_ok dict_get_as_numpy del: upt_rec_numeral)
  have hdL: "hd ?L = ?col 2" by (simp add: upt_rec)
  then have arr: "np_array2 ?L = Inr ?L"
    by (simp add: np_array2_def list_all_iff del: upt_rec_numeral)
  have s_eq: "sum_list (map (\<lambda>k. vs ! k) [2..<14]) = ?s vs" if "vs \<in> set rows" for vs
    using len that drop_as_map_nth [of 2 vs] by (simp del: upt_rec_numeral)
  have sums: "sum_axis0 ?L = map ?s rows"
  proof -
    have "sum_axis0 ?L = map (\<lambda>j. sum_list (map (\<lambda>k. ?col k ! j) [2..<14])) [0..<length rows]"
      by (simp add: sum_axis0_def hdL comp_def del: upt_rec_numeral)
    also have "\<dots> = map (\<lambda>vs. sum_list (map (\<lambda>k. vs ! k) [2..<14])) rows"
      by (rule nth_equalityI) (simp_all del: upt_rec_numeral)
    also have "\<dots> = map ?s rows"
      using s_eq by (simp del: upt_rec_numeral)
    finally show ?thesis .
  qed
  have truth: "dict_get ?cols ''Truth_E'' = Inr (?col 0)"
    using dict_get_as_numpy [of 0 rows] by (simp add: cols_to_use_def)
  let ?gs = "map (\<lambda>k vs. np_div (vs ! k) (?s vs)) [2..<14] @ [\<lambda>vs. Fin (?s vs)]"
  have data: "map (\<lambda>r. map2 np_div r (map ?s rows)) ?L @ [map Fin (map ?s rows)] = map (\<lambda>g. map g rows) ?gs"
    by (simp add: zip_map1 zip_map2 zip_same_conv_map comp_def del: upt_rec_numeral)
  have X: "transpose (map (\<lambda>g. map g rows) ?gs) = map (fst \<circ> row_sample) rows"
  proof -
    have "transpose (map (\<lambda>g. map g rows) ?gs) = map (\<lambda>vs. map (\<lambda>g. g vs) ?gs) rows"
      by (rule transpose_map_funs) simp
    also have "\<dots> = map (fst \<circ> row_sample) rows"
    proof (rule map_cong [OF refl])
      fix vs assume "vs \<in> set rows"
      then have "drop 2 vs = map (\<lambda>k. vs ! k) [2..<14]"
        using len drop_as_map_nth [of 2 vs] by (simp del: upt_rec_numeral)
      then show "map (\<lambda>g. g vs) ?gs = (fst \<circ> row_sample) vs"
        by (simp add: row_sample_def sample_def Let_def comp_def del: upt_rec_numeral)
    qed
    finally show ?thesis .
  qed
  have y: "map2 np_div (?col 0) (map ?s rows) = map (fst \<circ> snd \<circ> row_sample) rows"
    by (simp add: zip_map1 zip_map2 zip_same_conv_map comp_def row_sample_def sample_def Let_def)
  have w: "map weight_of (?col 0) = map (snd \<circ> snd \<circ> row_sample) rows"
    by (simp add: comp_def row_sample_def sample_def Let_def)
  have "numpy_stage ?cols = Inr \<lparr>td_X = transpose (map (\<lambda>g. map g rows) ?gs),
      td_y = map2 np_div (?col 0) (map ?s rows), td_w = map weight_of (?col 0)\<rparr>"
    unfolding numpy_stage_def
    by (simp only: get_layers arr sums truth data sbind_simps Let_def length_map if_False refl not_True_eq_False)
  then show ?thesis
    using X y w by (simp add: samples_data_def comp_def)
qed

text \<open>
  Claim C4.  On the columns \<^verbatim>\<open>AsNumpy\<close> returns for \<^verbatim>\<open>cols_to_use\<close>
  (one row of fourteen values per kept event), the NumPy code of lines 59--82 raises
  nothing, and its features, labels and weights are those of the per-event computation
  \<open>sample\<close> applied to each row, in the rows' order.
\<close>

theorem numpy_stage_refines:
  "\<forall>vs \<in> set rows. length vs = 14 \<Longrightarrow>
   numpy_stage (map_of (zip cols_to_use (columns_of 14 rows))) = Inr (samples_data (map row_sample rows))"
  by (rule numpy_stage_rows)

section \<open>Properties of one sample\<close>

lemma sum_list_div: "sum_list (map (\<lambda>e. e / s) ls) = sum_list ls / (s :: real)"
  by (induction ls) (simp_all add: add_divide_distrib)

lemma np_div_nonzero [simp]: "b \<noteq> 0 \<Longrightarrow> np_div a b = Fin (a / b)"
  by (simp add: np_div_def)

lemma np_div_zero_not_finite: "\<not> is_finite (np_div a 0)"
  by (simp add: np_div_def is_finite_def)

lemma sample_normalised:
  assumes "sum_list ls \<noteq> 0"
  shows "fst (sample t ls) = map (\<lambda>e. Fin (e / sum_list ls)) ls @ [Fin (sum_list ls)] \<and>
         sum_list (map (\<lambda>e. e / sum_list ls) ls) = 1"
  using assms by (simp add: sample_def Let_def sum_list_div)

lemma samples_data_X_nth:
  "i < length ss \<Longrightarrow> td_X (samples_data ss) ! i = fst (ss ! i)"
  by (simp add: samples_data_def)

lemma ten_powr_3: "(10::real) powr 3 = 1000"
  using powr_realpow [of 10 3] by simp

lemma log10_less_3_iff: "0 < t \<Longrightarrow> log 10 t < 3 \<longleftrightarrow> t < (1000::real)"
  using log_less_iff [of 10 t 3] by (simp add: ten_powr_3)

lemma log10_eq_3_iff: "0 < t \<Longrightarrow> log 10 t = 3 \<longleftrightarrow> t = (1000::real)"
proof
  assume "0 < t" "log 10 t = 3"
  then have "10 powr (log 10 t) = 10 powr 3" by simp
  with \<open>0 < t\<close> show "t = 1000" by (simp add: ten_powr_3)
next
  assume "t = 1000"
  then show "log 10 t = 3" using log_powr_cancel [of 10 3] by (simp add: ten_powr_3)
qed


lemma weight_of_nonpos: "weight_of 0 = PosInf" "t < 0 \<Longrightarrow> weight_of t = NaN"
  by (simp_all add: weight_of_def np_log10_def)


section \<open>Witnesses\<close>

theorem numpy_stage_refines_witness:
  "length [1, 7, 0, 4, 0, 0, 0, 3, 0, 0, 0, 0, 0, 0 :: real] = 14 \<and>
   numpy_stage (map_of (zip cols_to_use (columns_of 14 [[1, 7, 0, 4, 0, 0, 0, 3, 0, 0, 0, 0, 0, 0]]))) =
     Inr \<lparr>td_X = [[Fin 0, Fin (4 / 7), Fin 0, Fin 0, Fin 0, Fin (3 / 7), Fin 0, Fin 0, Fin 0, Fin 0,
                   Fin 0, Fin 0, Fin 7]],
          td_y = [Fin (1 / 7)], td_w = [weight_of 1]\<rparr>"
proof -
  have "samples_data (map row_sample [[1, 7, 0, 4, 0, 0, 0, 3, 0, 0, 0, 0, 0, 0]]) =
     \<lparr>td_X = [[Fin 0, Fin (4 / 7), Fin 0, Fin 0, Fin 0, Fin (3 / 7), Fin 0, Fin 0, Fin 0, Fin 0,
                Fin 0, Fin 0, Fin 7]],
      td_y = [Fin (1 / 7)], td_w = [weight_of 1]\<rparr>"
    by (simp add: samples_data_def row_sample_def sample_def)
  then show ?thesis
    using numpy_stage_refines [of "[[1, 7, 0, 4, 0, 0, 0, 3, 0, 0, 0, 0, 0, 0]]"] by simp
qed



end
