(* ===== verification/Regressor.thy ===== *)
theory Regressor
  imports Features
begin

text \<open>
  The regressor of \<^verbatim>\<open>run\<close> (\<^verbatim>\<open>src/FCCSW_ecal/training.py\<close>, lines 86--122):
  the hyper-parameter search space \<^verbatim>\<open>param_dist_XGB\<close> built from SciPy
  distributions, the \<^verbatim>\<open>XGBRegressor\<close> and the attribute assignments that fix its
  hyper-parameters, and the checks XGBoost applies to its parameters and to the arrays
  handed to \<^verbatim>\<open>fit\<close>.  The boosting algorithm itself is not modelled: a fitted model
  is the configuration together with the data it was fitted on.
\<close>

section \<open>The search space\<close>

text \<open>
  \<^verbatim>\<open>scipy.stats.randint(low, high)\<close> draws integers in \<open>[low, high)\<close>;
  \<^verbatim>\<open>scipy.stats.uniform(loc, scale)\<close> draws reals in \<open>[loc, loc + scale]\<close>.
\<close>

datatype param_dist = RandInt int int | Uniform real real

fun dist_contains :: "param_dist \<Rightarrow> real \<Rightarrow> bool" where
  "dist_contains (RandInt lo hi) x \<longleftrightarrow> x \<in> \<int> \<and> real_of_int lo \<le> x \<and> x < real_of_int hi"
| "dist_contains (Uniform loc scale) x \<longleftrightarrow> loc \<le> x \<and> x \<le> loc + scale"

definition param_dist_XGB :: "(string \<times> param_dist) list" where
  "param_dist_XGB =
     [(''max_depth'', RandInt 3 12), (''n_estimators'', RandInt 300 800),
      (''learning_rate'', Uniform 0.1 0.5), (''subsample'', Uniform 0.5 1)]"

section \<open>The regressor\<close>

text \<open>Hyper-parameters left at \<open>None\<close> take XGBoost's defaults.\<close>

record xgb_regressor =
  xgb_tree_method :: string
  xgb_subsample :: "real option"
  xgb_max_depth :: "nat option"
  xgb_n_estimators :: "nat option"
  xgb_learning_rate :: "real option"

text \<open>Line 97: \<^verbatim>\<open>xgb.XGBRegressor(tree_method="hist")\<close>.\<close>

definition xgb_regressor_hist :: xgb_regressor where
  "xgb_regressor_hist =
     \<lparr>xgb_tree_method = ''hist'', xgb_subsample = None, xgb_max_depth = None,
      xgb_n_estimators = None, xgb_learning_rate = None\<rparr>"

text \<open>Lines 108--111, in their order.\<close>

definition configure_regressor :: "xgb_regressor \<Rightarrow> xgb_regressor" where
  "configure_regressor reg =
     reg\<lparr>xgb_subsample := Some 0.5\<rparr>\<lparr>xgb_max_depth := Some 6\<rparr>\<lparr>xgb_n_estimators := Some 650\<rparr>
        \<lparr>xgb_learning_rate := Some 0.12\<rparr>"

text \<open>
  A configuration lies in the search space when each hyper-parameter it sets is in the
  support of the distribution \<^verbatim>\<open>param_dist_XGB\<close> gives for it.
\<close>

definition set_params :: "xgb_regressor \<Rightarrow> (string \<times> real) list" where
  "set_params reg =
     List.map_filter id
       [map_option (\<lambda>d. (''max_depth'', real d)) (xgb_max_depth reg),
        map_option (\<lambda>n. (''n_estimators'', real n)) (xgb_n_estimators reg),
        map_option (\<lambda>r. (''learning_rate'', r)) (xgb_learning_rate reg),
        map_option (\<lambda>r. (''subsample'', r)) (xgb_subsample reg)]"

definition in_search_space :: "xgb_regressor \<Rightarrow> bool" where
  "in_search_space reg \<longleftrightarrow>
     list_all (\<lambda>(k, x). case map_of param_dist_XGB k of None \<Rightarrow> False | Some d \<Rightarrow> dist_contains d x)
       (set_params reg)"

section \<open>What fit checks\<close>

text \<open>
  XGBoost checks the data when \<^verbatim>\<open>fit\<close> builds its \<^verbatim>\<open>DMatrix\<close>: it refuses
  feature values \<open>\<plusminus>inf\<close> (NaN is a missing value), labels that are not finite, and
  weights that are negative or not finite.  Training then configures the booster, which
  refuses a \<^verbatim>\<open>subsample\<close> outside \<open>[0, 1]\<close> and a negative learning rate, and
  validates that labels and weights have one entry per row.  The checks run in that order.
\<close>

datatype xgb_error =
    InvalidSubsample | InvalidLearningRate | ShapeMismatch
  | FeatureInf | LabelNotFinite | WeightInvalid

definition subsample_ok :: "xgb_regressor \<Rightarrow> bool" where
  "subsample_ok reg \<longleftrightarrow> (case xgb_subsample reg of None \<Rightarrow> True | Some r \<Rightarrow> 0 \<le> r \<and> r \<le> 1)"

definition eta_ok :: "xgb_regressor \<Rightarrow> bool" where
  "eta_ok reg \<longleftrightarrow> (case xgb_learning_rate reg of None \<Rightarrow> True | Some r \<Rightarrow> 0 \<le> r)"

definition no_inf :: "pyfloat \<Rightarrow> bool" where
  "no_inf x \<longleftrightarrow> x \<noteq> PosInf \<and> x \<noteq> NegInf"

definition weight_ok :: "pyfloat \<Rightarrow> bool" where
  "weight_ok x \<longleftrightarrow> (case x of Fin r \<Rightarrow> 0 \<le> r | _ \<Rightarrow> False)"

record trained_model =
  tm_params :: xgb_regressor
  tm_data :: training_data

text \<open>Line 118: \<^verbatim>\<open>reg.fit(data.T, label, sample_weight=weights)\<close>.\<close>

definition xgb_fit :: "xgb_regressor \<Rightarrow> training_data \<Rightarrow> xgb_error + trained_model" where
  "xgb_fit reg td =
     (if \<not> list_all (list_all no_inf) (td_X td) then Inl FeatureInf
      else if \<not> list_all is_finite (td_y td) then Inl LabelNotFinite
      else if \<not> list_all weight_ok (td_w td) then Inl WeightInvalid
      else if \<not> subsample_ok reg then Inl InvalidSubsample
      else if \<not> eta_ok reg then Inl InvalidLearningRate
      else if length (td_y td) \<noteq> length (td_X td) \<or> length (td_w td) \<noteq> length (td_X td) then Inl ShapeMismatch
      else Inr \<lparr>tm_params = reg, tm_data = td\<rparr>)"

section \<open>Properties of the configuration\<close>

text \<open>
  The values lines 108--111 assign by hand (subsample 0.5, max_depth 6,
  n_estimators 650, learning_rate 0.12) lie in the support of the search space
  \<^verbatim>\<open>param_dist_XGB\<close>, and XGBoost accepts them.
\<close>

theorem configured_in_search_space:
  "in_search_space (configure_regressor xgb_regressor_hist) \<and> subsample_ok (configure_regressor xgb_regressor_hist) \<and>
   eta_ok (configure_regressor xgb_regressor_hist)"
  by (simp add: in_search_space_def set_params_def configure_regressor_def xgb_regressor_hist_def
      param_dist_XGB_def subsample_ok_def eta_ok_def map_filter_simps)

end
