(* ===== verification/TrainingRun.thy ===== *)
theory TrainingRun
  imports TrainingEvents Regressor
begin

text \<open>
  The function \<^verbatim>\<open>run\<close> of \<^verbatim>\<open>src/FCCSW_ecal/training.py\<close> (lines 25--122) as
  \<open>run_training\<close>: \<^verbatim>\<open>init_stuff\<close>, the graph, \<^verbatim>\<open>AsNumpy\<close>, the numpy
  stage and the fit, each failure a branch of \<open>run_error\<close>; its behaviour on well-formed
  input and its two failures on data the filter lets through.
\<close>

section \<open>The ROOT session of init\_stuff\<close>

text \<open>
  Lines 129--138, in order: batch mode, the FCCAnalyses library, the two
  \<^verbatim>\<open>using namespace\<close> declarations the expressions of \<^verbatim>\<open>run\<close> rely on
  (\<^verbatim>\<open>getCaloCluster_energyInLayers\<close> and \<^verbatim>\<open>getFloatAt\<close> are written
  unqualified), the geometry, and implicit multi-threading.  \<^verbatim>\<open>loadGeometry\<close> is a
  function of the library, so it needs the library loaded.
\<close>

record root_session =
  batch :: bool
  loaded_libs :: "string list"
  declared :: "string list"
  geometry :: "(string \<times> string) option"
  implicit_mt :: "nat option"

datatype setup_error = NotLoaded string

definition fresh_session :: root_session where
  "fresh_session = \<lparr>batch = False, loaded_libs = [], declared = [], geometry = None, implicit_mt = None\<rparr>"

definition load_geometry :: "string \<Rightarrow> string \<Rightarrow> root_session \<Rightarrow> setup_error + root_session" where
  "load_geometry file readout s =
     (if ''libFCCAnalyses'' \<in> set (loaded_libs s) then Inr (s\<lparr>geometry := Some (file, readout)\<rparr>)
      else Inl (NotLoaded ''libFCCAnalyses''))"

definition init_stuff :: "root_session \<Rightarrow> setup_error + root_session" where
  "init_stuff s =
     (let readoutName = ''ECalBarrelPhiEta'';
          geometryFile = ''../../FCCDetectors/Detector/DetFCCeeIDEA-LAr/compact/FCCee_DectMaster.xml'';
          s1 = s\<lparr>batch := True\<rparr>;
          s2 = s1\<lparr>loaded_libs := loaded_libs s1 @ [''libFCCAnalyses'']\<rparr>;
          s3 = s2\<lparr>declared := declared s2 @ [''using namespace FCCAnalyses;'',
                                            ''using namespace FCCAnalyses::CaloNtupleizer;'']\<rparr>
      in sbind (load_geometry geometryFile readoutName s3) (\<lambda>s4. Inr (s4\<lparr>implicit_mt := Some 32\<rparr>)))"

definition jit_ready :: "root_session \<Rightarrow> bool" where
  "jit_ready s \<longleftrightarrow> ''libFCCAnalyses'' \<in> set (loaded_libs s) \<and>
     ''using namespace FCCAnalyses::CaloNtupleizer;'' \<in> set (declared s)"

lemma init_stuff_fresh:
  "init_stuff fresh_session =
     Inr \<lparr>batch = True, loaded_libs = [''libFCCAnalyses''],
          declared = [''using namespace FCCAnalyses;'', ''using namespace FCCAnalyses::CaloNtupleizer;''],
          geometry = Some (''../../FCCDetectors/Detector/DetFCCeeIDEA-LAr/compact/FCCee_DectMaster.xml'',
                           ''ECalBarrelPhiEta''),
          implicit_mt = Some 32\<rparr>"
  by (simp add: init_stuff_def load_geometry_def fresh_session_def)

section \<open>run\<close>

datatype run_error =
    SetupError setup_error | GraphError rdf_error | EventLoopError rdf_error | NumpyError np_error
  | FitError xgb_error

record run_output =
  ro_input :: string
  ro_events :: nat
  ro_model :: trained_model
  ro_out_file :: string

definition run_training :: "string \<Rightarrow> name \<Rightarrow> string \<Rightarrow> name list \<Rightarrow> edm_event list \<Rightarrow> run_error + run_output" where
  "run_training in_directory clusters out_file bs evs =
     (case init_stuff fresh_session of
        Inl e \<Rightarrow> Inl (SetupError e)
      | Inr _ \<Rightarrow>
     (case df_chain (run_ops clusters) (df_root bs) of
        Inl e \<Rightarrow> Inl (GraphError e)
      | Inr d \<Rightarrow>
          (let rows = map (tree_row clusters) evs; num_init = df_count rows in
           case as_numpy d cols_to_use rows of
             Inl e \<Rightarrow> Inl (EventLoopError e)
           | Inr cols \<Rightarrow>
               (case numpy_stage cols of
                  Inl e \<Rightarrow> Inl (NumpyError e)
                | Inr td \<Rightarrow>
                    (case xgb_fit (configure_regressor xgb_regressor_hist) td of
                       Inl e \<Rightarrow> Inl (FitError e)
                     | Inr m \<Rightarrow> Inr \<lparr>ro_input = in_directory @ ''/*.root'', ro_events = num_init,
                                    ro_model = m, ro_out_file = out_file\<rparr>)))))"

definition nonneg_cells :: "edm_event \<Rightarrow> bool" where
  "nonneg_cells ev \<longleftrightarrow> list_all (\<lambda>c. 0 \<le> cell_energy c) (ev_cells ev)"

definition event_trainable :: "edm_event \<Rightarrow> bool" where
  "event_trainable ev \<longleftrightarrow> event_ok ev \<and> gen_particles ev \<noteq> [] \<and> nonneg_cells ev \<and>
     0 < p_norm (hd (gen_particles ev)) \<and> p_norm (hd (gen_particles ev)) \<le> 1000"

lemma map_filter_if:
  "List.map_filter id (map (\<lambda>x. if P x then Some (f x) else None) xs) = map f (filter P xs)"
  by (induction xs) (simp_all add: map_filter_simps)

lemma cols_to_use_defined:
  assumes "C \<noteq> ''Cluster''"
  shows "set cols_to_use \<subseteq> set (map col_name (run_defs C))"
proof -
  have "list_all (\<lambda>n. n \<in> set (map col_name (run_defs C))) cols_to_use"
    using assms by (simp add: cols_to_use_def run_defs_unfold upt_rec)
  then show ?thesis by (auto simp: list_all_iff)
qed

lemma as_numpy_run:
  assumes chain: "df_chain (run_ops C) (df_root bs) = Inr d"
    and br: "set (input_branches C) \<subseteq> set bs" and nm: "cluster_name_ok C"
    and evs: "\<forall>ev \<in> set evs. event_ok ev \<and> gen_particles ev \<noteq> []"
  shows "as_numpy d cols_to_use (map (tree_row C) evs) =
           Inr (map_of (zip cols_to_use (columns_of 14 (map ref_row (filter ref_passes evs)))))"
proof -
  have "C \<noteq> ''Cluster''" using nm by (simp add: cluster_name_ok_def)
  then have m: "missing_col d cols_to_use = None"
    using cols_to_use_defined run_chain_result(1) [OF chain] by (auto simp: df_columns_def)
  have t: "those_sum (map (row_values d cols_to_use) (map (tree_row C) evs)) =
      Inr (map (\<lambda>ev. if ref_passes ev then Some (ref_row ev) else None) evs)"
    using evs row_values_run [OF chain br nm] by (simp add: those_sum_map_ok)
  show ?thesis
    unfolding as_numpy_def m t by (simp add: map_filter_if)
qed


lemma ref_row_sample:
  "row_sample (ref_row ev) = sample (p_norm (hd (gen_particles ev))) (ref_layers ev)"
  by (simp add: row_sample_def ref_row_def)

lemma length_ref_row [simp]: "length (ref_row ev) = 14"
  by (simp add: ref_row_def ref_layers_def)

lemma ref_layers_nonneg:
  assumes "event_ok ev" and "nonneg_cells ev" and "x \<in> set (ref_layers ev)"
  shows "0 \<le> x"
proof -
  let ?cl = "lead_cluster ev"
  have "lead_idx ev < length (ev_clusters ev)"
    using assms(1) rvec_argmax_bounds [of "map cl_energy (ev_clusters ev)"]
      rvec_argmax_first_idx [of "map cl_energy (ev_clusters ev)"]
    by (simp add: event_ok_def lead_idx_def)
  then have "?cl \<in> set (ev_clusters ev)" by (simp add: lead_cluster_def)
  with assms(1) have rng: "cells_in_range 12 (ev_cells ev) ?cl"
    by (simp add: event_ok_def list_all_iff)
  have cell_nonneg: "0 \<le> cell_energy c" if "c \<in> set (map (nth (ev_cells ev)) [hits_begin ?cl..<hits_end ?cl])" for c
    using that rng assms(2) by (auto simp: cells_in_range_def nonneg_cells_def list_all_iff)
  from assms(3) obtain l where "x = cl_layer_energy (ev_cells ev) ?cl l"
    by (auto simp: ref_layers_def)
  then show ?thesis
    unfolding cl_layer_energy_def layer_energy_def
  proof (simp only:, intro sum_list_nonneg)
    fix y assume "y \<in> set (map cell_energy (filter (\<lambda>c. cell_layer c = l)
        (map (nth (ev_cells ev)) [hits_begin ?cl..<hits_end ?cl])))"
    then show "0 \<le> y" using cell_nonneg by auto
  qed
qed

lemma ref_sum_pos:
  assumes "event_ok ev" and "nonneg_cells ev" and "ref_passes ev"
  shows "0 < sum_list (ref_layers ev)"
proof -
  have nn: "\<forall>x \<in> set (ref_layers ev). 0 \<le> x"
    using ref_layers_nonneg [OF assms(1,2)] by blast
  have "ref_layers ev ! 5 \<in> set (ref_layers ev)" by (simp add: ref_layers_def)
  moreover have "ref_layers ev ! 5 \<noteq> 0" using assms(3) by (simp add: ref_passes_def)
  ultimately have "0 < ref_layers ev ! 5" "ref_layers ev ! 5 \<le> sum_list (ref_layers ev)"
    using nn by (auto simp: less_le intro: member_le_sum_list)
  then show ?thesis by linarith
qed

definition sample_accepted :: "pyfloat list \<times> pyfloat \<times> pyfloat \<Rightarrow> bool" where
  "sample_accepted s \<longleftrightarrow> list_all no_inf (fst s) \<and> is_finite (fst (snd s)) \<and> weight_ok (snd (snd s))"

lemma sample_accepted_intro:
  assumes "0 < sum_list ls" and "0 < t" and "t \<le> 1000"
  shows "sample_accepted (sample t ls)"
proof -
  have w: "weight_of t = Fin (- log 10 t + 3)" using assms(2) by (simp add: weight_of_def np_log10_def)
  have "log 10 t \<le> 3"
    using log10_less_3_iff [OF assms(2)] log10_eq_3_iff [OF assms(2)] assms(3) by linarith
  then show ?thesis
    using assms w by (simp add: sample_accepted_def sample_def Let_def list_all_iff no_inf_def
        is_finite_def weight_ok_def)
qed

lemma xgb_fit_samples:
  assumes "list_all sample_accepted ss"
  shows "xgb_fit (configure_regressor xgb_regressor_hist) (samples_data ss) =
           Inr \<lparr>tm_params = configure_regressor xgb_regressor_hist, tm_data = samples_data ss\<rparr>"
  using assms
  by (simp add: xgb_fit_def samples_data_def subsample_ok_def eta_ok_def configure_regressor_def
      xgb_regressor_hist_def sample_accepted_def list_all_iff)

definition trained_on :: "edm_event list \<Rightarrow> training_data" where
  "trained_on evs = samples_data (map (row_sample \<circ> ref_row) (filter ref_passes evs))"

lemma run_training_fit:
  assumes "cluster_name_ok C" and "set (input_branches C) \<subseteq> set bs"
    and "set (defined_names C) \<inter> set bs = {}"
    and evs: "\<forall>ev \<in> set evs. event_ok ev \<and> gen_particles ev \<noteq> []"
  shows "run_training dir C out bs evs =
     (case xgb_fit (configure_regressor xgb_regressor_hist) (trained_on evs) of
        Inl e \<Rightarrow> Inl (FitError e)
      | Inr m \<Rightarrow> Inr \<lparr>ro_input = dir @ ''/*.root'', ro_events = length evs, ro_model = m, ro_out_file = out\<rparr>)"
proof -
  have C: "C \<noteq> ''Cluster''" using assms(1) by (simp add: cluster_name_ok_def)
  have "ops_wf (df_columns (df_root bs)) (run_ops C)"
    using run_ops_wf [OF C assms(2,3)] by simp
  then obtain d where chain: "df_chain (run_ops C) (df_root bs) = Inr d"
    using df_chain_ok_iff by blast
  have np: "numpy_stage (map_of (zip cols_to_use (columns_of 14 (map ref_row (filter ref_passes evs))))) =
      Inr (trained_on evs)"
    using numpy_stage_rows [of "map ref_row (filter ref_passes evs)"] by (simp add: trained_on_def)
  show ?thesis
    by (simp add: run_training_def init_stuff_fresh chain as_numpy_run [OF chain assms(2,1) evs] np df_count_def
        cong: sum.case_cong)
qed

lemma trained_on_accepted:
  assumes "list_all event_trainable evs"
  shows "xgb_fit (configure_regressor xgb_regressor_hist) (trained_on evs) =
           Inr \<lparr>tm_params = configure_regressor xgb_regressor_hist, tm_data = trained_on evs\<rparr>"
proof -
  have "list_all sample_accepted (map (row_sample \<circ> ref_row) (filter ref_passes evs))"
    using assms ref_sum_pos
    by (auto simp: list_all_iff event_trainable_def ref_row_sample intro!: sample_accepted_intro)
  then show ?thesis by (simp add: trained_on_def xgb_fit_samples)
qed

lemma run_training_eq:
  assumes "cluster_name_ok C" and "set (input_branches C) \<subseteq> set bs"
    and "set (defined_names C) \<inter> set bs = {}" and "list_all event_trainable evs"
  shows "run_training dir C out bs evs =
     Inr \<lparr>ro_input = dir @ ''/*.root'', ro_events = length evs,
          ro_model = \<lparr>tm_params = configure_regressor xgb_regressor_hist, tm_data = trained_on evs\<rparr>,
          ro_out_file = out\<rparr>"
proof -
  have "\<forall>ev \<in> set evs. event_ok ev \<and> gen_particles ev \<noteq> []"
    using assms(4) by (simp add: event_trainable_def list_all_iff)
  then show ?thesis
    by (simp add: run_training_fit [OF assms(1-3)] trained_on_accepted [OF assms(4)])
qed

lemma xgb_fit_feature_inf:
  assumes "s \<in> set ss" and "\<not> list_all no_inf (fst s)"
  shows "xgb_fit (configure_regressor xgb_regressor_hist) (samples_data ss) = Inl FeatureInf"
  using assms
  by (auto simp: xgb_fit_def samples_data_def subsample_ok_def eta_ok_def configure_regressor_def
      xgb_regressor_hist_def list_all_iff)

lemma xgb_fit_weight_invalid:
  assumes "\<forall>s \<in> set ss. list_all no_inf (fst s) \<and> is_finite (fst (snd s))"
    and "s \<in> set ss" and "\<not> weight_ok (snd (snd s))"
  shows "xgb_fit (configure_regressor xgb_regressor_hist) (samples_data ss) = Inl WeightInvalid"
  using assms
  by (auto simp: xgb_fit_def samples_data_def subsample_ok_def eta_ok_def configure_regressor_def
      xgb_regressor_hist_def list_all_iff)

lemma sample_zero_sum_inf:
  assumes "sum_list ls = 0" and "5 < length ls" and "ls ! 5 \<noteq> 0"
  shows "\<not> list_all no_inf (fst (sample t ls))"
proof -
  have "np_div (ls ! 5) 0 \<in> set (fst (sample t ls))"
    using assms by (force simp: sample_def Let_def)
  moreover have "\<not> no_inf (np_div (ls ! 5) 0)"
    using assms(3) by (auto simp: np_div_def no_inf_def)
  ultimately show ?thesis by (auto simp: list_all_iff)
qed

lemma sample_pos_sum_finite:
  assumes "0 < sum_list ls"
  shows "list_all no_inf (fst (sample t ls)) \<and> is_finite (fst (snd (sample t ls)))"
  using assms by (simp add: sample_def Let_def list_all_iff no_inf_def is_finite_def)

lemma weight_of_above_1000:
  assumes "1000 < t"
  shows "\<not> weight_ok (weight_of t)"
proof -
  have t: "0 < t" using assms by simp
  have "3 < log 10 t"
    using log10_less_3_iff [OF t] log10_eq_3_iff [OF t] assms by linarith
  then show ?thesis using t by (simp add: weight_of_def np_log10_def weight_ok_def)
qed

lemma trained_on_member:
  "ev \<in> set evs \<Longrightarrow> ref_passes ev \<Longrightarrow>
     sample (p_norm (hd (gen_particles ev))) (ref_layers ev) \<in> set (map (row_sample \<circ> ref_row) (filter ref_passes evs))"
  by (force simp: ref_row_sample)

section \<open>Properties of the training run\<close>

text \<open>
  Claim C1.  With a cluster collection whose column names do not collide, a tree that has
  the input branches and none of the defined names, and events each with a cluster, cells
  of layers 0--11 in range, non-negative cell energies and a leading generated particle of
  momentum in (0, 1000] GeV, \<^verbatim>\<open>run_training\<close> raises nothing: the regressor is
  fitted with the configured parameters on the samples of exactly the events that pass the
  filter, in order, and \<^verbatim>\<open>Count\<close> reports all events read.
\<close>

theorem run_training_ok:
  assumes "cluster_name_ok C" and "set (input_branches C) \<subseteq> set bs"
    and "set (defined_names C) \<inter> set bs = {}" and "list_all event_trainable evs"
  shows "run_training dir C out bs evs =
     Inr \<lparr>ro_input = dir @ ''/*.root'', ro_events = length evs,
          ro_model = \<lparr>tm_params = configure_regressor xgb_regressor_hist,
                      tm_data = samples_data (map (row_sample \<circ> ref_row) (filter ref_passes evs))\<rparr>,
          ro_out_file = out\<rparr>"
  using run_training_eq [OF assms] by (simp add: trained_on_def)

text \<open>
  Claim C15.  The filter of line 50 keeps an event when its leading cluster's energy and its
  layer-5 energy are non-zero, but line 76 divides by the sum of the twelve layer energies.
  When cell energies of opposite signs make that sum zero, the features of the kept event
  hold an infinity and the fit at line 118 raises: the run fails with \<open>FeatureInf\<close>.
\<close>

theorem run_training_zero_layer_sum:
  assumes "cluster_name_ok C" and "set (input_branches C) \<subseteq> set bs"
    and "set (defined_names C) \<inter> set bs = {}"
    and "\<forall>e \<in> set evs. event_ok e \<and> gen_particles e \<noteq> []"
    and "ev \<in> set evs" and "ref_passes ev" and "sum_list (ref_layers ev) = 0"
  shows "run_training dir C out bs evs = Inl (FitError FeatureInf)"
proof -
  have "ref_layers ev ! 5 \<noteq> 0" using assms(6) by (simp add: ref_passes_def)
  then have "\<not> list_all no_inf (fst (sample (p_norm (hd (gen_particles ev))) (ref_layers ev)))"
    using sample_zero_sum_inf assms(7) by (simp add: ref_layers_def)
  then have "xgb_fit (configure_regressor xgb_regressor_hist) (trained_on evs) = Inl FeatureInf"
    unfolding trained_on_def using xgb_fit_feature_inf trained_on_member [OF assms(5,6)] by blast
  then show ?thesis by (simp add: run_training_fit [OF assms(1-4)])
qed

text \<open>
  Claim C16.  Line 80 weights an event by \<open>3 - log10(Truth_E)\<close>, which is negative
  above 1000 GeV, and XGBoost refuses negative sample weights.  So one kept event whose
  generated particle has momentum above 1000 GeV makes the run fail with
  \<open>WeightInvalid\<close>, even when every other input is well formed.
\<close>

theorem run_training_above_1000:
  assumes "cluster_name_ok C" and "set (input_branches C) \<subseteq> set bs"
    and "set (defined_names C) \<inter> set bs = {}"
    and "list_all (\<lambda>e. event_ok e \<and> gen_particles e \<noteq> [] \<and> nonneg_cells e) evs"
    and "ev \<in> set evs" and "ref_passes ev" and "1000 < p_norm (hd (gen_particles ev))"
  shows "run_training dir C out bs evs = Inl (FitError WeightInvalid)"
proof -
  have fin: "\<forall>s \<in> set (map (row_sample \<circ> ref_row) (filter ref_passes evs)).
      list_all no_inf (fst s) \<and> is_finite (fst (snd s))"
  proof
    fix s assume "s \<in> set (map (row_sample \<circ> ref_row) (filter ref_passes evs))"
    then obtain e where e: "e \<in> set evs" "ref_passes e"
      and s: "s = sample (p_norm (hd (gen_particles e))) (ref_layers e)"
      by (auto simp: ref_row_sample)
    have "0 < sum_list (ref_layers e)"
      using assms(4) e ref_sum_pos by (simp add: list_all_iff)
    then show "list_all no_inf (fst s) \<and> is_finite (fst (snd s))"
      unfolding s by (rule sample_pos_sum_finite)
  qed
  have "\<not> weight_ok (snd (snd (sample (p_norm (hd (gen_particles ev))) (ref_layers ev))))"
    using weight_of_above_1000 [OF assms(7)] by (simp add: sample_def Let_def)
  then have "xgb_fit (configure_regressor xgb_regressor_hist) (trained_on evs) = Inl WeightInvalid"
    unfolding trained_on_def using xgb_fit_weight_invalid [OF fin trained_on_member [OF assms(5,6)]] by blast
  moreover have "\<forall>e \<in> set evs. event_ok e \<and> gen_particles e \<noteq> []"
    using assms(4) by (simp add: list_all_iff)
  ultimately show ?thesis by (simp add: run_training_fit [OF assms(1-3)])
qed

section \<open>Witnesses\<close>

definition ev_zero_sum :: edm_event where
  "ev_zero_sum =
     \<lparr>gen_particles = [\<lparr>mom_x = 0, mom_y = 1, mom_z = 0\<rparr>],
      ev_clusters = [\<lparr>cl_energy = 1, hits_begin = 0, hits_end = 2\<rparr>],
      ev_cells = [\<lparr>cell_layer = 5, cell_energy = 1\<rparr>, \<lparr>cell_layer = 6, cell_energy = -1\<rparr>]\<rparr>"

definition ev_high :: edm_event where
  "ev_high = ev_two_clusters\<lparr>gen_particles := [\<lparr>mom_x = 0, mom_y = 2000, mom_z = 0\<rparr>]\<rparr>"

definition ev_cut :: edm_event where
  "ev_cut = ev_no_particle_cut\<lparr>gen_particles := gen_particles ev_two_clusters\<rparr>"

lemma calo_setup:
  "cluster_name_ok ''CaloClusters''"
  "set (input_branches ''CaloClusters'') \<subseteq> set (input_branches ''CaloClusters'')"
  "set (defined_names ''CaloClusters'') \<inter> set (input_branches ''CaloClusters'') = {}"
  using calo_clusters_ok(1) by (simp_all add: run_ops_unfold cells_name_def py_drop_last_butlast)

lemma sqrt_2000: "sqrt (4000000 :: real) = 2000"
  by (rule real_sqrt_unique) simp_all

lemma witness_runs:
  "event_trainable ev_two_clusters" "event_trainable ev_cut" "\<not> ref_passes ev_cut"
  "event_ok ev_zero_sum" "gen_particles ev_zero_sum \<noteq> []" "ref_passes ev_zero_sum"
  "sum_list (ref_layers ev_zero_sum) = 0"
  "event_ok ev_high" "gen_particles ev_high \<noteq> []" "nonneg_cells ev_high" "ref_passes ev_high"
  "p_norm (hd (gen_particles ev_high)) = 2000"
  by (simp_all add: event_trainable_def nonneg_cells_def ev_cut_def ev_no_particle_cut_def
      ev_no_particle_def ev_zero_sum_def ev_high_def ev_two_clusters_def ref_values_unfold sqrt_2000)

theorem run_training_ok_witness:
  "cluster_name_ok ''CaloClusters'' \<and>
   set (input_branches ''CaloClusters'') \<subseteq> set (input_branches ''CaloClusters'') \<and>
   set (defined_names ''CaloClusters'') \<inter> set (input_branches ''CaloClusters'') = {} \<and>
   list_all event_trainable [ev_two_clusters] \<and>
   run_training ''data'' ''CaloClusters'' ''model.json'' (input_branches ''CaloClusters'') [ev_two_clusters] =
     Inr \<lparr>ro_input = ''data/*.root'', ro_events = 1,
          ro_model = \<lparr>tm_params = configure_regressor xgb_regressor_hist,
                      tm_data = \<lparr>td_X = [[Fin 0, Fin (4 / 7), Fin 0, Fin 0, Fin 0, Fin (3 / 7), Fin 0, Fin 0,
                                           Fin 0, Fin 0, Fin 0, Fin 0, Fin 7]],
                                 td_y = [Fin (1 / 7)], td_w = [Fin 3]\<rparr>\<rparr>,
          ro_out_file = ''model.json''\<rparr>"
  using calo_setup witness_runs(1)
    run_training_ok [where C = "''CaloClusters''" and bs = "input_branches ''CaloClusters''"
      and evs = "[ev_two_clusters]" and dir = "''data''" and out = "''model.json''"]
    witness_events(2,3)
  by (simp add: samples_data_def row_sample_def sample_def weight_of_def np_log10_def np_div_def)

theorem run_training_zero_layer_sum_witness:
  "cluster_name_ok ''CaloClusters'' \<and>
   set (input_branches ''CaloClusters'') \<subseteq> set (input_branches ''CaloClusters'') \<and>
   set (defined_names ''CaloClusters'') \<inter> set (input_branches ''CaloClusters'') = {} \<and>
   event_ok ev_zero_sum \<and> gen_particles ev_zero_sum \<noteq> [] \<and> ref_passes ev_zero_sum \<and>
   sum_list (ref_layers ev_zero_sum) = 0 \<and>
   run_training ''data'' ''CaloClusters'' ''model.json'' (input_branches ''CaloClusters'') [ev_zero_sum] =
     Inl (FitError FeatureInf)"
  using calo_setup witness_runs(4-7)
    run_training_zero_layer_sum [where C = "''CaloClusters''" and bs = "input_branches ''CaloClusters''"
      and evs = "[ev_zero_sum]" and ev = ev_zero_sum and dir = "''data''" and out = "''model.json''"]
  by simp

theorem run_training_above_1000_witness:
  "cluster_name_ok ''CaloClusters'' \<and>
   set (input_branches ''CaloClusters'') \<subseteq> set (input_branches ''CaloClusters'') \<and>
   set (defined_names ''CaloClusters'') \<inter> set (input_branches ''CaloClusters'') = {} \<and>
   event_ok ev_high \<and> gen_particles ev_high \<noteq> [] \<and> nonneg_cells ev_high \<and> ref_passes ev_high \<and>
   p_norm (hd (gen_particles ev_high)) = 2000 \<and>
   run_training ''data'' ''CaloClusters'' ''model.json'' (input_branches ''CaloClusters'') [ev_high] =
     Inl (FitError WeightInvalid)"
  using calo_setup witness_runs(8-12)
    run_training_above_1000 [where C = "''CaloClusters''" and bs = "input_branches ''CaloClusters''"
      and evs = "[ev_high]" and ev = ev_high and dir = "''data''" and out = "''model.json''"]
  by simp

end
