(* ===== verification/CommandLine.thy ===== *)
theory CommandLine
  imports TrainingRun
begin

text \<open>
  The entry point of \<^verbatim>\<open>src/FCCSW_ecal/training.py\<close>: \<^verbatim>\<open>main\<close> (lines 9--20)
  parses the command line with \<^verbatim>\<open>argparse\<close> and calls \<^verbatim>\<open>run\<close>
  (\<open>run_training\<close>, which starts with \<^verbatim>\<open>init_stuff\<close>).  The parser follows argparse's rules for the options this parser declares: long
  options with \<^verbatim>\<open>=value\<close> or a separate value and unique-prefix abbreviations,
  short options with a separate or an attached value, \<^verbatim>\<open>--\<close> ending the options,
  and the errors argparse raises (exit status 2) or the help it prints (exit status 0).
\<close>

section \<open>The parser of lines 12--19\<close>

datatype opt_key = OInput | OOut | OJson | OHelp

datatype cli_error = ArgError string | Help

definition long_opts :: "(string \<times> opt_key) list" where
  "long_opts = [(''--inputDir'', OInput), (''--outFile'', OOut), (''--json'', OJson), (''--help'', OHelp)]"

definition short_opts :: "(string \<times> opt_key) list" where
  "short_opts = [(''-i'', OInput), (''-o'', OOut), (''-h'', OHelp)]"

fun opt_display :: "opt_key \<Rightarrow> string" where
  "opt_display OInput = ''-i/--inputDir''"
| "opt_display OOut = ''-o/--outFile''"
| "opt_display OJson = ''--json''"
| "opt_display OHelp = ''-h/--help''"

definition is_digit :: "char \<Rightarrow> bool" where
  "is_digit c \<longleftrightarrow> 48 \<le> (of_char c :: nat) \<and> (of_char c :: nat) < 58"

text \<open>
  argparse's \<^verbatim>\<open>^-\d+$|^-\d*\.\d+$\<close>: since no option of this parser looks like a
  negative number, such an argument is positional.
\<close>

definition looks_negative :: "string \<Rightarrow> bool" where
  "looks_negative s \<longleftrightarrow>
     (case s of
        c # t \<Rightarrow> c = CHR ''-'' \<and>
          ((t \<noteq> [] \<and> list_all is_digit t) \<or>
           (let a = takeWhile (\<lambda>x. x \<noteq> CHR ''.'') t; b = drop (Suc (length a)) t in
            length a < length t \<and> list_all is_digit a \<and> b \<noteq> [] \<and> list_all is_digit b))
      | [] \<Rightarrow> False)"

definition is_optional :: "string \<Rightarrow> bool" where
  "is_optional s \<longleftrightarrow> take 1 s = ''-'' \<and> s \<noteq> ''-'' \<and> \<not> looks_negative s"

datatype resolved = Known opt_key "string option" | Unknown

text \<open>
  An optional argument names an option: a long one exactly or by a unique prefix, with an
  optional \<^verbatim>\<open>=value\<close>; a short one exactly, or followed by its value.
\<close>

definition resolve_opt :: "string \<Rightarrow> cli_error + resolved" where
  "resolve_opt a =
     (if take 2 a = ''--'' then
        (let name = takeWhile (\<lambda>c. c \<noteq> CHR ''='') a;
             explicit = (if length name < length a then Some (drop (Suc (length name)) a) else None)
         in case map_of long_opts name of
              Some k \<Rightarrow> Inr (Known k explicit)
            | None \<Rightarrow>
                (case filter (\<lambda>(opt, k). take (length name) opt = name) long_opts of
                   [] \<Rightarrow> Inr Unknown
                 | [(opt, k)] \<Rightarrow> Inr (Known k explicit)
                 | ms \<Rightarrow> Inl (ArgError (''ambiguous option: '' @ name))))
      else
        (case map_of short_opts a of
           Some k \<Rightarrow> Inr (Known k None)
         | None \<Rightarrow>
             (case map_of short_opts (take 2 a) of
                Some k \<Rightarrow> Inr (Known k (Some (drop 2 a)))
              | None \<Rightarrow> Inr Unknown)))"

record cli_acc =
  acc_inputDir :: string
  acc_outFile :: string
  acc_json :: "string option"
  acc_clusters :: "string option"
  acc_extras :: "string list"

text \<open>The defaults of lines 13--17.\<close>

definition acc_defaults :: cli_acc where
  "acc_defaults =
     \<lparr>acc_inputDir = ''FCCSW_ecal/baseline_LAr_testResol_1/'', acc_outFile = ''out.json'',
      acc_json = None, acc_clusters = None, acc_extras = []\<rparr>"

fun set_opt :: "opt_key \<Rightarrow> string \<Rightarrow> cli_acc \<Rightarrow> cli_acc" where
  "set_opt OInput v acc = acc\<lparr>acc_inputDir := v\<rparr>"
| "set_opt OOut v acc = acc\<lparr>acc_outFile := v\<rparr>"
| "set_opt OJson v acc = acc\<lparr>acc_json := Some v\<rparr>"
| "set_opt OHelp v acc = acc"

definition add_positional :: "string \<Rightarrow> cli_acc \<Rightarrow> cli_acc" where
  "add_positional a acc =
     (case acc_clusters acc of None \<Rightarrow> acc\<lparr>acc_clusters := Some a\<rparr>
      | Some _ \<Rightarrow> acc\<lparr>acc_extras := acc_extras acc @ [a]\<rparr>)"

text \<open>
  The arguments are consumed left to right; after \<^verbatim>\<open>--\<close> every argument is
  positional.  \<^verbatim>\<open>-h\<close> prints the help and exits at once; an option without its
  value, or an ambiguous abbreviation, is an error at once; unknown options are kept and
  reported at the end.
\<close>

fun parse_loop :: "bool \<Rightarrow> cli_acc \<Rightarrow> string list \<Rightarrow> cli_error + cli_acc" where
  "parse_loop dd acc [] = Inr acc"
| "parse_loop dd acc (a # rest) =
     (if dd \<or> \<not> is_optional a then parse_loop dd (add_positional a acc) rest
      else if a = ''--'' then parse_loop True acc rest
      else
        (case resolve_opt a of
           Inl e \<Rightarrow> Inl e
         | Inr Unknown \<Rightarrow> parse_loop dd (acc\<lparr>acc_extras := acc_extras acc @ [a]\<rparr>) rest
         | Inr (Known OHelp _) \<Rightarrow> Inl Help
         | Inr (Known k (Some v)) \<Rightarrow> parse_loop dd (set_opt k v acc) rest
         | Inr (Known k None) \<Rightarrow>
             (case rest of
                [] \<Rightarrow> Inl (ArgError (''argument '' @ opt_display k @ '': expected one argument''))
              | v # rest' \<Rightarrow>
                  if is_optional v then Inl (ArgError (''argument '' @ opt_display k @ '': expected one argument''))
                  else parse_loop dd (set_opt k v acc) rest')))"

record cli_args =
  inputDir :: string
  outFile :: string
  json :: "string option"
  clusters :: string

definition parse_args :: "string list \<Rightarrow> cli_error + cli_args" where
  "parse_args argv =
     sbind (parse_loop False acc_defaults argv) (\<lambda>acc.
       case acc_clusters acc of
         None \<Rightarrow> Inl (ArgError ''the following arguments are required: clusters'')
       | Some c \<Rightarrow>
           if acc_extras acc \<noteq> [] then Inl (ArgError (''unrecognized arguments: '' @ py_join '' '' (acc_extras acc)))
           else Inr \<lparr>inputDir = acc_inputDir acc, outFile = acc_outFile acc, json = acc_json acc, clusters = c\<rparr>)"

section \<open>main\<close>

datatype main_error = CliError cli_error | RunError run_error

text \<open>
  Line 20: \<^verbatim>\<open>run(args.inputDir, args.clusters, args.outFile, args.json)\<close>; the
  \<^verbatim>\<open>json\<close> argument is not read by \<^verbatim>\<open>run\<close>.  The tree's branches and events
  are those of the files \<^verbatim>\<open>run\<close> reads.
\<close>

definition main :: "string list \<Rightarrow> name list \<Rightarrow> edm_event list \<Rightarrow> main_error + run_output" where
  "main argv bs evs =
     (case parse_args argv of
        Inl e \<Rightarrow> Inl (CliError e)
      | Inr args \<Rightarrow>
          (case run_training (inputDir args) (clusters args) (outFile args) bs evs of
             Inl e \<Rightarrow> Inl (RunError e)
           | Inr r \<Rightarrow> Inr r))"

section \<open>Properties of the command line\<close>

definition render_args :: "cli_args \<Rightarrow> string list" where
  "render_args a =
     [''--inputDir='' @ inputDir a, ''--outFile='' @ outFile a] @
     (case json a of None \<Rightarrow> [] | Some j \<Rightarrow> [''--json='' @ j]) @ [''--'', clusters a]"

lemma is_digit_minus [simp]: "\<not> is_digit CHR ''-''"
  by (simp add: is_digit_def)

lemma is_optional_long [simp]: "is_optional (CHR ''-'' # CHR ''-'' # s)"
  by (simp add: is_optional_def looks_negative_def Let_def)

lemma parse_loop_long:
  assumes "map_of long_opts n = Some k" and "k \<noteq> OHelp" and "CHR ''='' \<notin> set n"
    and "n = CHR ''-'' # CHR ''-'' # m"
  shows "parse_loop False acc ((n @ CHR ''='' # v) # rest) = parse_loop False (set_opt k v acc) rest"
proof -
  have "takeWhile (\<lambda>c. c \<noteq> CHR ''='') (n @ CHR ''='' # v) = n"
    using assms(3) by (subst takeWhile_append2) auto
  then have "resolve_opt (n @ CHR ''='' # v) = Inr (Known k (Some v))"
    using assms(1,4) by (simp add: resolve_opt_def)
  moreover have "n @ CHR ''='' # v \<noteq> ''--''" using assms(4) by simp
  ultimately show ?thesis using assms(2,4)
    by (cases k) simp_all
qed

lemma parse_loop_rendered:
  "parse_loop False acc ((''--inputDir'' @ CHR ''='' # v) # rest) = parse_loop False (acc\<lparr>acc_inputDir := v\<rparr>) rest"
  "parse_loop False acc ((''--outFile'' @ CHR ''='' # v) # rest) = parse_loop False (acc\<lparr>acc_outFile := v\<rparr>) rest"
  "parse_loop False acc ((''--json'' @ CHR ''='' # v) # rest) = parse_loop False (acc\<lparr>acc_json := Some v\<rparr>) rest"
  using parse_loop_long [where n = "''--inputDir''" and k = OInput and m = "''inputDir''" and acc = acc and v = v and rest = rest]
    parse_loop_long [where n = "''--outFile''" and k = OOut and m = "''outFile''" and acc = acc and v = v and rest = rest]
    parse_loop_long [where n = "''--json''" and k = OJson and m = "''json''" and acc = acc and v = v and rest = rest]
  by (simp_all add: long_opts_def is_optional_def looks_negative_def del: parse_loop.simps)

lemma parse_loop_dashdash: "parse_loop False acc [''--'', c] = Inr (add_positional c acc)"
  by (simp add: is_optional_def looks_negative_def)

text \<open>
  Claim C13.  Every value of the arguments can be passed on the command line: rendered as
  \<^verbatim>\<open>--inputDir=...\<close>, \<^verbatim>\<open>--outFile=...\<close>, \<^verbatim>\<open>--json=...\<close> when set,
  then \<^verbatim>\<open>--\<close> and the cluster collection, it parses back to the same values, whatever
  characters the values hold (also a leading \<^verbatim>\<open>-\<close> or an \<^verbatim>\<open>=\<close>).
\<close>

theorem parse_args_roundtrip: "parse_args (render_args a) = Inr a"
  by (cases "json a")
    (simp_all add: parse_args_def render_args_def parse_loop_rendered [unfolded append_Cons append_Nil]
      parse_loop_dashdash add_positional_def acc_defaults_def
      del: parse_loop.simps)


lemma parse_loop_positional:
  "\<not> is_optional c \<Longrightarrow> parse_loop False acc [c] = Inr (add_positional c acc)"
  by simp

text \<open>
  A command line holding only the cluster collection's name (an argument that
  does not look like an option) takes the defaults of lines 13--17: the input directory
  \<^verbatim>\<open>FCCSW_ecal/baseline_LAr_testResol_1/\<close>, the output \<^verbatim>\<open>out.json\<close>, and no
  \<^verbatim>\<open>--json\<close> file.
\<close>

theorem parse_args_defaults:
  "\<not> is_optional c \<Longrightarrow>
   parse_args [c] = Inr \<lparr>inputDir = ''FCCSW_ecal/baseline_LAr_testResol_1/'', outFile = ''out.json'',
                         json = None, clusters = c\<rparr>"
  by (simp add: parse_args_def parse_loop_positional add_positional_def acc_defaults_def del: parse_loop.simps)

lemma parse_loop_positionals: "parse_loop True acc xs = Inr (fold add_positional xs acc)"
  by (induction xs arbitrary: acc) simp_all

lemma parse_loop_dashdash_all: "parse_loop False acc (''--'' # xs) = Inr (fold add_positional xs acc)"
  by (simp add: is_optional_def looks_negative_def parse_loop_positionals)

text \<open>
  Claim C19.  argparse rejects a command line before \<^verbatim>\<open>run\<close> starts when the
  positional argument is missing or doubled: any command line of the rendered form without
  its cluster collection is refused with the missing-argument message, and with a second
  positional argument \<open>d\<close> (whatever it holds) with the message naming \<open>d\<close>.
\<close>

theorem parse_args_errors:
  "parse_args (butlast (render_args a)) = Inl (ArgError ''the following arguments are required: clusters'') \<and>
   parse_args (render_args a @ [d]) = Inl (ArgError (''unrecognized arguments: '' @ d))"
  by (cases "json a")
    (simp_all add: parse_args_def render_args_def parse_loop_rendered [unfolded append_Cons append_Nil]
      parse_loop_dashdash_all add_positional_def acc_defaults_def
      del: parse_loop.simps)

text \<open>
  Claim C10.  \<^verbatim>\<open>main\<close> runs the training on what it parsed: for a command line argparse
  accepts, naming a cluster collection whose columns do not collide, and for input files
  with the branches \<^verbatim>\<open>run\<close> reads and well-formed events, \<^verbatim>\<open>main\<close> raises
  nothing, reads \<open>inputDir/*.root\<close>, fits the configured regressor on the samples of
  the events the filter keeps, and saves it to \<open>outFile\<close>.
\<close>

theorem main_runs:
  assumes "parse_args argv = Inr a" and "cluster_name_ok (clusters a)"
    and "set (input_branches (clusters a)) \<subseteq> set bs"
    and "set (defined_names (clusters a)) \<inter> set bs = {}" and "list_all event_trainable evs"
  shows "main argv bs evs =
     Inr \<lparr>ro_input = inputDir a @ ''/*.root'', ro_events = length evs,
          ro_model = \<lparr>tm_params = configure_regressor xgb_regressor_hist, tm_data = trained_on evs\<rparr>,
          ro_out_file = outFile a\<rparr>"
  using run_training_eq [OF assms(2-5), of "inputDir a" "outFile a"] assms(1) by (simp add: main_def)

text \<open>
  \<^verbatim>\<open>init_stuff\<close> prepares the session the graph of \<^verbatim>\<open>run\<close> needs: from
  a fresh session it raises nothing, and leaves the library loaded and the namespaces
  declared (which a fresh session lacks, so the unqualified helpers of lines 37 and 43
  would not compile there), the geometry loaded with readout \<^verbatim>\<open>ECalBarrelPhiEta\<close>,
  and 32 threads enabled.  Loading the geometry before the library fails.
\<close>

theorem init_stuff_ready:
  "\<exists>s. init_stuff fresh_session = Inr s \<and> jit_ready s \<and> batch s \<and>
       geometry s = Some (''../../FCCDetectors/Detector/DetFCCeeIDEA-LAr/compact/FCCee_DectMaster.xml'',
                          ''ECalBarrelPhiEta'') \<and>
       implicit_mt s = Some 32 \<and> \<not> jit_ready fresh_session \<and>
       load_geometry ''g.xml'' ''ECalBarrelPhiEta'' fresh_session = Inl (NotLoaded ''libFCCAnalyses'')"
  by (simp add: init_stuff_def load_geometry_def fresh_session_def jit_ready_def)

section \<open>Witnesses\<close>

theorem parse_args_defaults_witness:
  "\<not> is_optional ''CaloClusters'' \<and>
   parse_args [''CaloClusters''] = Inr \<lparr>inputDir = ''FCCSW_ecal/baseline_LAr_testResol_1/'', outFile = ''out.json'',
                                      json = None, clusters = ''CaloClusters''\<rparr>"
proof -
  have "\<not> is_optional ''CaloClusters''" by (simp add: is_optional_def)
  then show ?thesis using parse_args_defaults by blast
qed

theorem main_runs_witness:
  "parse_args [''-i'', ''data'', ''CaloClusters''] =
     Inr \<lparr>inputDir = ''data'', outFile = ''out.json'', json = None, clusters = ''CaloClusters''\<rparr> \<and>
   cluster_name_ok ''CaloClusters'' \<and>
   set (input_branches ''CaloClusters'') \<subseteq> set (input_branches ''CaloClusters'') \<and>
   set (defined_names ''CaloClusters'') \<inter> set (input_branches ''CaloClusters'') = {} \<and>
   list_all event_trainable [ev_two_clusters] \<and>
   main [''-i'', ''data'', ''CaloClusters''] (input_branches ''CaloClusters'') [ev_two_clusters] =
     Inr \<lparr>ro_input = ''data/*.root'', ro_events = 1,
          ro_model = \<lparr>tm_params = configure_regressor xgb_regressor_hist, tm_data = trained_on [ev_two_clusters]\<rparr>,
          ro_out_file = ''out.json''\<rparr>"
proof -
  have p: "parse_args [''-i'', ''data'', ''CaloClusters''] =
     Inr \<lparr>inputDir = ''data'', outFile = ''out.json'', json = None, clusters = ''CaloClusters''\<rparr>"
    by (simp add: parse_args_def acc_defaults_def add_positional_def is_optional_def looks_negative_def
        resolve_opt_def short_opts_def is_digit_def)
  show ?thesis
    using main_runs [OF p] calo_setup witness_runs(1) p by simp
qed

end
