(* ===== verification/SimGun.thy ===== *)
theory SimGun
  imports DataFrame
begin

text \<open>
  The particle source of the simulation job
  (\<^verbatim>\<open>src/FCCSW_ecal/fcc_ee_upstream_inclinedEcal.py\<close>, lines 3--37): Gaudi's units,
  the parameters of \<^verbatim>\<open>MomentumRangeParticleGun\<close>, the particle it draws for one
  event from its uniform random numbers, and \<^verbatim>\<open>HepMCToEDMConverter\<close>, which turns
  it into the generated particle the output file stores.  The theorems say what momentum
  and directions the job generates.
\<close>

section \<open>Units and parameters\<close>

text \<open>\<^verbatim>\<open>GaudiKernel.SystemOfUnits\<close> (line 3): energies are in MeV.\<close>

definition MeV :: real where "MeV = 1"

definition GeV :: real where "GeV = 1000 * MeV"

text \<open>Lines 6--9 and 16: the momentum, the polar range in degrees, and the script's \<open>\<pi>\<close>.\<close>

definition momentum :: real where "momentum = 50"

definition thetaMin :: real where "thetaMin = 85"

definition thetaMax :: real where "thetaMax = 95"

definition script_pi :: real where "script_pi = 3.14159"

record gun_config =
  pdg_codes :: "int list"
  momentum_min :: real
  momentum_max :: real
  phi_min :: real
  phi_max :: real
  theta_min :: real
  theta_max :: real

text \<open>Lines 19--27.\<close>

definition pgun :: gun_config where
  "pgun =
     \<lparr>pdg_codes = [11], momentum_min = momentum * GeV, momentum_max = momentum * GeV,
      phi_min = 0, phi_max = 2 * script_pi,
      theta_min = thetaMin * script_pi / 180, theta_max = thetaMax * script_pi / 180\<rparr>"

section \<open>One draw of the gun\<close>

text \<open>
  For each event \<^verbatim>\<open>GenAlg\<close> (lines 29--32) asks the gun for one particle.  The gun
  takes four flat random numbers in \<open>[0, 1)\<close>: the momentum, \<open>\<theta>\<close> and
  \<open>\<phi>\<close> are drawn uniformly in their ranges, and the PDG code is the entry
  \<^verbatim>\<open>int(u * size)\<close> of the list, an index past the end being reset to
  \<open>0\<close> ("protect against funnies"); the gun's initialisation refuses an empty list, and
  here an empty list gives no particle.  The particle's momentum vector, in MeV, is
  \<open>p (sin \<theta> cos \<phi>, sin \<theta> sin \<phi>, cos \<theta>)\<close>.
\<close>

record gun_draws =
  u_momentum :: real
  u_theta :: real
  u_phi :: real
  u_pdg :: real

definition draws_ok :: "gun_draws \<Rightarrow> bool" where
  "draws_ok u \<longleftrightarrow> 0 \<le> u_momentum u \<and> u_momentum u < 1 \<and> 0 \<le> u_theta u \<and> u_theta u < 1 \<and>
     0 \<le> u_phi u \<and> u_phi u < 1 \<and> 0 \<le> u_pdg u \<and> u_pdg u < 1"

record hepmc_particle =
  hp_pdg :: int
  hp_px :: real
  hp_py :: real
  hp_pz :: real

definition flat_in :: "real \<Rightarrow> real \<Rightarrow> real \<Rightarrow> real" where
  "flat_in lo hi u = lo + u * (hi - lo)"

definition gun_generate :: "gun_config \<Rightarrow> gun_draws \<Rightarrow> hepmc_particle option" where
  "gun_generate g u =
     (let p = flat_in (momentum_min g) (momentum_max g) (u_momentum u);
          th = flat_in (theta_min g) (theta_max g) (u_theta u);
          ph = flat_in (phi_min g) (phi_max g) (u_phi u)
      in map_option (\<lambda>pdg. \<lparr>hp_pdg = pdg, hp_px = p * sin th * cos ph, hp_py = p * sin th * sin ph,
                            hp_pz = p * cos th\<rparr>)
           (let i = nat \<lfloor>u_pdg u * real (length (pdg_codes g))\<rfloor>
            in nth_opt (pdg_codes g) (if i < length (pdg_codes g) then i else 0)))"

text \<open>
  \<^verbatim>\<open>HepMCToEDMConverter\<close> (lines 34--37) copies each particle into the collection
  \<^verbatim>\<open>GenParticles\<close>; the EDM stores momenta in GeV.
\<close>

definition hepmc_to_edm :: "hepmc_particle \<Rightarrow> particle" where
  "hepmc_to_edm hp = \<lparr>mom_x = hp_px hp / GeV, mom_y = hp_py hp / GeV, mom_z = hp_pz hp / GeV\<rparr>"

section \<open>Properties of the gun\<close>

lemma GeV_pos [simp]: "0 < GeV"
  by (simp add: GeV_def MeV_def)

lemma flat_in_const [simp]: "flat_in a a u = a"
  by (simp add: flat_in_def)

lemma flat_in_bounds:
  assumes "lo \<le> hi" and "0 \<le> u" and "u < 1"
  shows "lo \<le> flat_in lo hi u \<and> flat_in lo hi u \<le> hi"
proof -
  have "0 \<le> u * (hi - lo)" and "u * (hi - lo) \<le> hi - lo"
    using assms by (simp_all add: mult_left_le_one_le)
  then show ?thesis by (simp add: flat_in_def)
qed

lemma norm_spherical:
  "sqrt ((p * sin th * cos ph)\<^sup>2 + (p * sin th * sin ph)\<^sup>2 + (p * cos th)\<^sup>2) = \<bar>p\<bar>"
proof -
  have "(p * sin th * cos ph)\<^sup>2 + (p * sin th * sin ph)\<^sup>2 + (p * cos th)\<^sup>2 =
      p\<^sup>2 * ((sin th)\<^sup>2 * ((sin ph)\<^sup>2 + (cos ph)\<^sup>2) + (cos th)\<^sup>2)"
    by algebra
  also have "\<dots> = p\<^sup>2 * ((sin th)\<^sup>2 + (cos th)\<^sup>2)"
    by (simp only: sin_cos_squared_add mult_1_right)
  also have "\<dots> = p\<^sup>2" by (simp only: sin_cos_squared_add mult_1_right)
  finally show ?thesis by simp
qed

lemma cos_lower_16: "(\<Sum>m<16. cos_coeff m * x ^ m) - \<bar>x\<bar> ^ 16 / fact 16 \<le> cos x"
proof -
  obtain t where c: "cos x = (\<Sum>m<16. cos_coeff m * x ^ m) + (cos (t + 1/2 * real 16 * pi) / fact 16) * x ^ 16"
    using Maclaurin_cos_expansion [of x 16] by blast
  have x16: "0 \<le> x ^ 16" by simp
  have "\<bar>cos (t + 1/2 * real 16 * pi)\<bar> * x ^ 16 \<le> x ^ 16"
    by (rule mult_left_le_one_le [OF x16 abs_ge_zero abs_cos_le_one])
  then have "\<bar>(cos (t + 1/2 * real 16 * pi) / fact 16) * x ^ 16\<bar> \<le> \<bar>x\<bar> ^ 16 / fact 16"
    by (simp add: abs_mult power_abs divide_right_mono)
  then show ?thesis using c by linarith
qed

text \<open>
  The script's \<open>\<pi>\<close> is below \<open>\<pi>\<close>: \<open>cos\<close> is still positive at half of it
  (a Maclaurin bound of degree 16), and \<open>cos\<close> falls on \<open>[0, \<pi>]\<close> to 0 at
  \<open>\<pi>/2\<close>.
\<close>

lemma script_pi_less_pi: "script_pi < pi"
proof (rule ccontr)
  have "0 < (\<Sum>m<16. cos_coeff m * (314159 / 200000 :: real) ^ m) - \<bar>314159 / 200000 :: real\<bar> ^ 16 / fact 16"
    by (simp add: cos_coeff_def lessThan_nat_numeral fact_numeral power_divide)
  then have pos: "0 < cos (314159 / 200000 :: real)" using cos_lower_16 [of "314159 / 200000"] by linarith
  assume "\<not> script_pi < pi"
  then have "pi / 2 \<le> 314159 / 200000" by (simp add: script_pi_def)
  moreover have "(314159 / 200000 :: real) \<le> pi" using pi_ge_two by simp
  ultimately have "cos (314159 / 200000 :: real) \<le> cos (pi / 2)"
    by (intro cos_monotone_0_pi_le) simp_all
  then show False using pos by simp
qed

lemma pgun_fields:
  "pdg_codes pgun = [11]" "momentum_min pgun = momentum * GeV" "momentum_max pgun = momentum * GeV"
  "phi_min pgun = 0" "phi_max pgun = 2 * script_pi"
  "theta_min pgun = thetaMin * script_pi / 180" "theta_max pgun = thetaMax * script_pi / 180"
  by (simp_all add: pgun_def)

lemma pgun_draw:
  assumes "draws_ok u"
  shows "gun_generate pgun u =
    Some \<lparr>hp_pdg = 11,
          hp_px = momentum * GeV * sin (flat_in (theta_min pgun) (theta_max pgun) (u_theta u))
                    * cos (flat_in (phi_min pgun) (phi_max pgun) (u_phi u)),
          hp_py = momentum * GeV * sin (flat_in (theta_min pgun) (theta_max pgun) (u_theta u))
                    * sin (flat_in (phi_min pgun) (phi_max pgun) (u_phi u)),
          hp_pz = momentum * GeV * cos (flat_in (theta_min pgun) (theta_max pgun) (u_theta u))\<rparr>"
proof -
  have "nat \<lfloor>u_pdg u * real (length (pdg_codes pgun))\<rfloor> = 0"
    using assms by (simp add: pgun_fields draws_ok_def floor_eq_iff)
  then show ?thesis by (simp add: gun_generate_def pgun_fields(1-3) nth_opt_def Let_def)
qed

lemma pgun_ranges: "theta_min pgun \<le> theta_max pgun" "phi_min pgun \<le> phi_max pgun"
  by (simp_all add: pgun_fields thetaMin_def thetaMax_def script_pi_def)

text \<open>
  Claim C17.  For any four draws in \<open>[0, 1)\<close> the gun of lines 19--27 shoots one electron
  (PDG code 11) of momentum exactly 50 GeV, in a direction with \<open>\<theta>\<close> and
  \<open>\<phi>\<close> within the configured ranges.
\<close>

theorem gun_generate_pgun:
  assumes "draws_ok u"
  shows "\<exists>th ph. theta_min pgun \<le> th \<and> th \<le> theta_max pgun \<and> phi_min pgun \<le> ph \<and> ph \<le> phi_max pgun \<and>
     gun_generate pgun u =
       Some \<lparr>hp_pdg = 11, hp_px = 50 * GeV * sin th * cos ph, hp_py = 50 * GeV * sin th * sin ph,
             hp_pz = 50 * GeV * cos th\<rparr>"
proof -
  have d: "0 \<le> u_theta u" "u_theta u < 1" "0 \<le> u_phi u" "u_phi u < 1"
    using assms by (simp_all add: draws_ok_def)
  show ?thesis
    using pgun_draw [OF assms] flat_in_bounds [OF pgun_ranges(1) d(1,2)]
      flat_in_bounds [OF pgun_ranges(2) d(3,4)]
    by (auto simp: momentum_def)
qed

theorem gun_generate_pgun_witness:
  "draws_ok \<lparr>u_momentum = 0, u_theta = 1 / 2, u_phi = 0, u_pdg = 0\<rparr> \<and>
   (\<exists>th ph. theta_min pgun \<le> th \<and> th \<le> theta_max pgun \<and> phi_min pgun \<le> ph \<and> ph \<le> phi_max pgun \<and>
     gun_generate pgun \<lparr>u_momentum = 0, u_theta = 1 / 2, u_phi = 0, u_pdg = 0\<rparr> =
       Some \<lparr>hp_pdg = 11, hp_px = 50 * GeV * sin th * cos ph, hp_py = 50 * GeV * sin th * sin ph,
             hp_pz = 50 * GeV * cos th\<rparr>)"
proof -
  have "draws_ok \<lparr>u_momentum = 0, u_theta = 1 / 2, u_phi = 0, u_pdg = 0\<rparr>" by (simp add: draws_ok_def)
  then show ?thesis using gun_generate_pgun by blast
qed

end
