(* ===== verification/SimDataflow.thy ===== *)
theory SimDataflow
  imports Prelude
begin

text \<open>
  The Gaudi job of \<^verbatim>\<open>src/FCCSW_ecal/fcc_ee_upstream_inclinedEcal.py\<close> as data
  flow: each algorithm of \<^verbatim>\<open>TopAlg\<close> with the event-store paths its data handles
  read and write, \<^verbatim>\<open>PodioOutput\<close> with its keep/drop commands, the services of
  \<^verbatim>\<open>ExtSvc\<close>, and \<^verbatim>\<open>ApplicationMgr\<close>, which starts the services (each on first
  use) and runs the algorithms in order on a fresh event store for each of
  \<^verbatim>\<open>EvtMax\<close> events.
  The physics the algorithms compute is not modelled here; only which collections exist.
\<close>

section \<open>Algorithms and the event store\<close>

text \<open>
  What a data handle puts in the store: a podio collection, or an object of another type
  wrapped in a \<^verbatim>\<open>DataWrapper\<close> that is not a podio collection -- the HepMC event,
  or the \<^verbatim>\<open>std::vector<double>\<close> and \<^verbatim>\<open>double\<close> outputs of the layer summary.
\<close>

datatype coll_kind = PodioColl | HepMCEvent | AnyData

type_synonym store = "(string \<times> coll_kind) list"

datatype gaudi_error =
    MissingInput string string
  | AlreadyRegistered string string
  | BadKeepDrop string

record alg =
  alg_name :: string
  alg_inputs :: "string list"
  alg_outputs :: "(string \<times> coll_kind) list"
  alg_services :: "string list"

text \<open>
  \<^verbatim>\<open>DataObjectHandle::get\<close> raises when the path is not in the store, and
  \<^verbatim>\<open>put\<close> raises when it already is.
\<close>

fun put_all :: "string \<Rightarrow> (string \<times> coll_kind) list \<Rightarrow> store \<Rightarrow> gaudi_error + store" where
  "put_all a [] st = Inr st"
| "put_all a ((p, k) # os) st =
     (if p \<in> fst ` set st then Inl (AlreadyRegistered a p) else put_all a os (st @ [(p, k)]))"

definition exec_alg :: "alg \<Rightarrow> store \<Rightarrow> gaudi_error + store" where
  "exec_alg a st =
     (case find (\<lambda>p. p \<notin> fst ` set st) (alg_inputs a) of
        Some p \<Rightarrow> Inl (MissingInput (alg_name a) p)
      | None \<Rightarrow> put_all (alg_name a) (alg_outputs a) st)"

text \<open>Lines 29--32: \<^verbatim>\<open>GenAlg\<close> writes the HepMC event of the gun.\<close>

definition genalg_pgun :: alg where
  "genalg_pgun = \<lparr>alg_name = ''GenAlg'', alg_inputs = [], alg_outputs = [(''hepmc'', HepMCEvent)],
     alg_services = [''EventDataSvc'']\<rparr>"

text \<open>Lines 34--37.\<close>

definition hepmc_converter :: alg where
  "hepmc_converter = \<lparr>alg_name = ''HepMCToEDMConverter'', alg_inputs = [''hepmc''],
     alg_outputs = [(''GenParticles'', PodioColl)], alg_services = [''EventDataSvc'']\<rparr>"

text \<open>
  Lines 62--74: \<^verbatim>\<open>SimG4Alg\<close> reads the generated particles through its event provider
  \<^verbatim>\<open>EdmConverter\<close> and writes the calorimeter hits through the tool
  \<^verbatim>\<open>saveECalBarrelHits\<close>.
\<close>

definition geantsim :: alg where
  "geantsim = \<lparr>alg_name = ''SimG4Alg'', alg_inputs = [''GenParticles''],
     alg_outputs = [(''ECalBarrelHits'', PodioColl)], alg_services = [''EventDataSvc'', ''SimG4Svc'']\<rparr>"

text \<open>Lines 76--82; with \<^verbatim>\<open>addPosition=True\<close> the cells are positioned with the geometry.\<close>

definition createcellsBarrel :: alg where
  "createcellsBarrel = \<lparr>alg_name = ''CreateCaloCellsBarrel'', alg_inputs = [''ECalBarrelHits''],
     alg_outputs = [(''ECalBarrelCells'', PodioColl)], alg_services = [''EventDataSvc'', ''GeoSvc'']\<rparr>"

text \<open>
  Lines 84--93: the input handles \<^verbatim>\<open>deposits\<close> and \<^verbatim>\<open>particle\<close>, and the
  output handles the script leaves at their default paths: the energy per layer, the
  energy in the cryostat, and the generated particle's vector, none of them a podio
  collection.
\<close>

definition energy_in_layers :: alg where
  "energy_in_layers = \<lparr>alg_name = ''energyInLayers'', alg_inputs = [''ECalBarrelCells'', ''GenParticles''],
     alg_outputs = [(''energyInLayer'', AnyData), (''energyInCryo'', AnyData), (''particleVec'', AnyData)],
     alg_services = [''EventDataSvc'', ''GeoSvc'']\<rparr>"

section \<open>The output module\<close>

text \<open>
  \<^verbatim>\<open>PodioOutput\<close> writes the podio collections of the store that its keep/drop
  switch lets through; the data service registers for output only the wrapped objects that
  are podio collections.  The switch reads each command as two words, \<^verbatim>\<open>keep\<close> or
  \<^verbatim>\<open>drop\<close> and a pattern in which \<^verbatim>\<open>*\<close> matches any string and
  \<^verbatim>\<open>?\<close> any character; a collection is written when the last command whose pattern
  matches it is \<^verbatim>\<open>keep\<close>, or when none matches; a malformed command raises.
\<close>

fun wildcmp :: "string \<Rightarrow> string \<Rightarrow> bool" where
  "wildcmp [] s \<longleftrightarrow> s = []"
| "wildcmp (c # p) s \<longleftrightarrow>
     (if c = CHR ''*'' then wildcmp p s \<or> (case s of [] \<Rightarrow> False | _ # s' \<Rightarrow> wildcmp (c # p) s')
      else (case s of [] \<Rightarrow> False | d # s' \<Rightarrow> (c = CHR ''?'' \<or> c = d) \<and> wildcmp p s'))"

text \<open>
  The command is cut at each blank, as a loop of \<^verbatim>\<open>std::getline(ss, word, ' ')\<close>
  does: no empty word after a final blank.
\<close>

fun split_acc :: "string \<Rightarrow> string \<Rightarrow> string list" where
  "split_acc w [] = (if w = [] then [] else [w])"
| "split_acc w (c # s) = (if c = CHR '' '' then w # split_acc [] s else split_acc (w @ [c]) s)"

definition split_words :: "string \<Rightarrow> string list" where
  "split_words s = split_acc [] s"

definition keep_drop :: "string list \<Rightarrow> string \<Rightarrow> gaudi_error + bool" where
  "keep_drop cmds n =
     foldl (\<lambda>acc cmd. sbind acc (\<lambda>flag.
        case split_words cmd of
          [w, pat] \<Rightarrow>
            if w = ''keep'' then Inr (if wildcmp pat n then True else flag)
            else if w = ''drop'' then Inr (if wildcmp pat n then False else flag)
            else Inl (BadKeepDrop cmd)
        | _ \<Rightarrow> Inl (BadKeepDrop cmd))) (Inr True) cmds"

record podio_output =
  po_name :: string
  po_commands :: "string list"
  po_filename :: string

text \<open>Lines 103--107.\<close>

definition out :: podio_output where
  "out = \<lparr>po_name = ''out'', po_commands = [''keep *'', ''drop ECalBarrelCells'', ''drop ECalBarrelHits''],
     po_filename = ''fccee_deadMaterial_inclinedEcal.root''\<rparr>"

definition podio_write :: "podio_output \<Rightarrow> store \<Rightarrow> gaudi_error + string list" where
  "podio_write po st =
     sbind (those_sum (map (\<lambda>(n, k). if k = PodioColl then
                                         sbind (keep_drop (po_commands po) n) (\<lambda>b. Inr (if b then [n] else []))
                                       else Inr []) st))
       (\<lambda>ws. Inr (concat ws))"

section \<open>One event\<close>

datatype top_alg = Alg alg | PodioOut podio_output

text \<open>
  An event runs the algorithms in order on an empty store; the result is what the output
  module wrote for it.
\<close>

fun exec_top :: "top_alg \<Rightarrow> store \<times> string list \<Rightarrow> gaudi_error + store \<times> string list" where
  "exec_top (Alg a) (st, w) = sbind (exec_alg a st) (\<lambda>st'. Inr (st', w))"
| "exec_top (PodioOut po) (st, w) = sbind (podio_write po st) (\<lambda>w'. Inr (st, w @ w'))"

definition run_algs :: "top_alg list \<Rightarrow> gaudi_error + store \<times> string list" where
  "run_algs algs = foldl (\<lambda>acc t. sbind acc (exec_top t)) (Inr ([], [])) algs"

definition run_event :: "top_alg list \<Rightarrow> gaudi_error + string list" where
  "run_event algs = sbind (run_algs algs) (\<lambda>(st, w). Inr w)"

definition event_store :: "top_alg list \<Rightarrow> gaudi_error + store" where
  "event_store algs = sbind (run_algs algs) (\<lambda>(st, w). Inr st)"

text \<open>
  The readouts named by the hit-saving tool (line 63) and by the layer summary (line 86):
  the cell identifiers of the hits are decoded with them.
\<close>

definition saveecal_readouts :: "string list" where
  "saveecal_readouts = [''ECalBarrelEta'']"

definition energy_in_layers_readout :: string where
  "energy_in_layers_readout = ''ECalBarrelEta''"

section \<open>Services and the application manager\<close>

text \<open>
  Gaudi creates and initialises a service on its first use
  (\<^verbatim>\<open>service(name, createIf = true)\<close>): \<^verbatim>\<open>ApplicationMgr\<close> initialises the
  services of \<^verbatim>\<open>ExtSvc\<close> in order, a service that one of them uses being started
  first if it is not yet up, and the algorithms' services are started in the same way when
  the algorithms initialise.  \<^verbatim>\<open>SimG4Svc\<close> uses \<^verbatim>\<open>GeoSvc\<close> through its
  detector tool (the comment of line 114); \<^verbatim>\<open>GeoSvc\<close> loads the detector
  descriptions of lines 42--46.  The result is the order in which the services start.
\<close>

record svc =
  svc_name :: string
  svc_needs :: "string list"

definition podioevent :: svc where
  "podioevent = \<lparr>svc_name = ''EventDataSvc'', svc_needs = []\<rparr>"

definition geoservice :: svc where
  "geoservice = \<lparr>svc_name = ''GeoSvc'', svc_needs = []\<rparr>"

definition geantservice :: svc where
  "geantservice = \<lparr>svc_name = ''SimG4Svc'', svc_needs = [''GeoSvc'']\<rparr>"

definition audsvc :: svc where
  "audsvc = \<lparr>svc_name = ''AuditorSvc'', svc_needs = []\<rparr>"

definition start_svcs :: "string list \<Rightarrow> string list \<Rightarrow> string list" where
  "start_svcs up ns = up @ remdups (filter (\<lambda>n. n \<notin> set up) ns)"

fun init_services :: "string list \<Rightarrow> svc list \<Rightarrow> string list" where
  "init_services up [] = up"
| "init_services up (s # ss) = init_services (start_svcs (start_svcs up (svc_needs s)) [svc_name s]) ss"

fun top_services :: "top_alg \<Rightarrow> string \<times> string list" where
  "top_services (Alg a) = (alg_name a, alg_services a)"
| "top_services (PodioOut po) = (po_name po, [''EventDataSvc''])"

definition init_algs :: "string list \<Rightarrow> top_alg list \<Rightarrow> string list" where
  "init_algs up algs = foldl (\<lambda>u t. start_svcs u (snd (top_services t))) up algs"

record app_mgr =
  top_alg :: "top_alg list"
  evt_sel :: string
  evt_max :: int
  ext_svc :: "svc list"

text \<open>Lines 110--117.\<close>

definition application_mgr :: app_mgr where
  "application_mgr =
     \<lparr>top_alg = [Alg genalg_pgun, Alg hepmc_converter, Alg geantsim, Alg createcellsBarrel,
                Alg energy_in_layers, PodioOut out],
      evt_sel = ''NONE'', evt_max = 10, ext_svc = [geoservice, podioevent, geantservice, audsvc]\<rparr>"

text \<open>
  Starting the services cannot fail in this model, so the run is the event loop.
  With \<^verbatim>\<open>EvtSel = 'NONE'\<close> there is no input to run out of: the loop runs
  \<^verbatim>\<open>EvtMax\<close> events, and for \<^verbatim>\<open>EvtMax = -1\<close> it never stops.  The result
  is the list of what each event wrote, or the first error.
\<close>

partial_function (option) event_loop :: "top_alg list \<Rightarrow> int \<Rightarrow> (gaudi_error + string list list) option" where
  "event_loop algs n =
     (if n = 0 then Some (Inr [])
      else (case run_event algs of
              Inl e \<Rightarrow> Some (Inl e)
            | Inr w \<Rightarrow> Option.bind (event_loop algs (n - 1)) (\<lambda>r. Some (sbind r (\<lambda>ws. Inr (w # ws))))))"

definition app_services :: "app_mgr \<Rightarrow> string list" where
  "app_services m = init_algs (init_services [] (ext_svc m)) (top_alg m)"

definition app_run :: "app_mgr \<Rightarrow> (gaudi_error + string list list) option" where
  "app_run m = event_loop (top_alg m) (evt_max m)"

section \<open>Configuration of the layer summary and of the geometry\<close>

text \<open>Lines 85--91: \<^verbatim>\<open>numLayers\<close> and the twelve sampling fractions.\<close>

definition numLayers :: nat where "numLayers = 12"

definition samplingFractions :: "real list" where
  "samplingFractions =
     [0.3632447480841956] @ [0.13187261040190248] @ [0.14349714292943705] @ [0.150266118277841] @
     [0.15502683375826457] @ [0.15954408786354762] @ [0.16375302347299436] @ [0.16840384714588075] @
     [0.17219540619311383] @ [0.1755068643940401] @ [0.17816980262822366] @ [0.18131266048670405]"

text \<open>
  \<^verbatim>\<open>os.path.join(a, b)\<close> (POSIX): \<open>b\<close> when it is absolute, otherwise \<open>a\<close> and
  \<open>b\<close> with one separator between them unless \<open>a\<close> is empty or ends in one.
  \<^verbatim>\<open>environ.get(k, "")\<close> is a lookup with a default.
\<close>

definition path_join :: "string \<Rightarrow> string \<Rightarrow> string" where
  "path_join a b =
     (if take 1 b = ''/'' then b
      else if a = [] \<or> last a = CHR ''/'' then a @ b else a @ ''/'' @ b)"

definition environ_get :: "(string \<times> string) list \<Rightarrow> string \<Rightarrow> string \<Rightarrow> string" where
  "environ_get env k d = (case map_of env k of Some v \<Rightarrow> v | None \<Rightarrow> d)"

definition detectors :: "string list" where
  "detectors = [''Detector/DetFCCeeIDEA-LAr/compact/FCCee_DectEmptyMaster.xml'',
                ''Detector/DetFCCeeECalInclined/compact/FCCee_ECalBarrel_upstream.xml'']"

definition geo_detectors :: "(string \<times> string) list \<Rightarrow> string list" where
  "geo_detectors env =
     (let detector_path = environ_get env ''FCCDETECTORS'' [] in
      map (\<lambda>detector. path_join detector_path detector) detectors)"

section \<open>Well-formed data flow\<close>

text \<open>
  A sequence of algorithms is well formed when each one reads only paths written before it,
  writes fresh paths, and each output module's commands are well formed.
\<close>

definition cmd_ok :: "string \<Rightarrow> bool" where
  "cmd_ok c \<longleftrightarrow> (case split_words c of [w, p] \<Rightarrow> w = ''keep'' \<or> w = ''drop'' | _ \<Rightarrow> False)"

fun flow_ok :: "string list \<Rightarrow> top_alg list \<Rightarrow> bool" where
  "flow_ok S [] = True"
| "flow_ok S (Alg a # as) \<longleftrightarrow>
     set (alg_inputs a) \<subseteq> set S \<and> distinct (map fst (alg_outputs a)) \<and>
     set (map fst (alg_outputs a)) \<inter> set S = {} \<and> flow_ok (S @ map fst (alg_outputs a)) as"
| "flow_ok S (PodioOut po # as) \<longleftrightarrow> list_all cmd_ok (po_commands po) \<and> flow_ok S as"

lemma put_all_fresh:
  "distinct (map fst os) \<Longrightarrow> set (map fst os) \<inter> fst ` set st = {} \<Longrightarrow> put_all a os st = Inr (st @ os)"
  by (induction a os st rule: put_all.induct) auto

lemma exec_alg_ok:
  assumes "set (alg_inputs a) \<subseteq> fst ` set st" and "distinct (map fst (alg_outputs a))"
    and "set (map fst (alg_outputs a)) \<inter> fst ` set st = {}"
  shows "exec_alg a st = Inr (st @ alg_outputs a)"
proof -
  have "find (\<lambda>p. p \<notin> fst ` set st) (alg_inputs a) = None"
    using assms(1) by (auto simp: find_None_iff)
  then show ?thesis using put_all_fresh [OF assms(2,3)] by (simp add: exec_alg_def)
qed

lemma keep_drop_acc_ok:
  "list_all cmd_ok cmds \<Longrightarrow> \<exists>b. foldl (\<lambda>acc cmd. sbind acc (\<lambda>flag.
        case split_words cmd of
          [w, pat] \<Rightarrow>
            if w = ''keep'' then Inr (if wildcmp pat n then True else flag)
            else if w = ''drop'' then Inr (if wildcmp pat n then False else flag)
            else Inl (BadKeepDrop cmd)
        | _ \<Rightarrow> Inl (BadKeepDrop cmd))) (Inr f) cmds = Inr b"
proof (induction cmds arbitrary: f)
  case (Cons c cs)
  from Cons.prems obtain w pat where sw: "split_words c = [w, pat]"
    and w: "w = ''keep'' \<or> w = ''drop''"
    by (auto simp: cmd_ok_def split: list.splits)
  from Cons.prems have cs: "list_all cmd_ok cs" by simp
  from w show ?case
  proof
    assume "w = ''keep''"
    then show ?thesis using Cons.IH [OF cs] by (simp add: sw)
  next
    assume "w = ''drop''"
    then show ?thesis using Cons.IH [OF cs] by (simp add: sw)
  qed
qed simp

lemma keep_drop_ok: "list_all cmd_ok cmds \<Longrightarrow> \<exists>b. keep_drop cmds n = Inr b"
  unfolding keep_drop_def by (rule keep_drop_acc_ok)

lemma those_sum_Inr_ex: "\<forall>x \<in> set xs. \<exists>y. x = Inr y \<Longrightarrow> \<exists>ys. those_sum xs = Inr ys"
  by (induction xs) auto

lemma podio_write_ok:
  assumes "list_all cmd_ok (po_commands po)"
  shows "\<exists>w. podio_write po st = Inr w"
proof -
  let ?f = "\<lambda>(n, k). if k = PodioColl then
              sbind (keep_drop (po_commands po) n) (\<lambda>b. Inr (if b then [n] else [])) else Inr []"
  have "\<forall>x \<in> set (map ?f st). \<exists>y. x = Inr y"
  proof
    fix x assume "x \<in> set (map ?f st)"
    then obtain n k where x: "x = ?f (n, k)" by auto
    show "\<exists>y. x = Inr y"
    proof (cases "k = PodioColl")
      case True
      obtain b where "keep_drop (po_commands po) n = Inr b" using keep_drop_ok [OF assms] by blast
      then show ?thesis using True x by simp
    qed (simp add: x)
  qed
  then obtain ws where "those_sum (map ?f st) = Inr ws" using those_sum_Inr_ex by blast
  then show ?thesis by (simp add: podio_write_def)
qed

lemma run_flow_ok:
  "flow_ok (map fst st) algs \<Longrightarrow>
     \<exists>st' w'. foldl (\<lambda>acc t. sbind acc (exec_top t)) (Inr (st, w)) algs = Inr (st', w')"
proof (induction algs arbitrary: st w)
  case (Cons t ts)
  show ?case
  proof (cases t)
    case (Alg a)
    then have "exec_alg a st = Inr (st @ alg_outputs a)"
      using Cons.prems by (intro exec_alg_ok) auto
    then show ?thesis using Cons Alg by simp
  next
    case (PodioOut po)
    then obtain w' where "podio_write po st = Inr w'"
      using Cons.prems podio_write_ok by fastforce
    then show ?thesis using Cons PodioOut by simp
  qed
qed auto

lemma run_event_flow_ok: "flow_ok [] algs \<Longrightarrow> \<exists>w. run_event algs = Inr w"
  using run_flow_ok [of "[]" algs "[]"] by (auto simp: run_event_def run_algs_def)

section \<open>The event loop\<close>

lemma event_loop_zero [simp]: "event_loop algs 0 = Some (Inr [])"
  by (simp add: event_loop.simps)

lemma event_loop_ok:
  assumes "run_event algs = Inr w"
  shows "event_loop algs (int k) = Some (Inr (replicate k w))"
proof (induction k)
  case (Suc k)
  show ?case using Suc assms by (subst event_loop.simps) simp
qed auto

lemma event_loop_error:
  assumes "run_event algs = Inl e" and "n \<noteq> 0"
  shows "event_loop algs n = Some (Inl e)"
  using assms by (simp add: event_loop.simps [of algs n])

lemma event_loop_diverges:
  assumes "run_event algs = Inr w" and "n < 0"
  shows "event_loop algs n = None"
proof -
  have "\<forall>m y. event_loop algs m = Some y \<longrightarrow> m < 0 \<longrightarrow> False"
  proof (induction rule: event_loop.fixp_induct)
    case 1
    have eq: "(\<lambda>f. \<forall>m y. curry f algs m = Some y \<longrightarrow> m < 0 \<longrightarrow> False) =
        (\<lambda>f. \<forall>x y. f x = Some y \<longrightarrow> fst x = algs \<longrightarrow> snd x < 0 \<longrightarrow> False)"
      by (rule ext) (auto simp: split_paired_all)
    show ?case by (subst eq) (rule option_admissible)
  next
    case 2
    then show ?case by simp
  next
    case (3 f)
    then show ?case using assms(1) by (auto simp: bind_eq_Some_conv)
  qed
  then show ?thesis using assms(2) by (cases "event_loop algs n") auto
qed

section \<open>The output commands\<close>

lemma wildcmp_star [simp]: "wildcmp ''*'' s"
  by (induction s) simp_all

lemma wildcmp_plain:
  "CHR ''*'' \<notin> set p \<Longrightarrow> CHR ''?'' \<notin> set p \<Longrightarrow> wildcmp p s \<longleftrightarrow> p = s"
proof (induction p arbitrary: s)
  case (Cons c p)
  then have "c \<noteq> CHR ''*''" "c \<noteq> CHR ''?''" "CHR ''*'' \<notin> set p" "CHR ''?'' \<notin> set p" by auto
  with Cons.IH show ?case by (cases s) auto
qed auto

lemmas sim_algs_defs = genalg_pgun_def hepmc_converter_def geantsim_def createcellsBarrel_def
  energy_in_layers_def out_def

section \<open>Properties of the job\<close>

lemma job_services:
  "app_services application_mgr = [''GeoSvc'', ''EventDataSvc'', ''SimG4Svc'', ''AuditorSvc'']"
  by (simp add: app_services_def application_mgr_def geoservice_def podioevent_def geantservice_def
      audsvc_def init_algs_def start_svcs_def sim_algs_defs)

lemma job_algs:
  "run_algs (top_alg application_mgr) =
     Inr ([(''hepmc'', HepMCEvent), (''GenParticles'', PodioColl), (''ECalBarrelHits'', PodioColl),
           (''ECalBarrelCells'', PodioColl), (''energyInLayer'', AnyData), (''energyInCryo'', AnyData),
           (''particleVec'', AnyData)], [''GenParticles''])"
  by (simp add: application_mgr_def sim_algs_defs run_algs_def exec_alg_def podio_write_def
      keep_drop_def split_words_def)

lemma job_event: "run_event (top_alg application_mgr) = Inr [''GenParticles'']"
  by (simp add: run_event_def job_algs)

lemma job_evt_max: "evt_max application_mgr = int 10"
  by (simp add: application_mgr_def)

lemma job_run: "app_run application_mgr = Some (Inr (replicate 10 [''GenParticles'']))"
  using event_loop_ok [OF job_event, of 10] by (simp add: app_run_def job_evt_max del: of_nat_numeral)


text \<open>
  Claim C18.  The output commands \<^verbatim>\<open>keep *\<close>, \<^verbatim>\<open>drop ECalBarrelCells\<close>,
  \<^verbatim>\<open>drop ECalBarrelHits\<close> of line 106 write every collection except exactly those two.
\<close>

theorem out_keep_drop:
  "keep_drop (po_commands out) n = Inr (n \<noteq> ''ECalBarrelCells'' \<and> n \<noteq> ''ECalBarrelHits'')"
  by (simp add: keep_drop_def out_def split_words_def wildcmp_plain del: wildcmp.simps)

text \<open>
  The layer summary is configured consistently: one sampling fraction per layer
  (\<^verbatim>\<open>numLayers = 12\<close>), each in \<open>(0, 1)\<close>, the first one (the presampler's)
  the largest, and the others increasing with depth.
\<close>

theorem sampling_fractions_ok:
  "length samplingFractions = numLayers \<and> list_all (\<lambda>f. 0 < f \<and> f < 1) samplingFractions \<and>
   list_all (\<lambda>f. f < hd samplingFractions) (tl samplingFractions) \<and> sorted (tl samplingFractions)"
  by (simp add: samplingFractions_def numLayers_def)


section \<open>Witnesses\<close>


end
