(* ===== verification/SimCells.thy ===== *)
theory SimCells
  imports SimDataflow "HOL-Library.AList" "HOL-Library.Word"
begin

text \<open>
  What two algorithms of the Gaudi job of
  \<^verbatim>\<open>src/FCCSW_ecal/fcc_ee_upstream_inclinedEcal.py\<close> compute on an event, with the
  flags the script sets: \<^verbatim>\<open>CreateCaloCells\<close> (lines 76--82), which merges the
  Geant4 hits of a cell into one calorimeter cell, and \<^verbatim>\<open>EnergyInCaloLayers\<close>
  (lines 84--93), which sums the cell energies of each layer and divides them by the
  layer's sampling fraction.  Cells are named by 64-bit identifiers whose fields (the
  layer, the cryostat flag, ...) the layer summary reads with DD4hep's
  \<^verbatim>\<open>BitFieldCoder\<close>.
  The tools \<^verbatim>\<open>CreateCaloCells\<close> calls only under flags the script switches off
  (calibration, noise) and the geometry's cell positions are parameters: the theorems hold
  for every choice of them.
\<close>

unbundle bit_operations_syntax

section \<open>Cell identifiers\<close>

text \<open>
  A cell identifier is an unsigned 64-bit word.  A field of the readout's identifier
  descriptor is its offset and width; DD4hep's \<^verbatim>\<open>BitFieldElement\<close> reads it as
  \<^verbatim>\<open>(id & m_mask) >> m_offset\<close> (unsigned fields only: the readouts' fields the
  layer summary reads, \<^verbatim>\<open>cryo\<close> and \<^verbatim>\<open>layer\<close>, are unsigned).
  \<^verbatim>\<open>BitFieldCoder::get(id, name)\<close>, which the layer summary calls through its
  decoder (lines 84--93), looks the field up by name and raises for an unknown one.
\<close>

type_synonym cell_id = "64 word"

type_synonym bf_field = "nat \<times> nat"

type_synonym bf_desc = "(string \<times> bf_field) list"

datatype cell_error =
    UnknownField string
  | LayerOutOfRange nat
  | SamplingFractionMissing nat

definition bf_mask :: "bf_field \<Rightarrow> cell_id" where
  "bf_mask f = push_bit (fst f) (mask (snd f))"

definition bf_value :: "bf_field \<Rightarrow> cell_id \<Rightarrow> cell_id" where
  "bf_value f cid = drop_bit (fst f) (cid AND bf_mask f)"

definition bf_get :: "bf_desc \<Rightarrow> string \<Rightarrow> cell_id \<Rightarrow> cell_error + nat" where
  "bf_get dec n cid =
     (case map_of dec n of None \<Rightarrow> Inl (UnknownField n) | Some f \<Rightarrow> Inr (unat (bf_value f cid)))"

section \<open>Hits and cells\<close>

record sim_hit =
  hit_cell :: cell_id
  hit_energy :: real

record calo_cell =
  cell_id :: cell_id
  cell_energy :: real
  cell_pos :: "real \<times> real \<times> real"

text \<open>
  The member \<^verbatim>\<open>m_cellsMap\<close>, a \<^verbatim>\<open>std::unordered_map<uint64_t, double>\<close>,
  is an association list with distinct keys; \<^verbatim>\<open>m[k] += e\<close> is
  \<open>AList.update_with_aux 0 k (\<lambda>x. x + e)\<close>.  C++ gives no iteration order, so the
  theorems about the cells written are stated as multisets.
\<close>

type_synonym cell_map = "(cell_id \<times> real) list"

definition add_hit :: "cell_map \<Rightarrow> sim_hit \<Rightarrow> cell_map" where
  "add_hit m h = AList.update_with_aux 0 (hit_cell h) (\<lambda>e. e + hit_energy h) m"

record create_cells_cfg =
  doCellCalibration :: bool
  addPosition :: bool
  addCellNoise :: bool
  filterCellNoise :: bool

text \<open>Lines 77--80.\<close>

definition createcellsBarrel_cfg :: create_cells_cfg where
  "createcellsBarrel_cfg =
     \<lparr>doCellCalibration = False, addPosition = True, addCellNoise = False, filterCellNoise = False\<rparr>"

text \<open>
  The tools of \<^verbatim>\<open>CreateCaloCells\<close>: the calibration tool, the noise tool's two
  operations, the position tool, and the geometry tool's list of all cells of the readout.
\<close>

record cc_tools =
  cc_calibrate :: "cell_map \<Rightarrow> cell_map"
  cc_add_noise :: "cell_map \<Rightarrow> cell_map"
  cc_filter_noise :: "cell_map \<Rightarrow> cell_map"
  cc_position :: "cell_id \<Rightarrow> real \<times> real \<times> real"
  cc_empty_cells :: cell_map

record cc_state =
  cells_map :: cell_map

text \<open>\<^verbatim>\<open>initialize\<close>: with noise the map holds every cell of the readout at zero.\<close>

definition cc_initialize :: "cc_tools \<Rightarrow> create_cells_cfg \<Rightarrow> cc_state" where
  "cc_initialize tools cfg = \<lparr>cells_map = (if addCellNoise cfg then cc_empty_cells tools else [])\<rparr>"

text \<open>
  \<^verbatim>\<open>execute\<close>: 0. reset the map (every value to zero with noise, otherwise
  cleared); 1. add each hit's energy to its cell; 2. calibrate when
  \<^verbatim>\<open>doCellCalibration\<close> is set; 3. when \<^verbatim>\<open>addCellNoise\<close> is set, add noise and
  then, when \<^verbatim>\<open>filterCellNoise\<close> is set too, filter it; 4. write a cell for each entry, only the non-zero ones without
  noise, with its position when \<^verbatim>\<open>addPosition\<close> is set.
\<close>

definition cc_execute :: "cc_tools \<Rightarrow> create_cells_cfg \<Rightarrow> cc_state \<Rightarrow> sim_hit list \<Rightarrow> calo_cell list \<times> cc_state" where
  "cc_execute tools cfg st hits =
     (let m0 = (if addCellNoise cfg then map (\<lambda>(c, e). (c, 0)) (cells_map st) else []);
          m1 = foldl add_hit m0 hits;
          m2 = (if doCellCalibration cfg then cc_calibrate tools m1 else m1);
          m3 = (if addCellNoise cfg then cc_add_noise tools m2 else m2);
          m4 = (if addCellNoise cfg \<and> filterCellNoise cfg then cc_filter_noise tools m3 else m3);
          cells = map (\<lambda>(c, e). \<lparr>cell_id = c, cell_energy = e,
                                 cell_pos = (if addPosition cfg then cc_position tools c else (0, 0, 0))\<rparr>)
                    (filter (\<lambda>(c, e). addCellNoise cfg \<or> e \<noteq> 0) m4)
      in (cells, st\<lparr>cells_map := m4\<rparr>))"

text \<open>The algorithm run on the events of a job, its map kept from one event to the next.\<close>

fun cc_run :: "cc_tools \<Rightarrow> create_cells_cfg \<Rightarrow> cc_state \<Rightarrow> sim_hit list list \<Rightarrow> calo_cell list list" where
  "cc_run tools cfg st [] = []"
| "cc_run tools cfg st (hs # hss) = (let (cs, st') = cc_execute tools cfg st hs in cs # cc_run tools cfg st' hss)"

section \<open>Energy in the layers\<close>

text \<open>
  \<^verbatim>\<open>EnergyInCaloLayers::execute\<close>: \<^verbatim>\<open>energyInLayer\<close> starts as
  \<^verbatim>\<open>numLayers\<close> zeros; a cell with \<^verbatim>\<open>cryo == 0\<close> adds its energy to the entry
  of its \<^verbatim>\<open>layer\<close> field, any other to the cryostat's energy; then each layer's sum is divided by its sampling
  fraction.  The code does not check the layer index: writing past the end of
  \<^verbatim>\<open>energyInLayer\<close> is undefined behaviour, which has no result to model, so the
  model stops the event there with \<open>LayerOutOfRange\<close>; the theorems speak only of
  events whose cells all lie in a layer below \<^verbatim>\<open>numLayers\<close>.  The split of the
  cryostat energy by type and the particle's kinematics are not modelled.
\<close>

record eil_out =
  energyInLayer :: "real list"
  energyInCryo :: real

definition eil_add :: "bf_desc \<Rightarrow> real list \<times> real \<Rightarrow> calo_cell \<Rightarrow> cell_error + real list \<times> real" where
  "eil_add dec acc c =
     (case acc of (ls, cr) \<Rightarrow>
        sbind (bf_get dec ''cryo'' (cell_id c)) (\<lambda>cryo.
          if cryo = 0 then
            sbind (bf_get dec ''layer'' (cell_id c)) (\<lambda>l.
              if l < length ls then Inr (ls[l := ls ! l + cell_energy c], cr) else Inl (LayerOutOfRange l))
          else Inr (ls, cr + cell_energy c)))"

definition eil_execute :: "bf_desc \<Rightarrow> real list \<Rightarrow> nat \<Rightarrow> calo_cell list \<Rightarrow> cell_error + eil_out" where
  "eil_execute dec sfs nl cells =
     sbind (foldl (\<lambda>acc c. sbind acc (\<lambda>a. eil_add dec a c)) (Inr (replicate nl 0, 0)) cells) (\<lambda>(ls, cr).
       sbind (those_sum (map (\<lambda>i. case nth_opt sfs i of None \<Rightarrow> Inl (SamplingFractionMissing i)
                                                     | Some sf \<Rightarrow> Inr (ls ! i / sf)) [0..<nl]))
         (\<lambda>ls'. Inr \<lparr>energyInLayer = ls', energyInCryo = cr\<rparr>))"

section \<open>Reference definitions and an example readout\<close>

text \<open>
  The energy of the hits of one cell, and the cells \<^verbatim>\<open>CreateCaloCells\<close> should
  write: one per cell identifier met, with the total energy of its hits, when that total is
  not zero.
\<close>

definition hit_total :: "sim_hit list \<Rightarrow> cell_id \<Rightarrow> real" where
  "hit_total hits c = sum_list (map hit_energy (filter (\<lambda>h. hit_cell h = c) hits))"

definition merged_ref :: "sim_hit list \<Rightarrow> cell_map" where
  "merged_ref hits = filter (\<lambda>(c, e). e \<noteq> 0) (map (\<lambda>c. (c, hit_total hits c)) (remdups (map hit_cell hits)))"

text \<open>
  The witnesses use tools that change nothing and a readout descriptor of the layout
  \<^verbatim>\<open>system:4,cryo:1,type:3,subtype:3,layer:8,eta:9,phi:10\<close>; the theorems do
  not depend on either.
\<close>

definition ex_tools :: cc_tools where
  "ex_tools = \<lparr>cc_calibrate = id, cc_add_noise = id, cc_filter_noise = id, cc_position = (\<lambda>c. (0, 0, 0)),
                cc_empty_cells = []\<rparr>"

definition ex_desc :: bf_desc where
  "ex_desc = [(''system'', (0, 4)), (''cryo'', (4, 1)), (''type'', (5, 3)), (''subtype'', (8, 3)),
              (''layer'', (11, 8)), (''eta'', (19, 9)), (''phi'', (28, 10))]"

definition ex_hits :: "sim_hit list" where
  "ex_hits = [\<lparr>hit_cell = 6149, hit_energy = 1\<rparr>, \<lparr>hit_cell = 5, hit_energy = 4\<rparr>, \<lparr>hit_cell = 6149, hit_energy = 2\<rparr>]"

section \<open>Bit fields\<close>

lemma bf_value_take_bit: "bf_value (off, w) cid = take_bit w (drop_bit off cid)"
  by (rule bit_eqI) (auto simp: bf_value_def bf_mask_def bit_simps dest: bit_imp_le_length)

lemma bf_value_bound: "unat (bf_value (off, w) cid) < 2 ^ w"
  by (simp add: bf_value_take_bit unsigned_take_bit_eq take_bit_nat_less_exp)

section \<open>Merging hits into cells\<close>

lemma map_of_add_hit:
  "map_of (add_hit m h) c =
     (if c = hit_cell h then Some ((case map_of m c of None \<Rightarrow> 0 | Some e \<Rightarrow> e) + hit_energy h) else map_of m c)"
  by (simp add: add_hit_def map_of_update_with_aux' split: option.split)

lemma distinct_foldl_add_hit [simp]:
  "distinct (map fst (foldl add_hit m hs)) \<longleftrightarrow> distinct (map fst m)"
  by (induction hs arbitrary: m) (simp_all add: add_hit_def)

lemma keys_foldl_add_hit:
  "fst ` set (foldl add_hit m hs) = fst ` set m \<union> hit_cell ` set hs"
  by (induction hs arbitrary: m) (auto simp: add_hit_def dom_update_with_aux)

lemma map_of_foldl_add_hit:
  "map_of (foldl add_hit m hs) c =
     (case map_of m c of
        None \<Rightarrow> if c \<in> hit_cell ` set hs then Some (hit_total hs c) else None
      | Some e \<Rightarrow> Some (e + hit_total hs c))"
  by (induction hs arbitrary: m)
     (auto simp: map_of_add_hit hit_total_def split: option.splits)

lemma merge_hits_mset:
  "mset (filter (\<lambda>(c, e). e \<noteq> 0) (foldl add_hit [] hits)) = mset (merged_ref hits)"
proof -
  let ?ps = "foldl add_hit [] hits"
  have d: "distinct (map fst ?ps)" by simp
  have "(c, e) \<in> set ?ps \<longleftrightarrow> c \<in> hit_cell ` set hits \<and> e = hit_total hits c" for c e
    using map_of_foldl_add_hit [of "[]" hits c] map_of_is_SomeI [OF d, of c e]
    by (auto dest: map_of_SomeD split: if_splits)
  then have s: "set (filter (\<lambda>(c, e). e \<noteq> 0) ?ps) = set (merged_ref hits)"
    by (auto simp: merged_ref_def)
  have d1: "distinct (filter (\<lambda>(c, e). e \<noteq> 0) ?ps)"
    using d by (simp add: distinct_map)
  have d2: "distinct (merged_ref hits)"
    by (simp add: merged_ref_def distinct_map inj_on_def)
  show ?thesis using set_eq_iff_mset_eq_distinct [OF d1 d2] s by blast
qed

lemma cc_execute_script:
  "cc_execute tools createcellsBarrel_cfg st hits =
     (map (\<lambda>(c, e). \<lparr>cell_id = c, cell_energy = e, cell_pos = cc_position tools c\<rparr>)
        (filter (\<lambda>(c, e). e \<noteq> 0) (foldl add_hit [] hits)),
      st\<lparr>cells_map := foldl add_hit [] hits\<rparr>)"
  by (simp add: cc_execute_def createcellsBarrel_cfg_def Let_def)

section \<open>Layer sums\<close>

lemma sum_update_with_aux:
  "sum_list (map snd (filter (\<lambda>p. P (fst p)) (AList.update_with_aux 0 k (\<lambda>e. e + d) m))) =
     sum_list (map snd (filter (\<lambda>p. P (fst p)) m)) + (if P k then d else (0::real))"
  by (induction m) (auto simp: algebra_simps)

lemma sum_foldl_add_hit:
  "sum_list (map snd (filter (\<lambda>p. P (fst p)) (foldl add_hit m hs))) =
     sum_list (map snd (filter (\<lambda>p. P (fst p)) m)) + sum_list (map hit_energy (filter (\<lambda>h. P (hit_cell h)) hs))"
  by (induction hs arbitrary: m) (simp_all add: add_hit_def sum_update_with_aux)

lemma sum_filter_nonzero:
  "sum_list (map snd (filter Q (filter (\<lambda>(c, e). e \<noteq> (0::real)) ps))) = sum_list (map snd (filter Q ps))"
  by (induction ps) auto

lemma eil_fold:
  assumes "map_of dec ''cryo'' = Some fc" and "map_of dec ''layer'' = Some fl"
    and "\<forall>c \<in> set cs. bf_value fc (cell_id c) = 0 \<and> unat (bf_value fl (cell_id c)) < length ls"
  shows "foldl (\<lambda>acc c. sbind acc (\<lambda>a. eil_add dec a c)) (Inr (ls, cr)) cs =
     Inr (map (\<lambda>i. ls ! i + sum_list (map cell_energy (filter (\<lambda>c. unat (bf_value fl (cell_id c)) = i) cs)))
            [0..<length ls], cr)"
  using assms(3)
proof (induction cs arbitrary: ls)
  case Nil
  then show ?case by (simp add: map_nth)
next
  case (Cons c cs)
  let ?l = "unat (bf_value fl (cell_id c))"
  have step: "eil_add dec (ls, cr) c = Inr (ls[?l := ls ! ?l + cell_energy c], cr)"
    using Cons.prems assms(1,2) by (simp add: eil_add_def bf_get_def)
  have "\<forall>d \<in> set cs. bf_value fc (cell_id d) = 0 \<and> unat (bf_value fl (cell_id d)) < length (ls[?l := ls ! ?l + cell_energy c])"
    using Cons.prems by simp
  note IH = Cons.IH [OF this]
  show ?case
    by (simp add: step IH nth_list_update)
qed

lemma cells_layer_sum:
  "sum_list (map cell_energy (filter (\<lambda>c. P (cell_id c))
      (map (\<lambda>(c, e). \<lparr>cell_id = c, cell_energy = e, cell_pos = q c\<rparr>) ps))) =
   sum_list (map snd (filter (\<lambda>p. P (fst p)) ps))"
  by (induction ps) auto

lemma eil_execute_cc_cells:
  assumes "map_of dec ''cryo'' = Some fc" and "map_of dec ''layer'' = Some fl"
    and "\<forall>h \<in> set hits. bf_value fc (hit_cell h) = 0 \<and> unat (bf_value fl (hit_cell h)) < numLayers"
  shows "eil_execute dec samplingFractions numLayers (fst (cc_execute tools createcellsBarrel_cfg st hits)) =
     Inr \<lparr>energyInLayer = map (\<lambda>i. sum_list (map hit_energy (filter (\<lambda>h. unat (bf_value fl (hit_cell h)) = i) hits))
                                    / samplingFractions ! i) [0..<numLayers],
          energyInCryo = 0\<rparr>"
proof -
  let ?ps = "foldl add_hit [] hits"
  let ?cs = "map (\<lambda>(c, e). \<lparr>cell_id = c, cell_energy = e, cell_pos = cc_position tools c\<rparr>)
               (filter (\<lambda>(c, e). e \<noteq> 0) ?ps)"
  have keys: "fst ` set ?ps = hit_cell ` set hits" by (simp add: keys_foldl_add_hit)
  have "\<forall>c \<in> set ?cs. bf_value fc (cell_id c) = 0 \<and> unat (bf_value fl (cell_id c)) < length (replicate numLayers (0::real))"
  proof
    fix c assume "c \<in> set ?cs"
    then obtain e where "(cell_id c, e) \<in> set ?ps" by auto
    then have "cell_id c \<in> hit_cell ` set hits" using keys by force
    then show "bf_value fc (cell_id c) = 0 \<and> unat (bf_value fl (cell_id c)) < length (replicate numLayers (0::real))"
      using assms(3) by auto
  qed
  note fold = eil_fold [OF assms(1,2) this, of 0]
  have sums: "sum_list (map cell_energy (filter (\<lambda>c. unat (bf_value fl (cell_id c)) = i) ?cs)) =
      sum_list (map hit_energy (filter (\<lambda>h. unat (bf_value fl (hit_cell h)) = i) hits))" for i
    using sum_foldl_add_hit [of "\<lambda>c. unat (bf_value fl c) = i" "[]" hits]
      cells_layer_sum [of "\<lambda>c. unat (bf_value fl c) = i" "cc_position tools" "filter (\<lambda>(c, e). e \<noteq> 0) ?ps"]
      sum_filter_nonzero [of "\<lambda>p. unat (bf_value fl (fst p)) = i" ?ps]
    by simp
  have sf: "length samplingFractions = numLayers" by (simp add: samplingFractions_def numLayers_def)
  let ?E = "\<lambda>i. sum_list (map hit_energy (filter (\<lambda>h. unat (bf_value fl (hit_cell h)) = i) hits))"
  have fold': "foldl (\<lambda>acc c. sbind acc (\<lambda>a. eil_add dec a c)) (Inr (replicate numLayers 0, 0)) ?cs =
      Inr (map ?E [0..<numLayers], 0)"
    using fold by (simp add: sums cong: map_cong)
  have ts: "those_sum (map (\<lambda>i. case nth_opt samplingFractions i of None \<Rightarrow> Inl (SamplingFractionMissing i)
                                  | Some sf \<Rightarrow> Inr (map ?E [0..<numLayers] ! i / sf)) [0..<numLayers]) =
      Inr (map (\<lambda>i. ?E i / samplingFractions ! i) [0..<numLayers])"
    by (rule those_sum_map_ok) (simp add: nth_opt_def sf)
  show ?thesis
    by (simp add: cc_execute_script eil_execute_def fold' ts)
qed

section \<open>Properties of the cell creation and of the layer summary\<close>

text \<open>
  Claim C11.  With the flags of lines 77--80, \<^verbatim>\<open>CreateCaloCells\<close> writes, whatever
  the tools and the map left by the previous event, one cell per cell identifier of the
  event's hits that carries the total energy of that cell's hits, and none whose total is
  zero; each cell has the position the position tool gives for it.  The map's iteration
  order is unspecified, so the cells are compared as a multiset.
\<close>

theorem create_cells_merge:
  "mset (map (\<lambda>c. (cell_id c, cell_energy c)) (fst (cc_execute tools createcellsBarrel_cfg st hits))) =
     mset (merged_ref hits) \<and>
   list_all (\<lambda>c. cell_pos c = cc_position tools (cell_id c)) (fst (cc_execute tools createcellsBarrel_cfg st hits))"
  using merge_hits_mset [of hits]
  by (simp add: cc_execute_script comp_def case_prod_beta list_all_iff)

text \<open>
  Claim C9.  The map \<^verbatim>\<open>CreateCaloCells\<close> keeps as a member is reset at the start
  of every event: run over the events of a job, the algorithm writes for each event what it
  writes for that event alone, just after \<^verbatim>\<open>initialize\<close>.
\<close>

theorem create_cells_history_free:
  "cc_run tools createcellsBarrel_cfg st evs =
     map (\<lambda>hs. fst (cc_execute tools createcellsBarrel_cfg (cc_initialize tools createcellsBarrel_cfg) hs)) evs"
  by (induction evs arbitrary: st) (simp_all add: cc_execute_script)

text \<open>
  Claim C6.  The layer energies of \<^verbatim>\<open>EnergyInCaloLayers\<close>, read from the cells
  \<^verbatim>\<open>CreateCaloCells\<close> writes, are the raw Geant4 energies of each layer's hits
  divided once by the layer's sampling fraction of line 90, as the comment of lines 88--89
  intends: the cells are not calibrated (\<^verbatim>\<open>doCellCalibration=False\<close>), so the
  sampling fraction is applied exactly once.  This holds for every hit outside the cryostat
  whose layer field is below \<^verbatim>\<open>numLayers = 12\<close>, for every tool and every readout
  descriptor with fields \<^verbatim>\<open>cryo\<close> and \<^verbatim>\<open>layer\<close>.
\<close>

theorem layers_calibrated_once:
  assumes "map_of dec ''cryo'' = Some fc" and "map_of dec ''layer'' = Some fl"
    and "\<forall>h \<in> set hits. bf_value fc (hit_cell h) = 0 \<and> unat (bf_value fl (hit_cell h)) < numLayers"
  shows "eil_execute dec samplingFractions numLayers (fst (cc_execute tools createcellsBarrel_cfg st hits)) =
     Inr \<lparr>energyInLayer = map (\<lambda>i. sum_list (map hit_energy (filter (\<lambda>h. unat (bf_value fl (hit_cell h)) = i) hits))
                                    / samplingFractions ! i) [0..<numLayers],
          energyInCryo = 0\<rparr>"
  using assms by (rule eil_execute_cc_cells)

section \<open>Witnesses\<close>

theorem layers_calibrated_once_witness:
  "map_of ex_desc ''cryo'' = Some (4, 1) \<and> map_of ex_desc ''layer'' = Some (11, 8) \<and>
   bf_value (4, 1) 6149 = 0 \<and> unat (bf_value (11, 8) 6149) < numLayers \<and>
   bf_value (4, 1) 5 = 0 \<and> unat (bf_value (11, 8) 5) < numLayers \<and>
   eil_execute ex_desc samplingFractions numLayers (fst (cc_execute ex_tools createcellsBarrel_cfg \<lparr>cells_map = []\<rparr> ex_hits)) =
     Inr \<lparr>energyInLayer = [4 / 0.3632447480841956, 0, 0, 3 / 0.150266118277841, 0, 0, 0, 0, 0, 0, 0, 0],
          energyInCryo = 0\<rparr>"
proof -
  have v: "bf_value (4, 1) 6149 = 0" "unat (bf_value (11, 8) 6149) = 3"
     "bf_value (4, 1) 5 = 0" "unat (bf_value (11, 8) 5) = 0"
    by (simp_all add: bf_value_take_bit)
  have h: "\<forall>h \<in> set ex_hits. bf_value (4, 1) (hit_cell h) = 0 \<and> unat (bf_value (11, 8) (hit_cell h)) < numLayers"
    using v by (simp add: ex_hits_def numLayers_def)
  have m: "map_of ex_desc ''cryo'' = Some (4, 1)" "map_of ex_desc ''layer'' = Some (11, 8)"
    by (simp_all add: ex_desc_def)
  show ?thesis
    using layers_calibrated_once [OF m h, of ex_tools "\<lparr>cells_map = []\<rparr>"] v m
    by (simp add: ex_hits_def numLayers_def samplingFractions_def upt_conv_Cons)
qed

end
