(* ===== verification/SimJob.thy ===== *)
theory SimJob
  imports SimGun SimCells
begin

text \<open>
  The simulation job of \<^verbatim>\<open>src/FCCSW_ecal/fcc_ee_upstream_inclinedEcal.py\<close> with the
  data its algorithms pass on, event after event: \<^verbatim>\<open>GenAlg\<close> with the particle gun,
  \<^verbatim>\<open>HepMCToEDMConverter\<close>, \<^verbatim>\<open>SimG4Alg\<close> (Geant4's transport, a parameter
  of the model that maps the generated particle to the hits it leaves), \<^verbatim>\<open>CreateCaloCells\<close>
  with its map kept from one event to the next, and \<^verbatim>\<open>EnergyInCaloLayers\<close>, in the
  order of \<^verbatim>\<open>TopAlg\<close> (line 111), for each event of the loop.
\<close>

datatype job_error = NoParticle | LayerError cell_error

text \<open>
  \<^verbatim>\<open>HepMCToEDMConverter\<close> (lines 34--37) writes each HepMC particle into
  \<^verbatim>\<open>GenParticles\<close> with its PDG code and its momentum in GeV (\<open>hepmc_to_edm\<close>).
\<close>

record mc_particle =
  mc_pdg :: int
  mc_mom :: particle

definition hepmc_to_mc :: "hepmc_particle \<Rightarrow> mc_particle" where
  "hepmc_to_mc hp = \<lparr>mc_pdg = hp_pdg hp, mc_mom = hepmc_to_edm hp\<rparr>"

text \<open>
  \<^verbatim>\<open>SimG4PrimariesFromEdmTool\<close> (lines 66--68), the event provider of
  \<^verbatim>\<open>SimG4Alg\<close> (lines 71--74), reads \<^verbatim>\<open>GenParticles\<close> and gives Geant4 one
  primary per particle, with its PDG code and its momentum converted from the EDM's GeV to
  Geant4's MeV.
\<close>

record g4_primary =
  pr_pdg :: int
  pr_px :: real
  pr_py :: real
  pr_pz :: real

definition edm_to_g4 :: "mc_particle \<Rightarrow> g4_primary" where
  "edm_to_g4 p =
     \<lparr>pr_pdg = mc_pdg p, pr_px = mom_x (mc_mom p) * GeV, pr_py = mom_y (mc_mom p) * GeV,
      pr_pz = mom_z (mc_mom p) * GeV\<rparr>"

definition g4_event :: "mc_particle list \<Rightarrow> g4_primary list" where
  "g4_event gps = map edm_to_g4 gps"

text \<open>Geant4's transport: the hits the primaries of an event leave in the calorimeter.\<close>

type_synonym transport = "g4_primary list \<Rightarrow> sim_hit list"

text \<open>
  One event: the algorithms of \<^verbatim>\<open>TopAlg\<close> in order; the cell-creation state is passed
  in and returned.  The output module writes \<^verbatim>\<open>GenParticles\<close> only, which the
  theorems of \<open>SimDataflow\<close> cover.
\<close>

definition sim_event ::
  "transport \<Rightarrow> bf_desc \<Rightarrow> cc_tools \<Rightarrow> cc_state \<Rightarrow> gun_draws \<Rightarrow> job_error + eil_out \<times> cc_state" where
  "sim_event g dec tools st u =
     (case gun_generate pgun u of
        None \<Rightarrow> Inl NoParticle
      | Some hp \<Rightarrow>
          (let gps = [hepmc_to_mc hp];
               hits = g (g4_event gps);
               (cells, st') = cc_execute tools createcellsBarrel_cfg st hits
           in case eil_execute dec samplingFractions numLayers cells of
                Inl e \<Rightarrow> Inl (LayerError e)
              | Inr eo \<Rightarrow> Inr (eo, st')))"

text \<open>The events of the job, one list of gun draws each, the state threaded through.\<close>

fun sim_job ::
  "transport \<Rightarrow> bf_desc \<Rightarrow> cc_tools \<Rightarrow> cc_state \<Rightarrow> gun_draws list \<Rightarrow> job_error + eil_out list" where
  "sim_job g dec tools st [] = Inr []"
| "sim_job g dec tools st (u # us) =
     (case sim_event g dec tools st u of
        Inl e \<Rightarrow> Inl e
      | Inr (eo, st') \<Rightarrow> sbind (sim_job g dec tools st' us) (\<lambda>eos. Inr (eo # eos)))"

text \<open>
  The reference: the primary Geant4 receives for the draws \<open>u\<close>, an electron with the
  gun's momentum in MeV, and the calibrated energy of each layer of the hits it leaves.
\<close>

definition gun_primary :: "gun_draws \<Rightarrow> g4_primary" where
  "gun_primary u =
     (let th = flat_in (theta_min pgun) (theta_max pgun) (u_theta u);
          ph = flat_in (phi_min pgun) (phi_max pgun) (u_phi u)
      in \<lparr>pr_pdg = 11, pr_px = momentum * GeV * sin th * cos ph, pr_py = momentum * GeV * sin th * sin ph,
          pr_pz = momentum * GeV * cos th\<rparr>)"

definition calibrated_layers :: "bf_field \<Rightarrow> sim_hit list \<Rightarrow> eil_out" where
  "calibrated_layers fl hits =
     \<lparr>energyInLayer = map (\<lambda>i. sum_list (map hit_energy (filter (\<lambda>h. unat (bf_value fl (hit_cell h)) = i) hits))
                                / samplingFractions ! i) [0..<numLayers],
      energyInCryo = 0\<rparr>"

section \<open>The job's layer energies\<close>

lemma edm_to_g4_hepmc: "edm_to_g4 (hepmc_to_mc hp) = \<lparr>pr_pdg = hp_pdg hp, pr_px = hp_px hp, pr_py = hp_py hp, pr_pz = hp_pz hp\<rparr>"
  using GeV_pos by (simp add: edm_to_g4_def hepmc_to_mc_def hepmc_to_edm_def less_le)

lemma gun_g4:
  assumes "draws_ok u"
  shows "map_option (\<lambda>hp. g4_event [hepmc_to_mc hp]) (gun_generate pgun u) = Some [gun_primary u]"
  using pgun_draw [OF assms] by (simp add: g4_event_def edm_to_g4_hepmc gun_primary_def Let_def)

lemma sim_event_ok:
  assumes "draws_ok u" and "map_of dec ''cryo'' = Some fc" and "map_of dec ''layer'' = Some fl"
    and "\<forall>h \<in> set (g [gun_primary u]). bf_value fc (hit_cell h) = 0 \<and> unat (bf_value fl (hit_cell h)) < numLayers"
  shows "\<exists>st'. sim_event g dec tools st u = Inr (calibrated_layers fl (g [gun_primary u]), st')"
proof -
  obtain hp where hp: "gun_generate pgun u = Some hp" and e: "g4_event [hepmc_to_mc hp] = [gun_primary u]"
    using gun_g4 [OF assms(1)] by auto
  show ?thesis
    using eil_execute_cc_cells [OF assms(2,3) assms(4), of tools st]
    by (simp add: sim_event_def hp e Let_def case_prod_beta calibrated_layers_def)
qed

lemma sim_job_ok:
  assumes "list_all draws_ok us" and "map_of dec ''cryo'' = Some fc" and "map_of dec ''layer'' = Some fl"
    and "\<forall>u \<in> set us. \<forall>h \<in> set (g [gun_primary u]).
           bf_value fc (hit_cell h) = 0 \<and> unat (bf_value fl (hit_cell h)) < numLayers"
  shows "sim_job g dec tools st us = Inr (map (\<lambda>u. calibrated_layers fl (g [gun_primary u])) us)"
  using assms(1,4)
proof (induction us arbitrary: st)
  case (Cons u us)
  obtain st' where "sim_event g dec tools st u = Inr (calibrated_layers fl (g [gun_primary u]), st')"
    using sim_event_ok [OF _ assms(2,3)] Cons.prems by fastforce
  then show ?case using Cons.IH [of st'] Cons.prems by simp
qed simp

text \<open>
  Claim C8.  Over the events of the job, each event's layer energies are the energies of
  the hits Geant4 leaves for that event's electron (the primary of the gun's draws), summed per layer and divided once by the
  layer's sampling fraction: the chain of \<^verbatim>\<open>TopAlg\<close> passes each algorithm the
  data the one before it wrote, and the map \<^verbatim>\<open>CreateCaloCells\<close> keeps from event to
  event carries nothing over.  This holds for every transport that leaves the hits outside
  the cryostat in the twelve layers, every tool and every readout descriptor.
\<close>

theorem sim_job_layers:
  assumes "list_all draws_ok us" and "map_of dec ''cryo'' = Some fc" and "map_of dec ''layer'' = Some fl"
    and "\<forall>u \<in> set us. \<forall>h \<in> set (g [gun_primary u]).
           bf_value fc (hit_cell h) = 0 \<and> unat (bf_value fl (hit_cell h)) < numLayers"
  shows "sim_job g dec tools st us = Inr (map (\<lambda>u. calibrated_layers fl (g [gun_primary u])) us)"
  using assms by (rule sim_job_ok)

section \<open>Witnesses\<close>

theorem sim_job_layers_witness:
  "draws_ok \<lparr>u_momentum = 0, u_theta = 1 / 2, u_phi = 0, u_pdg = 0\<rparr> \<and>
   draws_ok \<lparr>u_momentum = 0, u_theta = 0, u_phi = 1 / 2, u_pdg = 0\<rparr> \<and>
   map_of ex_desc ''cryo'' = Some (4, 1) \<and> map_of ex_desc ''layer'' = Some (11, 8) \<and>
   bf_value (4, 1) 6149 = 0 \<and> unat (bf_value (11, 8) 6149) < numLayers \<and>
   bf_value (4, 1) 5 = 0 \<and> unat (bf_value (11, 8) 5) < numLayers \<and>
   sim_job (\<lambda>p. ex_hits) ex_desc ex_tools \<lparr>cells_map = []\<rparr>
     [\<lparr>u_momentum = 0, u_theta = 1 / 2, u_phi = 0, u_pdg = 0\<rparr>, \<lparr>u_momentum = 0, u_theta = 0, u_phi = 1 / 2, u_pdg = 0\<rparr>] =
     Inr [calibrated_layers (11, 8) ex_hits, calibrated_layers (11, 8) ex_hits]"
proof -
  have v: "bf_value (4, 1) 6149 = 0" "unat (bf_value (11, 8) 6149) = 3"
     "bf_value (4, 1) 5 = 0" "unat (bf_value (11, 8) 5) = 0"
    by (simp_all add: bf_value_take_bit)
  have d: "draws_ok \<lparr>u_momentum = 0, u_theta = 1 / 2, u_phi = 0, u_pdg = 0\<rparr>"
    "draws_ok \<lparr>u_momentum = 0, u_theta = 0, u_phi = 1 / 2, u_pdg = 0\<rparr>"
    by (simp_all add: draws_ok_def)
  have m: "map_of ex_desc ''cryo'' = Some (4, 1)" "map_of ex_desc ''layer'' = Some (11, 8)"
    by (simp_all add: ex_desc_def)
  show ?thesis
    using sim_job_layers [OF _ m, of "[\<lparr>u_momentum = 0, u_theta = 1 / 2, u_phi = 0, u_pdg = 0\<rparr>,
        \<lparr>u_momentum = 0, u_theta = 0, u_phi = 1 / 2, u_pdg = 0\<rparr>]" "\<lambda>p. ex_hits" ex_tools "\<lparr>cells_map = []\<rparr>"]
      v d m by (simp add: ex_hits_def numLayers_def)
qed

end
