(* ===== verification/SimG4.thy ===== *)
theory SimG4
  imports Prelude
begin

text \<open>
  The Geant4 service of \<^verbatim>\<open>src/FCCSW_ecal/fcc_ee_upstream_inclinedEcal.py\<close>
  (lines 48--57): its settings, built as the script builds them, and what
  \<^verbatim>\<open>SimG4Svc::initialize\<close> does with the two that act on Geant4, the commands of
  \<^verbatim>\<open>g4PostInitCommands\<close>, which it hands to Geant4's UI manager once the run manager
  is initialised, and the choice of the random seed.  The UI manager is modelled as far as
  the script's command needs it: splitting the command line, finding the command, checking
  its parameters as \<^verbatim>\<open>G4UIcommand::DoIt\<close> does, and the messenger of
  \<^verbatim>\<open>/run/setCut\<close>; the rest of the command tree is a parameter.
\<close>

section \<open>The service's settings\<close>

record simg4svc_cfg =
  g4_detector :: string
  g4_physicslist :: string
  g4_actions :: string
  g4PostInitCommands :: "string list"
  randomNumbersFromGaudi :: bool
  seedValue :: "int option"

text \<open>
  \<^verbatim>\<open>SimG4Svc(name, detector=..., physicslist=..., actions=...)\<close>: the three tools
  given, no post-initialisation command, the random numbers from Gaudi and no seed set.
\<close>

definition simg4svc_new :: "string \<Rightarrow> string \<Rightarrow> string \<Rightarrow> simg4svc_cfg" where
  "simg4svc_new det pl act =
     \<lparr>g4_detector = det, g4_physicslist = pl, g4_actions = act, g4PostInitCommands = [],
      randomNumbersFromGaudi = True, seedValue = None\<rparr>"

text \<open>Lines 51, 52, 56 and 57, in order; \<^verbatim>\<open>+=\<close> appends to the list.\<close>

definition geantservice_cfg :: simg4svc_cfg where
  "geantservice_cfg =
     (let s1 = simg4svc_new ''SimG4DD4hepDetector'' ''SimG4FtfpBert'' ''SimG4FullSimActions'';
          s2 = s1\<lparr>g4PostInitCommands := g4PostInitCommands s1 @ [''/run/setCut 0.1 mm'']\<rparr>;
          s3 = s2\<lparr>randomNumbersFromGaudi := False\<rparr>
      in s3\<lparr>seedValue := Some 4242\<rparr>)"

text \<open>
  The seed Geant4's engine starts from: the service's \<^verbatim>\<open>seedValue\<close> unless the random
  numbers come from Gaudi, whose seed (taken, by the comment of lines 54--55, from the
  job's start time) is then used.
\<close>

definition g4_seed :: "simg4svc_cfg \<Rightarrow> int \<Rightarrow> int option" where
  "g4_seed cfg gaudi_seed = (if randomNumbersFromGaudi cfg then Some gaudi_seed else seedValue cfg)"

section \<open>Numbers and units of Geant4 commands\<close>

text \<open>
  \<^verbatim>\<open>G4UIparameter::IsDouble\<close>: an optional sign, then digits with an optional
  fraction (\<open>1\<close>, \<open>1.\<close>, \<open>1.5\<close>) or a fraction alone (\<open>.5\<close>), then an
  optional exponent of one or two digits; \<^verbatim>\<open>ConvertToDouble\<close> reads its value.
\<close>

definition g4_digit :: "char \<Rightarrow> bool" where
  "g4_digit c \<longleftrightarrow> 48 \<le> (of_char c :: nat) \<and> (of_char c :: nat) < 58"

definition g4_sign :: "string \<Rightarrow> int \<times> string" where
  "g4_sign s =
     (case s of c # r \<Rightarrow> if c = CHR ''+'' then (1, r) else if c = CHR ''-'' then (-1, r) else (1, s)
      | [] \<Rightarrow> (1, []))"

definition g4_exponent :: "string \<Rightarrow> int option" where
  "g4_exponent s =
     (let (sg, ds) = g4_sign s in
      if ds \<noteq> [] \<and> length ds \<le> 2 \<and> list_all g4_digit ds
      then map_option (\<lambda>n. sg * int n) (digits_val 0 ds) else None)"

definition g4_mantissa :: "string \<Rightarrow> (real \<times> string) option" where
  "g4_mantissa s =
     (let ip = takeWhile g4_digit s; r = dropWhile g4_digit s in
      case r of
        c # r' \<Rightarrow>
          if c = CHR ''.'' then
            (let fp = takeWhile g4_digit r'; r'' = dropWhile g4_digit r' in
             if ip = [] \<and> fp = [] then None
             else Option.bind (digits_val 0 ip) (\<lambda>a. Option.bind (digits_val 0 fp) (\<lambda>b.
                    Some (real a + real b / 10 ^ length fp, r''))))
          else if ip = [] then None else Option.bind (digits_val 0 ip) (\<lambda>a. Some (real a, r))
      | [] \<Rightarrow> if ip = [] then None else Option.bind (digits_val 0 ip) (\<lambda>a. Some (real a, [])))"

definition g4_parse_double :: "string \<Rightarrow> real option" where
  "g4_parse_double s =
     (let (sg, r) = g4_sign s in
      Option.bind (g4_mantissa r) (\<lambda>(m, rest).
        case rest of
          [] \<Rightarrow> Some (of_int sg * m)
        | c # e \<Rightarrow> if c = CHR ''e'' \<or> c = CHR ''E''
                   then map_option (\<lambda>x. of_int sg * m * 10 powr of_int x) (g4_exponent e) else None))"

text \<open>
  The units of category \<^verbatim>\<open>Length\<close> of \<^verbatim>\<open>G4UnitsTable\<close>, by name and symbol, in
  Geant4's internal unit, the millimetre; a unit parameter accepts either.
\<close>

definition g4_length_units :: "(string \<times> string \<times> real) list" where
  "g4_length_units =
     [(''parsec'', ''pc'', 3.0856775807 * 10 ^ 19), (''kilometer'', ''km'', 10 ^ 6),
      (''meter'', ''m'', 1000), (''centimeter'', ''cm'', 10), (''millimeter'', ''mm'', 1),
      (''micrometer'', ''um'', 1 / 10 ^ 3), (''nanometer'', ''nm'', 1 / 10 ^ 6),
      (''angstrom'', ''Ang'', 1 / 10 ^ 7), (''fermi'', ''fm'', 1 / 10 ^ 12)]"

definition g4_unit_value :: "string \<Rightarrow> real option" where
  "g4_unit_value u =
     map_option (\<lambda>(n, s, v). v) (find (\<lambda>(n, s, v). u = n \<or> u = s) g4_length_units)"

section \<open>The UI manager and \<^verbatim>\<open>/run/setCut\<close>\<close>

text \<open>
  The part of the Geant4 kernel the command acts on: the application state and the
  physics list's default production cut, in mm (\<^verbatim>\<open>FTFP_BERT\<close> sets 0.7 mm).
  After \<^verbatim>\<open>G4RunManager::Initialize\<close> the state is \<^verbatim>\<open>Idle\<close>.
\<close>

datatype g4_app_state = PreInit | Init | Idle | GeomClosed | EventProc | Quit | Abort

record g4_kernel =
  g4_state :: g4_app_state
  default_cut :: real

definition g4_after_init :: g4_kernel where
  "g4_after_init = \<lparr>g4_state = Idle, default_cut = 7 / 10\<rparr>"

text \<open>
  The status codes of \<^verbatim>\<open>G4UIcommandStatus\<close> (the parameter errors carry the index
  of the offending parameter, which Geant4 adds to the code).
\<close>

datatype g4_status =
    CommandNotFound
  | IllegalApplicationState
  | ParameterOutOfRange nat
  | ParameterUnreadable nat
  | ParameterOutOfCandidates nat

text \<open>\<^verbatim>\<open>G4Tokenizer\<close>: the words of a parameter list, blanks skipped.\<close>

fun g4_tokens_acc :: "string \<Rightarrow> string \<Rightarrow> string list" where
  "g4_tokens_acc w [] = (if w = [] then [] else [w])"
| "g4_tokens_acc w (c # s) =
     (if c = CHR '' '' then (if w = [] then g4_tokens_acc [] s else w # g4_tokens_acc [] s)
      else g4_tokens_acc (w @ [c]) s)"

definition g4_tokens :: "string \<Rightarrow> string list" where
  "g4_tokens s = g4_tokens_acc [] s"

text \<open>
  \<^verbatim>\<open>/run/setCut\<close> is a \<^verbatim>\<open>G4UIcmdWithADoubleAndUnit\<close> of
  \<^verbatim>\<open>G4UserPhysicsListMessenger\<close>: parameter 0 the cut, a double that cannot be
  omitted; parameter 1 the unit, a string that may be omitted (default \<^verbatim>\<open>mm\<close>)
  and whose value must be a length unit; the last string parameter takes the rest of the
  line; the command's range is \<^verbatim>\<open>cut >= 0.0\<close>; it is available in the states
  \<^verbatim>\<open>PreInit\<close> and \<^verbatim>\<open>Idle\<close>.  The messenger sets the default cut to the value
  times its unit.
\<close>

definition g4_setcut :: "string list \<Rightarrow> g4_kernel \<Rightarrow> g4_status + g4_kernel" where
  "g4_setcut ws k =
     (if g4_state k \<notin> {PreInit, Idle} then Inl IllegalApplicationState
      else case ws of
        [] \<Rightarrow> Inl (ParameterUnreadable 0)
      | v # us \<Rightarrow>
          (case g4_parse_double v of
             None \<Rightarrow> Inl (ParameterUnreadable 0)
           | Some x \<Rightarrow>
               (let u = (if us = [] then ''mm'' else py_join '' '' us) in
                case g4_unit_value u of
                  None \<Rightarrow> Inl (ParameterOutOfCandidates 1)
                | Some uv \<Rightarrow> if x < 0 then Inl (ParameterOutOfRange 99)
                             else Inr (k\<lparr>default_cut := x * uv\<rparr>))))"

text \<open>
  \<^verbatim>\<open>G4UImanager::ApplyCommand\<close>: the command path is the text before the first
  blank, the parameters the text after it.  Of Geant4's command tree \<^verbatim>\<open>/run/setCut\<close>
  is modelled; the rest of the tree is the parameter \<open>other\<close>, which gives the result
  of any other path with its parameters (\<^verbatim>\<open>CommandNotFound\<close> for a path that names
  no command), so that the theorems hold whatever the other commands do.
\<close>

type_synonym g4_commands = "string \<Rightarrow> string \<Rightarrow> g4_kernel \<Rightarrow> g4_status + g4_kernel"

definition g4_apply_command :: "g4_commands \<Rightarrow> string \<Rightarrow> g4_kernel \<Rightarrow> g4_status + g4_kernel" where
  "g4_apply_command other cmd k =
     (let path = takeWhile (\<lambda>c. c \<noteq> CHR '' '') cmd;
          params = drop 1 (dropWhile (\<lambda>c. c \<noteq> CHR '' '') cmd) in
      if path = ''/run/setCut'' then g4_setcut (g4_tokens params) k else other path params k)"

text \<open>
  \<^verbatim>\<open>SimG4Svc::initialize\<close> applies the post-initialisation commands in order and
  does not look at their status: a failing command leaves the kernel as it was and the
  initialisation goes on.  The statuses are returned here to make the failures visible.
\<close>

fun g4_post_init :: "g4_commands \<Rightarrow> string list \<Rightarrow> g4_kernel \<Rightarrow> g4_kernel \<times> (g4_status option) list" where
  "g4_post_init other [] k = (k, [])"
| "g4_post_init other (c # cs) k =
     (case g4_apply_command other c k of
        Inl st \<Rightarrow> (let (k', sts) = g4_post_init other cs k in (k', Some st # sts))
      | Inr k1 \<Rightarrow> (let (k', sts) = g4_post_init other cs k1 in (k', None # sts)))"

section \<open>Decimal text\<close>

text \<open>
  The text \<open>d\<^sub>1...d\<^sub>j.f\<^sub>1...f\<^sub>k\<close> of the number \<open>m / 10\<^sup>k\<close>, as one writes
  it in a command (\<^verbatim>\<open>0.1\<close> is \<open>g4_decimal 1 1\<close>).
\<close>

definition g4_decimal :: "nat \<Rightarrow> nat \<Rightarrow> string" where
  "g4_decimal m k =
     (let s = py_str_nat m; z = replicate (Suc k - length s) (CHR ''0'') @ s
      in take (length z - k) z @ ''.'' @ drop (length z - k) z)"

section \<open>Reading a number\<close>

lemma g4_digit_zero [simp]: "g4_digit CHR ''0''"
  by (simp add: g4_digit_def)

lemma g4_digit_not_sep [simp]:
  "\<not> g4_digit CHR ''.''" "\<not> g4_digit CHR '' ''" "\<not> g4_digit CHR ''+''" "\<not> g4_digit CHR ''-''"
  "\<not> g4_digit CHR ''e''" "\<not> g4_digit CHR ''E''"
  by (simp_all add: g4_digit_def)

lemma digits_val_Some: "list_all g4_digit s \<Longrightarrow> \<exists>n. digits_val acc s = Some n"
  by (induction s arbitrary: acc) (auto simp: g4_digit_def Let_def)

lemma digits_val_zeros: "digits_val acc (replicate z (CHR ''0'') @ s) = digits_val (10 ^ z * acc) s"
  by (induction z arbitrary: acc) (simp_all add: algebra_simps)

lemma g4_digits_py_str_nat: "list_all g4_digit (py_str_nat n)"
  using py_str_nat_digits [of n] by (simp add: g4_digit_def [abs_def])

lemma g4_mantissa_decimal:
  assumes "A \<noteq> []" and "list_all g4_digit A" and "list_all g4_digit B"
    and "digits_val 0 A = Some a" and "digits_val 0 B = Some b"
  shows "g4_parse_double (A @ ''.'' @ B) = Some (real a + real b / 10 ^ length B)"
proof -
  obtain x A' where A: "A = x # A'" using assms(1) by (cases A) auto
  have x: "g4_digit x" using assms(2) A by simp
  then have "x \<noteq> CHR ''+''" "x \<noteq> CHR ''-''" by (auto simp: g4_digit_def)
  then have sg: "g4_sign (A @ CHR ''.'' # B) = (1, A @ CHR ''.'' # B)" by (simp add: g4_sign_def A)
  have tw: "takeWhile g4_digit (A @ CHR ''.'' # B) = A" "dropWhile g4_digit (A @ CHR ''.'' # B) = CHR ''.'' # B"
    using assms(2) by (simp_all add: takeWhile_append2 dropWhile_append2 list_all_iff)
  have tB: "takeWhile g4_digit B = B" "dropWhile g4_digit B = []"
    using assms(3) by (simp_all add: list_all_iff)
  show ?thesis
    using assms(1,4,5) by (simp add: g4_parse_double_def sg g4_mantissa_def tw tB)
qed

lemma g4_decimal_parse: "g4_parse_double (g4_decimal m k) = Some (real m / 10 ^ k)"
proof -
  define s where "s = py_str_nat m"
  define z where "z = replicate (Suc k - length s) (CHR ''0'') @ s"
  define A where "A = take (length z - k) z"
  define B where "B = drop (length z - k) z"
  have lz: "Suc k \<le> length z" by (simp add: z_def)
  have dz: "list_all g4_digit z" using g4_digits_py_str_nat [of m] by (auto simp: z_def s_def list_all_iff dest: in_set_replicate [THEN iffD1])
  have zAB: "z = A @ B" by (simp add: A_def B_def)
  have lB: "length B = k" using lz by (simp add: B_def)
  have nA: "A \<noteq> []" using lz by (auto simp: A_def)
  have dA: "list_all g4_digit A" and dB: "list_all g4_digit B" using dz zAB by simp_all
  obtain a where a: "digits_val 0 A = Some a" using digits_val_Some [OF dA] by blast
  obtain b where b: "digits_val 0 B = Some b" using digits_val_Some [OF dB] by blast
  have "digits_val 0 z = Some m"
    by (simp add: z_def s_def digits_val_zeros digits_val_py_str_nat)
  moreover have "digits_val 0 z = Some (10 ^ k * a + b)"
    using a b lB digits_val_acc [of a B] by (simp add: zAB digits_val_append)
  ultimately have "m = 10 ^ k * a + b" by simp
  then have m: "real m = 10 ^ k * real a + real b" by simp
  have "g4_decimal m k = A @ ''.'' @ B" by (simp add: g4_decimal_def Let_def A_def B_def z_def s_def)
  then show ?thesis
    using g4_mantissa_decimal [OF nA dA dB a b] lB m by (simp add: field_simps)
qed

section \<open>Applying \<^verbatim>\<open>/run/setCut\<close>\<close>

lemma g4_tokens_acc_word:
  "CHR '' '' \<notin> set s \<Longrightarrow> g4_tokens_acc w (s @ r) = g4_tokens_acc (w @ s) r"
  by (induction s arbitrary: w) auto

lemma g4_decimal_no_blank: "CHR '' '' \<notin> set (g4_decimal m k)"
proof -
  define z where "z = replicate (Suc k - length (py_str_nat m)) (CHR ''0'') @ py_str_nat m"
  have d: "g4_decimal m k = take (length z - k) z @ ''.'' @ drop (length z - k) z"
    by (simp add: g4_decimal_def Let_def z_def)
  have "\<forall>c \<in> set z. g4_digit c"
    using g4_digits_py_str_nat [of m] by (auto simp: z_def list_all_iff dest: in_set_replicate [THEN iffD1])
  then have "CHR '' '' \<notin> set z" by auto
  then show ?thesis by (auto simp: d dest: in_set_takeD in_set_dropD)
qed

lemma g4_decimal_not_Nil: "g4_decimal m k \<noteq> []"
  by (simp add: g4_decimal_def Let_def)

lemma g4_tokens_two:
  assumes "CHR '' '' \<notin> set x" "x \<noteq> []" "CHR '' '' \<notin> set u" "u \<noteq> []"
  shows "g4_tokens (x @ CHR '' '' # u) = [x, u]"
  using assms g4_tokens_acc_word [of x "[]" "CHR '' '' # u"] g4_tokens_acc_word [of u "[]" "[]"]
  by (simp add: g4_tokens_def)

lemma g4_setcut_value:
  assumes "g4_unit_value u = Some uv" "CHR '' '' \<notin> set u" "u \<noteq> []"
  shows "g4_apply_command other (''/run/setCut '' @ g4_decimal m k @ '' '' @ u) g4_after_init =
           Inr (g4_after_init\<lparr>default_cut := real m / 10 ^ k * uv\<rparr>)"
proof -
  have "takeWhile (\<lambda>c. c \<noteq> CHR '' '') (''/run/setCut '' @ g4_decimal m k @ '' '' @ u) = ''/run/setCut''"
       "drop 1 (dropWhile (\<lambda>c. c \<noteq> CHR '' '') (''/run/setCut '' @ g4_decimal m k @ '' '' @ u)) =
          g4_decimal m k @ CHR '' '' # u"
    by simp_all
  then show ?thesis
    using assms g4_tokens_two [OF g4_decimal_no_blank g4_decimal_not_Nil assms(2,3)]
    by (simp add: g4_apply_command_def g4_setcut_def g4_decimal_parse g4_after_init_def not_less)
qed

section \<open>The post-initialisation commands\<close>

lemma geantservice_command: "g4PostInitCommands geantservice_cfg = [''/run/setCut '' @ g4_decimal 1 1 @ '' '' @ ''mm'']"
  by (simp add: geantservice_cfg_def simg4svc_new_def g4_decimal_def py_str_nat.simps digit_char_def)

section \<open>Properties of the Geant4 settings\<close>

text \<open>
  Claim C12.  Lines 51--57 configure \<^verbatim>\<open>SimG4Svc\<close> with the DD4hep detector, the
  \<^verbatim>\<open>FTFP_BERT\<close> physics list and the full-simulation actions.  Its one
  post-initialisation command succeeds, whatever the rest of Geant4's command tree does, and
  lowers the default production cut from
  \<^verbatim>\<open>FTFP_BERT\<close>'s 0.7 mm to 0.1 mm.  Geant4's seed is 4242 whatever seed Gaudi
  would give, as \<^verbatim>\<open>randomNumbersFromGaudi\<close> is off: every job run from this file
  simulates from the same seed, which is why the comment of line 54 asks to change it for
  each job of a production.
\<close>

theorem geantservice_post_init:
  "g4_post_init other (g4PostInitCommands geantservice_cfg) g4_after_init = (g4_after_init\<lparr>default_cut := 1 / 10\<rparr>, [None]) \<and>
   g4_detector geantservice_cfg = ''SimG4DD4hepDetector'' \<and> g4_physicslist geantservice_cfg = ''SimG4FtfpBert'' \<and>
   g4_actions geantservice_cfg = ''SimG4FullSimActions'' \<and> g4_seed geantservice_cfg gaudi_seed = Some 4242"
proof -
  have "g4_unit_value ''mm'' = Some 1" by (simp add: g4_unit_value_def g4_length_units_def)
  then have "g4_apply_command other (''/run/setCut '' @ g4_decimal 1 1 @ '' '' @ ''mm'') g4_after_init =
      Inr (g4_after_init\<lparr>default_cut := 1 / 10\<rparr>)"
    using g4_setcut_value [where u = "''mm''" and uv = 1 and m = 1 and k = 1] by simp
  then show ?thesis
    by (simp add: geantservice_command del: g4_apply_command_def)
       (simp add: geantservice_cfg_def simg4svc_new_def g4_seed_def)
qed

end

