(* ===== verification/Spec2Isabelle.thy ===== *)
theory Spec2Isabelle
  imports CommandLine SimJob SimG4
begin

text \<open>
  \<^bold>\<open>A verified model of the LAr calorimeter energy-regression scripts.\<close>

  The repository holds two Python scripts under \<^verbatim>\<open>src/FCCSW_ecal\<close>:
  \<^verbatim>\<open>fcc_ee_upstream_inclinedEcal.py\<close>, a Gaudi job that shoots electrons with a
  particle gun through a Geant4 simulation of the inclined LAr barrel calorimeter and writes
  the events, and \<^verbatim>\<open>training.py\<close>, which reads simulated events with ROOT's
  \<^verbatim>\<open>RDataFrame\<close>, derives per-layer energy features of the leading cluster, and fits
  an XGBoost regressor of the truth energy over the cluster energy.  This development
  models the training script, \<^verbatim>\<open>run\<close> of lines 25--122, end to end, and the
  simulation job as the data flow of its Gaudi configuration.

  \<^medskip>\<^bold>\<open>Theories and what they model.\<close>
  \<^item> \<open>Prelude\<close>: checked indexing \<open>nth_opt\<close> (Python's \<^verbatim>\<open>IndexError\<close>,
    C++'s unchecked \<^verbatim>\<open>operator[]\<close>), the error-propagating traversal
    \<open>those_sum\<close> and sequencing \<open>sbind\<close> of computations returning
    \<open>error + value\<close>, the slice \<^verbatim>\<open>s[:-1]\<close> (\<open>py_drop_last\<close>),
    \<^verbatim>\<open>str\<close> of a natural number (\<open>py_str_nat\<close>, with its inverse
    \<open>py_int_of_str\<close>) and \<^verbatim>\<open>' '.join\<close> (\<open>py_join\<close>).
  \<^item> \<open>DataFrame\<close>: ROOT's \<^verbatim>\<open>RDataFrame\<close> as the code uses it.  A data frame
    (\<open>dframe\<close>) is the tree's branch names, the defined columns newest first and the
    filters; \<open>df_apply\<close>/\<open>df_chain\<close> are \<^verbatim>\<open>Define\<close>, \<^verbatim>\<open>Alias\<close> and
    \<^verbatim>\<open>Filter\<close>, raising \<open>Redefined\<close> or \<open>UnknownColumn\<close> as ROOT does;
    \<open>eval_col\<close> computes a column of one event lazily from its dependencies,
    \<open>eval_filters\<close> runs the filters, \<open>row_values\<close>/\<open>as_numpy\<close> are
    \<^verbatim>\<open>AsNumpy\<close> and \<open>df_count\<close> is \<^verbatim>\<open>Count\<close>.  Lemmas: when a chain of
    operations succeeds (\<open>df_chain_ok_iff\<close>), that the graph it builds is well formed
    (\<open>df_chain_defs_wf\<close>), and how a column of a well-formed graph evaluates
    (\<open>eval_col_find\<close>).
  \<^item> \<open>ColumnOps\<close>: the C++ expressions of lines 35--44 and 50, each a function of
    the values of the columns it names: \<^verbatim>\<open>ArgMax\<close> as the loop of
    \<^verbatim>\<open>std::max_element\<close> (\<open>argmax_loop\<close>, equal to the first index of the
    maximum by \<open>rvec_argmax_first_idx\<close>); FCCAnalyses'
    \<^verbatim>\<open>getCaloCluster_energyInLayers\<close> as its loop over the cluster's cells
    (\<open>add_cells\<close>, equal to per-layer sums by \<open>energy_in_layers_ok\<close>);
    \<^verbatim>\<open>getFloatAt\<close>, the indexing expressions and the cut.
  \<^item> \<open>TrainingGraph\<close>: the graph of lines 30--50 as a list of operations
    (\<open>run_ops\<close>), with the column names built by the f-strings.
  \<^item> \<open>TrainingEvents\<close>: an event of the input file (\<open>edm_event\<close>: generated
    particles, clusters, cells) as a row of the tree, and the row \<^verbatim>\<open>AsNumpy\<close>
    returns for it, computed by the model of the graph, against a direct reference
    (\<open>ref_row\<close>, \<open>ref_passes\<close>); the C++ types of the columns (\<open>col_types\<close>).
  \<^item> \<open>Features\<close>: the NumPy code of lines 57--82 (\<open>numpy_stage\<close>) on
    float64 values (\<open>pyfloat\<close>: a real, \<open>\<plusminus>inf\<close> or NaN), refined to
    the per-event computation \<open>sample\<close>.
  \<^item> \<open>Regressor\<close>: the search space, the regressor with its hand-set
    hyper-parameters and the checks of \<^verbatim>\<open>reg.fit\<close> (\<open>xgb_fit\<close>: data
    checks when the \<^verbatim>\<open>DMatrix\<close> is built, then the parameters).
  \<^item> \<open>TrainingRun\<close>: \<^verbatim>\<open>init_stuff\<close> (lines 129--138) as state passing on a
    record of the ROOT session, and \<open>run_training\<close>, the whole of \<^verbatim>\<open>run\<close>:
    \<^verbatim>\<open>init_stuff\<close>, graph, event loop, NumPy stage and fit, each stage's error a
    constructor of \<open>run_error\<close>; the end-to-end theorems.
  \<^item> \<open>CommandLine\<close>: \<^verbatim>\<open>main\<close> (lines 9--20) with the argparse parser of
    its four arguments (\<open>parse_args\<close>: options, abbreviations, \<^verbatim>\<open>--\<close>, and
    argparse's errors and help as \<open>cli_error\<close>).
  \<^item> \<open>SimGun\<close>: the simulation's units and gun parameters (lines 3--27), the particle
    \<^verbatim>\<open>MomentumRangeParticleGun\<close> draws from four flat random numbers
    (\<open>gun_generate\<close>, an index past the PDG list reset to 0 as the C++ does) and
    \<^verbatim>\<open>HepMCToEDMConverter\<close> (\<open>hepmc_to_edm\<close>, momenta in GeV), with a proof that
    the script's \<open>\<pi>\<close> is below \<open>\<pi>\<close> (\<open>script_pi_less_pi\<close>).
  \<^item> \<open>SimDataflow\<close>: the Gaudi job as data flow.  Each algorithm is a record of the
    store paths it reads and writes (\<open>alg\<close>), executed on the event store
    (\<open>exec_alg\<close>: a missing input or a path written twice raises); what a handle puts
    is a podio collection or another wrapped object (\<open>coll_kind\<close>: the HepMC event,
    the vectors of the layer summary); \<^verbatim>\<open>PodioOutput\<close> writes the podio collections
    its keep/drop switch lets through (\<open>keep_drop\<close>, \<open>wildcmp\<close>,
    \<open>podio_write\<close>); the services start in \<^verbatim>\<open>ExtSvc\<close> order, one used by
    another service or by an algorithm being started on first use as Gaudi does
    (\<open>init_services\<close>, \<open>init_algs\<close>, \<open>app_services\<close>);
    \<^verbatim>\<open>ApplicationMgr\<close> (\<open>application_mgr\<close>, \<open>app_run\<close>) runs the event
    loop \<open>event_loop\<close>, a \<^theory_text>\<open>partial_function (option)\<close> because
    \<^verbatim>\<open>EvtMax = -1\<close> with \<^verbatim>\<open>EvtSel = 'NONE'\<close> never ends
    (\<open>event_loop_ok\<close>, \<open>event_loop_diverges\<close>); the sampling fractions and the
    detector paths of \<^verbatim>\<open>GeoSvc\<close>.
  \<^item> \<open>SimCells\<close>: what two algorithms of the job compute on an event.
    \<^verbatim>\<open>CreateCaloCells\<close> (\<open>cc_execute\<close>, with its member map as the state
    \<open>cc_state\<close> and the script's flags \<open>createcellsBarrel_cfg\<close>) merges the
    Geant4 hits by cell identifier (\<open>add_hit\<close>, an association-list update), and
    calibrates, adds noise and filters it only under the flags that select them;
    \<^verbatim>\<open>EnergyInCaloLayers\<close> (\<open>eil_execute\<close>) sums the cells of each layer,
    read with the readout's decoder from the 64-bit cell identifier (\<open>bf_value\<close>,
    \<open>bf_get\<close>), and divides by the sampling fractions.  The tools the script leaves
    switched off and the readout's descriptor are parameters of the theorems.
  \<^item> \<open>SimJob\<close>: the job with the data its algorithms pass on
    (\<open>sim_event\<close>: gun, conversion to the EDM (\<open>hepmc_to_mc\<close>), the Geant4
    primaries \<^verbatim>\<open>SimG4PrimariesFromEdmTool\<close> builds (\<open>g4_event\<close>), Geant4's
    hits as a parameter \<open>transport\<close>, cell creation, layer summary, in
    \<^verbatim>\<open>TopAlg\<close> order), run over the events with the cell-creation state threaded
    from one to the next (\<open>sim_job\<close>).
  \<^item> \<open>SimG4\<close>: the settings of \<^verbatim>\<open>SimG4Svc\<close> (lines 48--57,
    \<open>geantservice_cfg\<close>), the seed they select (\<open>g4_seed\<close>), and what
    \<^verbatim>\<open>SimG4Svc::initialize\<close> does with \<^verbatim>\<open>g4PostInitCommands\<close>
    (\<open>g4_post_init\<close>): each command goes through Geant4's UI manager
    (\<open>g4_apply_command\<close>: \<^verbatim>\<open>/run/setCut\<close> with \<^verbatim>\<open>G4Tokenizer\<close>,
    \<^verbatim>\<open>IsDouble\<close>, unit candidates, range check and its messenger; the rest of the
    command tree a parameter \<open>other\<close>) and its status is ignored.
  \<^item> \<open>Spec2Isabelle\<close> (this theory): how podio names the branches of a written
    collection (\<open>podio_branch_of\<close>) and the property that joins the two scripts.

  \<^medskip>\<^bold>\<open>What the theorems show.\<close>  On a well-formed input \<^verbatim>\<open>run\<close> raises
  nothing and fits the regressor on the samples of exactly the events the filter keeps
  (\<open>run_training_ok\<close>), and \<^verbatim>\<open>main\<close> does so on what it parsed
  (\<open>main_runs\<close>); building the graph succeeds under plain conditions on the names
  (\<open>run_graph_ok\<close>); each row read is the leading cluster's energy and its twelve
  layer energies (\<open>run_row_values\<close>), and lazy evaluation makes an event without
  generated particles fail only when the cut keeps it (\<open>run_row_values_no_particles\<close>);
  the vectorised NumPy code equals the per-event computation (\<open>numpy_stage_refines\<close>)
  and gives normalised features (\<open>numpy_stage_normalised\<close>); the sample weight is
  negative exactly above 1000 GeV (\<open>weight_of_bounds\<close>), and two inputs the filter lets
  through make the fit raise: a zero sum of the layer energies
  (\<open>run_training_zero_layer_sum\<close>) and a truth momentum above 1000 GeV
  (\<open>run_training_above_1000\<close>).  The command line parses back every rendered argument
  record (\<open>parse_args_roundtrip\<close>) and rejects a missing or a second positional
  argument (\<open>parse_args_errors\<close>).  On the simulation side, the job starts its
  services, fills each event's store with every collection and layer-summary output, and
  writes only \<^verbatim>\<open>GenParticles\<close> in each of its ten events (\<open>sim_job_run\<close>,
  \<open>out_keep_drop\<close>); the gun shoots 50 GeV electrons in the configured ranges
  (\<open>gun_generate_pgun\<close>); the geometry paths follow \<^verbatim>\<open>FCCDETECTORS\<close>
  (\<open>geo_detectors_paths\<close>).  The cell creation writes one cell per cell identifier
  with the total energy of its hits (\<open>create_cells_merge\<close>, as a multiset, since
  the C++ map has no order) and, as it clears its map at each event, writes for each event
  what it writes for that event alone (\<open>create_cells_history_free\<close>); the layer
  energies the job computes are the raw hit energies divided exactly once by the sampling
  fractions (\<open>layers_calibrated_once\<close>), event after event over a whole job
  (\<open>sim_job_layers\<close>).  The Geant4 service lowers the production cut to 0.1 mm,
  whatever the other Geant4 commands do, and fixes the seed to 4242
  (\<open>geantservice_post_init\<close>).  Across the two scripts: on any tree built from the
  job's output \<^verbatim>\<open>run\<close> fails at its first \<^verbatim>\<open>Define\<close>, since it reads
  \<^verbatim>\<open>genParticles\<close> and the job writes \<^verbatim>\<open>GenParticles\<close>
  (\<open>sim_output_lacks_training_inputs\<close>).

  \<^medskip>\<^bold>\<open>Modelling choices.\<close>  Floating-point numbers are reals: rounding is not
  modelled, and a float64 division by zero gives \<open>\<plusminus>inf\<close> or NaN by the sign of the
  dividend (the divisor taken as \<open>+0\<close>).  The libraries the script calls (ROOT,
  FCCAnalyses, NumPy, XGBoost) are modelled by their documented behaviour on the calls the
  script makes; XGBoost's boosting is not modelled: a fitted model is its parameters and the
  data it was fitted on.  Gaudi, the gun, the converter, \<^verbatim>\<open>CreateCaloCells\<close>,
  \<^verbatim>\<open>EnergyInCaloLayers\<close>, DD4hep's bit fields and Geant4's UI manager are modelled
  likewise.  Where the C++ has undefined behaviour (\<^verbatim>\<open>EnergyInCaloLayers\<close>
  writing past its vector of layer sums) the model stops with an error value, and the
  theorems speak only of inputs that stay in range.  The theorems about
  \<^verbatim>\<open>CreateCaloCells\<close> and \<^verbatim>\<open>EnergyInCaloLayers\<close> quantify over the tools
  and the readout descriptor the script does not fix, and those about the cells compare
  multisets, as C++ gives the \<^verbatim>\<open>unordered_map\<close> no order.  The loops of the
  training are bounded (twelve layers, the cells of a cluster, the events of the file) and
  are structural recursions; the only loop that may not end, Gaudi's event loop, is a
  partial function, which returns the events' outputs for every \<open>EvtMax \<ge> 0\<close>
  (\<open>event_loop_ok\<close>).

  \<^medskip>\<^bold>\<open>Not modelled.\<close>  Printing and timing; in \<^verbatim>\<open>init_stuff\<close>, the
  dictionary loader \<^verbatim>\<open>dummyLoader\<close> and what the geometry file contains; in the
  parser, arguments containing a blank that argparse may take as positional, an explicit
  value given to \<^verbatim>\<open>-h\<close>, and the text of the help.  In the simulation, what
  Geant4 computes (the hits are inputs of the model: the parameter \<open>transport\<close>
  gives the hits \<^verbatim>\<open>SimG4SaveCalHits\<close> saves, so its choice of Geant4 hit
  collections by readout name is not modelled) and the
  detector description (the readout's identifier descriptor is a parameter); in the cell
  creation, what the calibration, noise and position tools compute (the script switches
  the first two off, and the theorems hold for any of them); in the layer summary, the
  split of the cryostat energy by type and the particle kinematics it records; the
  particle's energy and vertex; of the Geant4 settings, the detector, physics-list and
  action tools beyond their names, what the Geant4 commands other than
  \<^verbatim>\<open>/run/setCut\<close> do, and how Gaudi derives its seed; other reasons a Gaudi
  service or algorithm may fail to initialise; the auditor, which only measures time.
\<close>

section \<open>From the simulation to the training\<close>

text \<open>
  podio's ROOT writer stores a collection \<open>c\<close> in branches named \<open>c\<close>, or
  \<open>c\<close> followed by \<^verbatim>\<open>.\<close> and a data member (\<^verbatim>\<open>GenParticles.momentum.x\<close>)
  or by \<^verbatim>\<open>#\<close> and a relation index (\<^verbatim>\<open>GenParticles#0\<close>).
\<close>

definition podio_branch_of :: "name \<Rightarrow> name \<Rightarrow> bool" where
  "podio_branch_of c b \<longleftrightarrow>
     take (length c) b = c \<and> (length b = length c \<or> b ! length c \<in> {CHR ''.'', CHR ''#''})"



end
